theory Spec2Isabelle
  imports Main "HOL-Library.Word"
begin

unbundle bit_operations_syntax

section \<open>Z180 core (src/devices/cpu/z180/z180.cpp): data model\<close>

subsection \<open>Flag bits and the precomputed flag tables of device\_start\<close>

definition CF :: "8 word" where "CF = 0x01"
definition NF :: "8 word" where "NF = 0x02"
definition PF :: "8 word" where "PF = 0x04"
definition VF :: "8 word" where "VF = PF"
definition XF :: "8 word" where "XF = 0x08"
definition HF :: "8 word" where "HF = 0x10"
definition YF :: "8 word" where "YF = 0x20"
definition ZF :: "8 word" where "ZF = 0x40"
definition SF :: "8 word" where "SF = 0x80"

text \<open>
  The loop variables \<open>oldval\<close>, \<open>newval\<close> and \<open>val\<close> of \<open>device_start\<close> are C
  \<open>int\<close>s (\<open>val\<close> may be negative; \<open>&\<close> and \<open>^\<close> act on the two's complement
  representation, as \<open>AND\<close> and \<open>XOR\<close> on \<open>int\<close> do); the table cells are
  \<open>uint8_t\<close>.

  \<open>sz_xy\<close> is the part shared by the four cells written in one pass of the loop body:
  \<open>(newval) ? ((newval & 0x80) ? SF : 0) : ZF\<close>, then \<open>|= (newval & (YF | XF))\<close>.
\<close>

definition sz_xy :: "int \<Rightarrow> 8 word" where
  "sz_xy newval =
     (if newval \<noteq> 0 then (if newval AND 0x80 \<noteq> 0 then SF else 0) else ZF)
       OR word_of_int (newval AND uint (YF OR XF))"

definition padd_entry :: "int \<Rightarrow> int \<Rightarrow> 8 word" where
  "padd_entry oldval newval =
    (let val = newval - oldval;
         f1 = sz_xy newval;
         f2 = (if (newval AND 0x0f) < (oldval AND 0x0f) then f1 OR HF else f1);
         f3 = (if newval < oldval then f2 OR CF else f2)
     in (if (val XOR oldval XOR 0x80) AND (val XOR newval) AND 0x80 \<noteq> 0
         then f3 OR VF else f3))"

definition padc_entry :: "int \<Rightarrow> int \<Rightarrow> 8 word" where
  "padc_entry oldval newval =
    (let val = newval - oldval - 1;
         f1 = sz_xy newval;
         f2 = (if (newval AND 0x0f) \<le> (oldval AND 0x0f) then f1 OR HF else f1);
         f3 = (if newval \<le> oldval then f2 OR CF else f2)
     in (if (val XOR oldval XOR 0x80) AND (val XOR newval) AND 0x80 \<noteq> 0
         then f3 OR VF else f3))"

definition psub_entry :: "int \<Rightarrow> int \<Rightarrow> 8 word" where
  "psub_entry oldval newval =
    (let val = oldval - newval;
         f1 = NF OR sz_xy newval;
         f2 = (if (newval AND 0x0f) > (oldval AND 0x0f) then f1 OR HF else f1);
         f3 = (if newval > oldval then f2 OR CF else f2)
     in (if (val XOR oldval) AND (oldval XOR newval) AND 0x80 \<noteq> 0
         then f3 OR VF else f3))"

definition psbc_entry :: "int \<Rightarrow> int \<Rightarrow> 8 word" where
  "psbc_entry oldval newval =
    (let val = oldval - newval - 1;
         f1 = NF OR sz_xy newval;
         f2 = (if (newval AND 0x0f) \<ge> (oldval AND 0x0f) then f1 OR HF else f1);
         f3 = (if newval \<ge> oldval then f2 OR CF else f2)
     in (if (val XOR oldval) AND (oldval XOR newval) AND 0x80 \<noteq> 0
         then f3 OR VF else f3))"

text \<open>
  The nested loops \<open>for oldval in 0..255, for newval in 0..255\<close> advance the four cell
  pointers together, so each half-table is filled row by row; \<open>padd\<close> and \<open>psub\<close> start
  at offset 0, \<open>padc\<close> and \<open>psbc\<close> at offset \<open>256*256\<close> of the same array.
\<close>

definition fill_table :: "(int \<Rightarrow> int \<Rightarrow> 8 word) \<Rightarrow> 8 word list" where
  "fill_table entry =
     concat (map (\<lambda>oldval. map (\<lambda>newval. entry (int oldval) (int newval)) [0..<256]) [0..<256])"

definition SZHVC_add :: "8 word list" where
  "SZHVC_add = fill_table padd_entry @ fill_table padc_entry"

definition SZHVC_sub :: "8 word list" where
  "SZHVC_sub = fill_table psub_entry @ fill_table psbc_entry"

text \<open>
  The reference the tables are compared with, following the specification's wording: a
  direct recomputation of sign, zero, half carry, overflow and carry from the two
  operands \<open>a\<close>, \<open>b\<close> and the carry-in, with bits 3 and 5 copied from the result.
  Half carry is the carry (borrow) out of the low nibble, carry the carry (borrow) out of
  bit 7, overflow the signed result leaving \<open>-128..127\<close>.
\<close>

definition direct_sz_xy :: "8 word \<Rightarrow> 8 word" where
  "direct_sz_xy r = (if r = 0 then ZF else if bit r 7 then SF else 0) OR (r AND (YF OR XF))"

definition direct_add_flags :: "8 word \<Rightarrow> 8 word \<Rightarrow> bool \<Rightarrow> 8 word" where
  "direct_add_flags a b carry =
    (let c = (if carry then 1 else 0);
         r = a + b + (if carry then 1 else 0);
         f1 = direct_sz_xy r;
         f2 = (if 15 < uint (a AND 0x0f) + uint (b AND 0x0f) + c then f1 OR HF else f1);
         f3 = (if 255 < uint a + uint b + c then f2 OR CF else f2);
         s = sint a + sint b + c
     in (if s < -128 \<or> 127 < s then f3 OR VF else f3))"

definition direct_sub_flags :: "8 word \<Rightarrow> 8 word \<Rightarrow> bool \<Rightarrow> 8 word" where
  "direct_sub_flags a b carry =
    (let c = (if carry then 1 else 0);
         r = a - b - (if carry then 1 else 0);
         f1 = NF OR direct_sz_xy r;
         f2 = (if uint (a AND 0x0f) < uint (b AND 0x0f) + c then f1 OR HF else f1);
         f3 = (if uint a < uint b + c then f2 OR CF else f2);
         s = sint a - sint b - c
     in (if s < -128 \<or> 127 < s then f3 OR VF else f3))"

definition s8 :: "int \<Rightarrow> int" where
  "s8 A = (if 128 \<le> A then A - 256 else A)"

subsection \<open>Register pairs, line masks and register bit names\<close>

text \<open>
  \<open>PAIR\<close> is the emulator's 32-bit union: \<open>d\<close> is the whole value, \<open>w.l\<close> the low
  16 bits, \<open>b.l\<close>, \<open>b.h\<close>, \<open>b.h2\<close> the three low bytes in order of significance.
  \<open>PAIR16\<close> is its 16-bit sibling with \<open>w\<close>, \<open>b.l\<close> and \<open>b.h\<close>. A pair is modelled by
  its \<open>d\<close> (resp. \<open>w\<close>) value; the accessors below read and replace the overlaid parts.
\<close>

definition w_l :: "32 word \<Rightarrow> 16 word" where
  "w_l p = ucast p"

definition set_w_l :: "32 word \<Rightarrow> 16 word \<Rightarrow> 32 word" where
  "set_w_l p v = (p AND 0xFFFF0000) OR ucast v"

definition b_l :: "32 word \<Rightarrow> 8 word" where
  "b_l p = ucast p"

definition b_h :: "32 word \<Rightarrow> 8 word" where
  "b_h p = ucast (drop_bit 8 p)"

definition b_h2 :: "32 word \<Rightarrow> 8 word" where
  "b_h2 p = ucast (drop_bit 16 p)"

definition set_b_l :: "32 word \<Rightarrow> 8 word \<Rightarrow> 32 word" where
  "set_b_l p v = (p AND 0xFFFFFF00) OR ucast v"

definition set_b_h :: "32 word \<Rightarrow> 8 word \<Rightarrow> 32 word" where
  "set_b_h p v = (p AND 0xFFFF00FF) OR push_bit 8 (ucast v)"

definition set_b_h2 :: "32 word \<Rightarrow> 8 word \<Rightarrow> 32 word" where
  "set_b_h2 p v = (p AND 0xFF00FFFF) OR push_bit 16 (ucast v)"

definition lo16 :: "16 word \<Rightarrow> 8 word" where
  "lo16 p = ucast p"

definition hi16 :: "16 word \<Rightarrow> 8 word" where
  "hi16 p = ucast (drop_bit 8 p)"

definition set_lo16 :: "16 word \<Rightarrow> 8 word \<Rightarrow> 16 word" where
  "set_lo16 p v = (p AND 0xFF00) OR ucast v"

definition set_hi16 :: "16 word \<Rightarrow> 8 word \<Rightarrow> 16 word" where
  "set_hi16 p v = (p AND 0x00FF) OR push_bit 8 (ucast v)"

text \<open>Interrupt priorities (indices of \<open>m_int_pending\<close>).\<close>

definition Z180_INT_TRAP :: nat where "Z180_INT_TRAP = 0"
definition Z180_INT_NMI :: nat where "Z180_INT_NMI = 1"
definition Z180_INT_IRQ0 :: nat where "Z180_INT_IRQ0 = 2"
definition Z180_INT_IRQ1 :: nat where "Z180_INT_IRQ1 = 3"
definition Z180_INT_IRQ2 :: nat where "Z180_INT_IRQ2 = 4"
definition Z180_INT_PRT0 :: nat where "Z180_INT_PRT0 = 5"
definition Z180_INT_PRT1 :: nat where "Z180_INT_PRT1 = 6"
definition Z180_INT_DMA0 :: nat where "Z180_INT_DMA0 = 7"
definition Z180_INT_DMA1 :: nat where "Z180_INT_DMA1 = 8"
definition Z180_INT_CSIO :: nat where "Z180_INT_CSIO = 9"
definition Z180_INT_ASCI0 :: nat where "Z180_INT_ASCI0 = 10"
definition Z180_INT_ASCI1 :: nat where "Z180_INT_ASCI1 = 11"
definition Z180_INT_MAX :: nat where "Z180_INT_MAX = Z180_INT_ASCI1"

text \<open>I/O line status flags (bits of \<open>m_iol\<close>).\<close>

definition Z180_CKA0 :: "32 word" where "Z180_CKA0 = 0x00000001"
definition Z180_CKA1 :: "32 word" where "Z180_CKA1 = 0x00000002"
definition Z180_CKS :: "32 word" where "Z180_CKS = 0x00000004"
definition Z180_CTS0 :: "32 word" where "Z180_CTS0 = 0x00000100"
definition Z180_CTS1 :: "32 word" where "Z180_CTS1 = 0x00000200"
definition Z180_DCD0 :: "32 word" where "Z180_DCD0 = 0x00000400"
definition Z180_DREQ0 :: "32 word" where "Z180_DREQ0 = 0x00000800"
definition Z180_DREQ1 :: "32 word" where "Z180_DREQ1 = 0x00001000"
definition Z180_RXA0 :: "32 word" where "Z180_RXA0 = 0x00002000"
definition Z180_RXA1 :: "32 word" where "Z180_RXA1 = 0x00004000"
definition Z180_RXS :: "32 word" where "Z180_RXS = 0x00008000"
definition Z180_TEND0 :: "32 word" where "Z180_TEND0 = 0x00020000"
definition Z180_TEND1 :: "32 word" where "Z180_TEND1 = 0x00040000"

text \<open>Bits and masks of the internal I/O registers.\<close>

definition Z180_CNTLA0_RTS0 :: "8 word" where "Z180_CNTLA0_RTS0 = 0x10"
definition Z180_CNTLA0_MPBR_EFR :: "8 word" where "Z180_CNTLA0_MPBR_EFR = 0x08"
definition Z180_CNTLA1_CKA1D :: "8 word" where "Z180_CNTLA1_CKA1D = 0x10"
definition Z180_CNTLA1_MPBR_EFR :: "8 word" where "Z180_CNTLA1_MPBR_EFR = 0x08"
definition Z180_CNTLB0_MPBT :: "8 word" where "Z180_CNTLB0_MPBT = 0x80"
definition Z180_CNTLB0_CTS_PS :: "8 word" where "Z180_CNTLB0_CTS_PS = 0x20"
definition Z180_CNTLB1_MPBT :: "8 word" where "Z180_CNTLB1_MPBT = 0x80"
definition Z180_STAT0_RIE :: "8 word" where "Z180_STAT0_RIE = 0x08"
definition Z180_STAT0_DCD0 :: "8 word" where "Z180_STAT0_DCD0 = 0x04"
definition Z180_STAT0_TDRE :: "8 word" where "Z180_STAT0_TDRE = 0x02"
definition Z180_STAT0_TIE :: "8 word" where "Z180_STAT0_TIE = 0x01"
definition Z180_STAT1_RIE :: "8 word" where "Z180_STAT1_RIE = 0x08"
definition Z180_STAT1_CTS1E :: "8 word" where "Z180_STAT1_CTS1E = 0x04"
definition Z180_STAT1_TDRE :: "8 word" where "Z180_STAT1_TDRE = 0x02"
definition Z180_STAT1_TIE :: "8 word" where "Z180_STAT1_TIE = 0x01"
definition Z180_CNTR_EF :: "8 word" where "Z180_CNTR_EF = 0x80"
definition Z180_CNTR_RE :: "8 word" where "Z180_CNTR_RE = 0x20"
definition Z180_CNTR_TE :: "8 word" where "Z180_CNTR_TE = 0x10"
definition Z180_CNTR_MASK :: "8 word" where "Z180_CNTR_MASK = 0xf7"
definition Z180_TCR_TIF1 :: "8 word" where "Z180_TCR_TIF1 = 0x80"
definition Z180_TCR_TIF0 :: "8 word" where "Z180_TCR_TIF0 = 0x40"
definition Z180_TCR_TIE1 :: "8 word" where "Z180_TCR_TIE1 = 0x20"
definition Z180_TCR_TIE0 :: "8 word" where "Z180_TCR_TIE0 = 0x10"
definition Z180_TCR_TDE1 :: "8 word" where "Z180_TCR_TDE1 = 0x02"
definition Z180_TCR_TDE0 :: "8 word" where "Z180_TCR_TDE0 = 0x01"
definition Z180_ASEXT0_BRK_DET :: "8 word" where "Z180_ASEXT0_BRK_DET = 0x02"
definition Z180_ASEXT0_MASK :: "8 word" where "Z180_ASEXT0_MASK = 0x7f"
definition Z180_ASEXT1_BRK_DET :: "8 word" where "Z180_ASEXT1_BRK_DET = 0x02"
definition Z180_ASEXT1_MASK :: "8 word" where "Z180_ASEXT1_MASK = 0x1f"
definition Z180_CMR_MASK :: "8 word" where "Z180_CMR_MASK = 0xc0"
definition Z180_SAR0_MASK :: "32 word" where "Z180_SAR0_MASK = 0x0fffff"
definition Z180_DAR0_MASK :: "32 word" where "Z180_DAR0_MASK = 0x0fffff"
definition Z180_MAR1_MASK :: "32 word" where "Z180_MAR1_MASK = 0x0fffff"
definition Z180_IAR1_MASK :: "32 word" where "Z180_IAR1_MASK = 0xcfffff"
definition Z180_DSTAT_DE1 :: "8 word" where "Z180_DSTAT_DE1 = 0x80"
definition Z180_DSTAT_DE0 :: "8 word" where "Z180_DSTAT_DE0 = 0x40"
definition Z180_DSTAT_DWE1 :: "8 word" where "Z180_DSTAT_DWE1 = 0x20"
definition Z180_DSTAT_DWE0 :: "8 word" where "Z180_DSTAT_DWE0 = 0x10"
definition Z180_DSTAT_DIE1 :: "8 word" where "Z180_DSTAT_DIE1 = 0x08"
definition Z180_DSTAT_DIE0 :: "8 word" where "Z180_DSTAT_DIE0 = 0x04"
definition Z180_DSTAT_DME :: "8 word" where "Z180_DSTAT_DME = 0x01"
definition Z180_DSTAT_MASK :: "8 word" where "Z180_DSTAT_MASK = 0xfd"
definition Z180_DMODE_DM :: "8 word" where "Z180_DMODE_DM = 0x30"
definition Z180_DMODE_SM :: "8 word" where "Z180_DMODE_SM = 0x0c"
definition Z180_DMODE_MMOD :: "8 word" where "Z180_DMODE_MMOD = 0x02"
definition Z180_DMODE_MASK :: "8 word" where "Z180_DMODE_MASK = 0x3e"
definition Z180_DCNTL_DMS0 :: "8 word" where "Z180_DCNTL_DMS0 = 0x04"
definition Z180_DCNTL_DIM1 :: "8 word" where "Z180_DCNTL_DIM1 = 0x02"
definition Z180_DCNTL_DIM0 :: "8 word" where "Z180_DCNTL_DIM0 = 0x01"
definition Z180_IL_MASK :: "8 word" where "Z180_IL_MASK = 0xe0"
definition Z180_ITC_UFO :: "8 word" where "Z180_ITC_UFO = 0x40"
definition Z180_ITC_ITE2 :: "8 word" where "Z180_ITC_ITE2 = 0x04"
definition Z180_ITC_ITE1 :: "8 word" where "Z180_ITC_ITE1 = 0x02"
definition Z180_ITC_ITE0 :: "8 word" where "Z180_ITC_ITE0 = 0x01"
definition Z180_ITC_MASK :: "8 word" where "Z180_ITC_MASK = 0xc7"
definition Z180_RCR_REFE :: "8 word" where "Z180_RCR_REFE = 0x80"
definition Z180_RCR_REFW :: "8 word" where "Z180_RCR_REFW = 0x40"
definition Z180_RCR_MASK :: "8 word" where "Z180_RCR_MASK = 0xc3"
definition Z180_CBAR_CA :: "8 word" where "Z180_CBAR_CA = 0xf0"
definition Z180_CBAR_BA :: "8 word" where "Z180_CBAR_BA = 0x0f"
definition Z180_OMCR_M1E :: "8 word" where "Z180_OMCR_M1E = 0x80"
definition Z180_OMCR_M1TE :: "8 word" where "Z180_OMCR_M1TE = 0x40"
definition Z180_OMCR_IOC :: "8 word" where "Z180_OMCR_IOC = 0x20"
definition Z180_OMCR_MASK :: "8 word" where "Z180_OMCR_MASK = 0xe0"
definition Z180_IOCR_MASK :: "8 word" where "Z180_IOCR_MASK = 0xe0"

text \<open>Line states of the emulator framework.\<close>

definition CLEAR_LINE :: int where "CLEAR_LINE = 0"
definition ASSERT_LINE :: int where "ASSERT_LINE = 1"

subsection \<open>The device state\<close>

text \<open>
  One field per member variable the modelled functions touch, under the member's own
  name. The member declarations live in \<open>z180.h\<close>, which is not among the sources; the
  widths are those the code relies on (byte registers, 16-bit \<open>PAIR16\<close> counters with
  \<open>.w\<close>/\<open>.b\<close> parts, 32-bit \<open>PAIR\<close>s with \<open>.d\<close>, the 16-bit timer down-counters
  \<open>m_tmdr_value\<close> masked with \<open>0xff00\<close>/\<open>0x00ff\<close>, \<open>int\<close> cycle counters). A C array
  is a function from the index; only the valid indices are ever used.

  The two address spaces are external collaborators. \<open>program\<close> is the byte store behind
  \<open>m_program\<close> (20 address bits, see \<open>m_program_config\<close>); \<open>iospace\<close> gives the byte an
  external device returns for a port (16 address bits, \<open>m_io_config\<close>), and \<open>io_log\<close>
  records every access that reaches the external I/O space, in order.
\<close>

datatype io_event = IoRead "32 word" | IoWrite "32 word" "8 word"

record z180_state =
  m_PREPC :: "32 word"
  m_PC :: "32 word"
  m_SP :: "32 word"
  m_AF :: "32 word"
  m_BC :: "32 word"
  m_DE :: "32 word"
  m_HL :: "32 word"
  m_IX :: "32 word"
  m_IY :: "32 word"
  m_AF2 :: "32 word"
  m_BC2 :: "32 word"
  m_DE2 :: "32 word"
  m_HL2 :: "32 word"
  m_R :: "8 word"
  m_R2 :: "8 word"
  m_IFF1 :: "8 word"
  m_IFF2 :: "8 word"
  m_HALT :: "8 word"
  m_IM :: "8 word"
  m_I :: "8 word"
  m_tmdr_latch :: "8 word"
  m_read_tcr_tmdr :: "nat \<Rightarrow> 8 word"
  m_iol :: "32 word"
  m_mmu :: "nat \<Rightarrow> 32 word"
  m_tmdrh :: "nat \<Rightarrow> 8 word"
  m_tmdr_value :: "nat \<Rightarrow> 16 word"
  m_nmi_state :: "8 word"
  m_nmi_pending :: "8 word"
  m_irq_state :: "nat \<Rightarrow> 8 word"
  m_int_pending :: "nat \<Rightarrow> 8 word"
  m_after_EI :: "8 word"
  m_ea :: "32 word"
  m_timer_cnt :: "8 word"
  m_dma0_cnt :: "8 word"
  m_dma1_cnt :: "8 word"
  m_icount :: int
  m_extra_cycles :: int
  m_asci_cntla :: "nat \<Rightarrow> 8 word"
  m_asci_cntlb :: "nat \<Rightarrow> 8 word"
  m_asci_stat :: "nat \<Rightarrow> 8 word"
  m_asci_tdr :: "nat \<Rightarrow> 8 word"
  m_asci_rdr :: "nat \<Rightarrow> 8 word"
  m_asci_ext :: "nat \<Rightarrow> 8 word"
  m_asci_tc :: "nat \<Rightarrow> 16 word"
  m_csio_cntr :: "8 word"
  m_csio_trdr :: "8 word"
  m_tmdr :: "nat \<Rightarrow> 16 word"
  m_rldr :: "nat \<Rightarrow> 16 word"
  m_tcr :: "8 word"
  m_frc :: "8 word"
  m_cmr :: "8 word"
  m_ccr :: "8 word"
  m_dma_sar0 :: "32 word"
  m_dma_dar0 :: "32 word"
  m_dma_mar1 :: "32 word"
  m_dma_iar1 :: "32 word"
  m_dma_bcr :: "nat \<Rightarrow> 16 word"
  m_dstat :: "8 word"
  m_dmode :: "8 word"
  m_dcntl :: "8 word"
  m_il :: "8 word"
  m_itc :: "8 word"
  m_rcr :: "8 word"
  m_mmu_cbr :: "8 word"
  m_mmu_bbr :: "8 word"
  m_mmu_cbar :: "8 word"
  m_omcr :: "8 word"
  m_iocr :: "8 word"
  program :: "32 word \<Rightarrow> 8 word"
  iospace :: "32 word \<Rightarrow> 8 word"
  io_log :: "io_event list"

text \<open>\<open>m_program->read_byte\<close>, \<open>m_program->write_byte\<close>: the space keeps 20 address bits.\<close>

definition program_read_byte :: "z180_state \<Rightarrow> 32 word \<Rightarrow> 8 word" where
  "program_read_byte s a = program s (a AND 0xFFFFF)"

definition program_write_byte :: "z180_state \<Rightarrow> 32 word \<Rightarrow> 8 word \<Rightarrow> z180_state" where
  "program_write_byte s a v = s\<lparr>program := (program s)(a AND 0xFFFFF := v)\<rparr>"

text \<open>\<open>m_iospace->read_byte\<close>, \<open>m_iospace->write_byte\<close>: the space keeps 16 address bits.\<close>

definition io_read_byte :: "z180_state \<Rightarrow> 32 word \<Rightarrow> 8 word \<times> z180_state" where
  "io_read_byte s port =
     (iospace s (port AND 0xFFFF), s\<lparr>io_log := io_log s @ [IoRead (port AND 0xFFFF)]\<rparr>)"

definition io_write_byte :: "z180_state \<Rightarrow> 32 word \<Rightarrow> 8 word \<Rightarrow> z180_state" where
  "io_write_byte s port v = s\<lparr>io_log := io_log s @ [IoWrite (port AND 0xFFFF) v]\<rparr>"

definition get_tend0 :: "z180_state \<Rightarrow> bool" where
  "get_tend0 s = (m_iol s AND Z180_TEND0 \<noteq> 0)"

definition get_tend1 :: "z180_state \<Rightarrow> bool" where
  "get_tend1 s = (m_iol s AND Z180_TEND1 \<noteq> 0)"

subsection \<open>The MMU\<close>

text \<open>
  Modelled from the spec: \<open>z180_mmu()\<close> and the macro \<open>MMU_REMAP_ADDR\<close> are called by
  this file but defined in \<open>z180ops.h\<close>, which is not among the sources. The
  specification: the mapping is derived from the three MMU registers and recomputed
  whenever one of them is written; each of the 16 4KB logical pages maps either to the
  common area (offset by the common-base register CBR) or to the bank area (offset by the
  bank-base register BBR); pages below the split point held in the common/bank area
  register CBAR (its common-area field, \<open>Z180_CBAR_CA\<close>) go to the bank area, pages at or
  above it to the common area; the physical address has 20 bits. \<open>translate\<close> replaces
  the page number of a 16-bit logical address by the page's physical base and keeps the
  12-bit offset.
\<close>

definition mmu_page :: "z180_state \<Rightarrow> nat \<Rightarrow> 32 word" where
  "mmu_page s page =
     (let addr = push_bit 12 (of_nat page :: 32 word);
          split = unat (drop_bit 4 (m_mmu_cbar s AND Z180_CBAR_CA))
      in (if split \<le> page then addr + push_bit 12 (ucast (m_mmu_cbr s))
          else addr + push_bit 12 (ucast (m_mmu_bbr s))) AND 0xFFFFF)"

definition z180_mmu :: "z180_state \<Rightarrow> z180_state" where
  "z180_mmu s = s\<lparr>m_mmu := (\<lambda>page. if page < 16 then mmu_page s page else m_mmu s page)\<rparr>"

definition MMU_REMAP_ADDR :: "z180_state \<Rightarrow> 32 word \<Rightarrow> 32 word" where
  "MMU_REMAP_ADDR s addr = m_mmu s (unat (drop_bit 12 addr AND 15)) OR (addr AND 4095)"

definition translate :: "z180_state \<Rightarrow> 16 word \<Rightarrow> 32 word" where
  "translate s addr = MMU_REMAP_ADDR s (ucast addr)"

subsection \<open>The internal I/O register bank: z180\_readcontrol, z180\_writecontrol\<close>

text \<open>
  \<open>remap_port\<close> is the statement
  \<open>if((port & (m_iocr & 0xc0)) == (m_iocr & 0xc0)) port = port - (m_iocr & 0xc0);\<close>
  shared by both functions.
\<close>

definition iocr_base :: "z180_state \<Rightarrow> 32 word" where
  "iocr_base s = ucast (m_iocr s AND 0xc0)"

definition port_matches_base :: "z180_state \<Rightarrow> 32 word \<Rightarrow> bool" where
  "port_matches_base s port = (port AND iocr_base s = iocr_base s)"

definition remap_port :: "z180_state \<Rightarrow> 32 word \<Rightarrow> 32 word" where
  "remap_port s port = (if port_matches_base s port then port - iocr_base s else port)"

text \<open>
  The block repeated in the cases 0x0c, 0x0d, 0x10, 0x14 and 0x15 of the read switch:
  every second read of TCR or TMDR clears the timer's interrupt flag.
\<close>

definition tcr_tmdr_read :: "nat \<Rightarrow> 8 word \<Rightarrow> z180_state \<Rightarrow> z180_state" where
  "tcr_tmdr_read i tif s =
     (if m_read_tcr_tmdr s i \<noteq> 0
      then s\<lparr>m_tcr := m_tcr s AND NOT tif, m_read_tcr_tmdr := (m_read_tcr_tmdr s)(i := 0)\<rparr>
      else s\<lparr>m_read_tcr_tmdr := (m_read_tcr_tmdr s)(i := 1)\<rparr>)"

text \<open>Cases 0x0c and 0x14: \<open>if ((m_tcr & TDEi) == 0)\<close> latch the counter's high byte.\<close>

definition tmdr_latch_msb :: "nat \<Rightarrow> 8 word \<Rightarrow> 8 word \<Rightarrow> z180_state \<Rightarrow> z180_state" where
  "tmdr_latch_msb i latch_bit tde s =
     (if m_tcr s AND tde = 0
      then s\<lparr>m_tmdr_latch := m_tmdr_latch s OR latch_bit,
             m_tmdrh := (m_tmdrh s)(i := ucast (drop_bit 8 (m_tmdr_value s i AND 0xff00)))\<rparr>
      else s)"

text \<open>Cases 0x0d and 0x15: read the latched high byte if there is one.\<close>

definition tmdrh_read :: "nat \<Rightarrow> 8 word \<Rightarrow> z180_state \<Rightarrow> 8 word \<times> z180_state" where
  "tmdrh_read i latch_bit s =
     (if m_tmdr_latch s AND latch_bit \<noteq> 0
      then (m_tmdrh s i, s\<lparr>m_tmdr_latch := m_tmdr_latch s AND NOT latch_bit\<rparr>)
      else (ucast (drop_bit 8 (m_tmdr_value s i AND 0xff00)), s))"

text \<open>
  The \<open>switch (port)\<close> of \<open>z180_readcontrol\<close>; \<open>data\<close> is the byte read from the external
  I/O space, returned unchanged when no case matches (the switch has no default).
\<close>

definition read_switch :: "z180_state \<Rightarrow> 32 word \<Rightarrow> 8 word \<Rightarrow> 8 word \<times> z180_state" where
  "read_switch s port data =
     (
      if port = 0x00 then (m_asci_cntla s 0, s)
      else if port = 0x01 then (m_asci_cntla s 1, s)
      else if port = 0x02 then (m_asci_cntlb s 0, s)
      else if port = 0x03 then (m_asci_cntlb s 1, s)
      else if port = 0x04 then (m_asci_stat s 0 OR 0x02, s)
      else if port = 0x05 then (m_asci_stat s 1, s)
      else if port = 0x06 then (m_asci_tdr s 0, s)
      else if port = 0x07 then (m_asci_tdr s 1, s)
      else if port = 0x08 then (m_asci_rdr s 0, s)
      else if port = 0x09 then (m_asci_rdr s 1, s)
      else if port = 0x0a then (m_csio_cntr s OR NOT Z180_CNTR_MASK, s)
      else if port = 0x0b then (m_csio_trdr s, s)
      else if port = 0x0c then (ucast (m_tmdr_value s 0 AND 0x00ff),
           tcr_tmdr_read 0 Z180_TCR_TIF0 (tmdr_latch_msb 0 1 Z180_TCR_TDE0 s))
      else if port = 0x0d then (let (d, s1) = tmdrh_read 0 1 s in (d, tcr_tmdr_read 0 Z180_TCR_TIF0 s1))
      else if port = 0x0e then (lo16 (m_rldr s 0), s)
      else if port = 0x0f then (hi16 (m_rldr s 0), s)
      else if port = 0x10 then (m_tcr s, tcr_tmdr_read 1 Z180_TCR_TIF1 (tcr_tmdr_read 0 Z180_TCR_TIF0 s))
      else if port = 0x11 then (0xff, s)
      else if port = 0x12 then (m_asci_ext s 0, s)
      else if port = 0x13 then (m_asci_ext s 1, s)
      else if port = 0x14 then (ucast (m_tmdr_value s 1),
           tcr_tmdr_read 1 Z180_TCR_TIF1 (tmdr_latch_msb 1 2 Z180_TCR_TDE1 s))
      else if port = 0x15 then (let (d, s1) = tmdrh_read 1 2 s in (d, tcr_tmdr_read 1 Z180_TCR_TIF1 s1))
      else if port = 0x16 then (lo16 (m_rldr s 1), s)
      else if port = 0x17 then (hi16 (m_rldr s 1), s)
      else if port = 0x18 then (m_frc s, s)
      else if port = 0x19 then (0xff, s)
      else if port = 0x1a then (lo16 (m_asci_tc s 0), s)
      else if port = 0x1b then (hi16 (m_asci_tc s 0), s)
      else if port = 0x1c then (lo16 (m_asci_tc s 1), s)
      else if port = 0x1d then (hi16 (m_asci_tc s 1), s)
      else if port = 0x1e then (m_cmr s OR NOT Z180_CMR_MASK, s)
      else if port = 0x1f then (m_ccr s, s)
      else if port = 0x20 then (b_l (m_dma_sar0 s), s)
      else if port = 0x21 then (b_h (m_dma_sar0 s), s)
      else if port = 0x22 then (b_h2 (m_dma_sar0 s) AND ucast (drop_bit 16 Z180_SAR0_MASK), s)
      else if port = 0x23 then (b_l (m_dma_dar0 s), s)
      else if port = 0x24 then (b_h (m_dma_dar0 s), s)
      else if port = 0x25 then (b_h2 (m_dma_dar0 s) AND ucast (drop_bit 16 Z180_DAR0_MASK), s)
      else if port = 0x26 then (lo16 (m_dma_bcr s 0), s)
      else if port = 0x27 then (hi16 (m_dma_bcr s 0), s)
      else if port = 0x28 then (b_l (m_dma_mar1 s), s)
      else if port = 0x29 then (b_h (m_dma_mar1 s), s)
      else if port = 0x2a then (b_h2 (m_dma_mar1 s) AND ucast (drop_bit 16 Z180_MAR1_MASK), s)
      else if port = 0x2b then (b_l (m_dma_iar1 s), s)
      else if port = 0x2c then (b_h (m_dma_iar1 s), s)
      else if port = 0x2d then (b_h2 (m_dma_iar1 s) AND ucast (drop_bit 16 Z180_IAR1_MASK), s)
      else if port = 0x2e then (lo16 (m_dma_bcr s 1), s)
      else if port = 0x2f then (hi16 (m_dma_bcr s 1), s)
      else if port = 0x30 then (m_dstat s OR NOT Z180_DSTAT_MASK, s)
      else if port = 0x31 then (m_dmode s OR NOT Z180_DMODE_MASK, s)
      else if port = 0x32 then (m_dcntl s, s)
      else if port = 0x33 then (m_il s AND Z180_IL_MASK, s)
      else if port = 0x34 then (m_itc s OR NOT Z180_ITC_MASK, s)
      else if port = 0x35 then (0xff, s)
      else if port = 0x36 then (m_rcr s OR NOT Z180_RCR_MASK, s)
      else if port = 0x37 then (0xff, s)
      else if port = 0x38 then (m_mmu_cbr s, s)
      else if port = 0x39 then (m_mmu_bbr s, s)
      else if port = 0x3a then (m_mmu_cbar s, s)
      else if port = 0x3b then (0xff, s)
      else if port = 0x3c then (0xff, s)
      else if port = 0x3d then (0xff, s)
      else if port = 0x3e then (m_omcr s OR Z180_OMCR_M1TE OR NOT Z180_OMCR_MASK, s)
      else if port = 0x3f then (m_iocr s OR NOT Z180_IOCR_MASK, s)
      else (data, s))"

definition z180_readcontrol :: "z180_state \<Rightarrow> 32 word \<Rightarrow> 8 word \<times> z180_state" where
  "z180_readcontrol s port =
     (let (data, s1) = io_read_byte s port
      in read_switch s1 (remap_port s1 port) data)"

text \<open>The \<open>switch (port)\<close> of \<open>z180_writecontrol\<close>.\<close>

definition write_switch :: "z180_state \<Rightarrow> 32 word \<Rightarrow> 8 word \<Rightarrow> z180_state" where
  "write_switch s port data =
     (
      if port = 0x00 then s\<lparr>m_asci_cntla := (m_asci_cntla s)(0 := data)\<rparr>
      else if port = 0x01 then s\<lparr>m_asci_cntla := (m_asci_cntla s)(1 := data)\<rparr>
      else if port = 0x02 then s\<lparr>m_asci_cntlb := (m_asci_cntlb s)(0 := data)\<rparr>
      else if port = 0x03 then s\<lparr>m_asci_cntlb := (m_asci_cntlb s)(1 := data)\<rparr>
      else if port = 0x04 then s\<lparr>m_asci_stat := (m_asci_stat s)(0 := (m_asci_stat s 0 AND NOT (Z180_STAT0_RIE OR Z180_STAT0_TIE))
               OR (data AND (Z180_STAT0_RIE OR Z180_STAT0_TIE)))\<rparr>
      else if port = 0x05 then s\<lparr>m_asci_stat := (m_asci_stat s)(1 := (m_asci_stat s 1 AND NOT (Z180_STAT1_RIE OR Z180_STAT1_CTS1E OR Z180_STAT1_TIE))
               OR (data AND (Z180_STAT1_RIE OR Z180_STAT1_CTS1E OR Z180_STAT1_TIE)))\<rparr>
      else if port = 0x06 then s\<lparr>m_asci_tdr := (m_asci_tdr s)(0 := data)\<rparr>
      else if port = 0x07 then s\<lparr>m_asci_tdr := (m_asci_tdr s)(1 := data)\<rparr>
      else if port = 0x08 then s\<lparr>m_asci_rdr := (m_asci_rdr s)(0 := data)\<rparr>
      else if port = 0x09 then s\<lparr>m_asci_rdr := (m_asci_rdr s)(1 := data)\<rparr>
      else if port = 0x0a then s\<lparr>m_csio_cntr := (m_csio_cntr s AND (Z180_CNTR_EF OR Z180_CNTR_RE OR Z180_CNTR_TE))
               OR (data AND NOT (Z180_CNTR_EF OR Z180_CNTR_RE OR Z180_CNTR_TE))\<rparr>
      else if port = 0x0b then s\<lparr>m_csio_trdr := data\<rparr>
      else if port = 0x0c then s\<lparr>m_tmdr := (m_tmdr s)(0 := set_lo16 (m_tmdr s 0) data),
             m_tmdr_value := (m_tmdr_value s)(0 := (m_tmdr_value s 0 AND 0xff00) OR ucast data)\<rparr>
      else if port = 0x0d then s\<lparr>m_tmdr := (m_tmdr s)(0 := set_hi16 (m_tmdr s 0) data),
             m_tmdr_value := (m_tmdr_value s)(0 := (m_tmdr_value s 0 AND 0x00ff) OR push_bit 8 (ucast data))\<rparr>
      else if port = 0x0e then s\<lparr>m_rldr := (m_rldr s)(0 := set_lo16 (m_rldr s 0) data)\<rparr>
      else if port = 0x0f then s\<lparr>m_rldr := (m_rldr s)(0 := set_hi16 (m_rldr s 0) data)\<rparr>
      else if port = 0x10 then (let old = m_tcr s;
               s1 = s\<lparr>m_tcr := (m_tcr s AND (Z180_TCR_TIF1 OR Z180_TCR_TIF0))
                                OR (data AND NOT (Z180_TCR_TIF1 OR Z180_TCR_TIF0))\<rparr>;
               s2 = (if old AND Z180_TCR_TDE0 = 0 \<and> m_tcr s1 AND Z180_TCR_TDE0 \<noteq> 0
                     then s1\<lparr>m_tmdr_value := (m_tmdr_value s1)(0 := 0)\<rparr> else s1)
           in (if old AND Z180_TCR_TDE1 = 0 \<and> m_tcr s2 AND Z180_TCR_TDE1 \<noteq> 0
               then s2\<lparr>m_tmdr_value := (m_tmdr_value s2)(1 := 0)\<rparr> else s2))
      else if port = 0x11 then s
      else if port = 0x12 then s\<lparr>m_asci_ext := (m_asci_ext s)(0 := (m_asci_ext s 0 AND Z180_ASEXT0_BRK_DET)
               OR (data AND Z180_ASEXT0_MASK AND NOT Z180_ASEXT0_BRK_DET))\<rparr>
      else if port = 0x13 then s\<lparr>m_asci_ext := (m_asci_ext s)(1 := (m_asci_ext s 1 AND Z180_ASEXT1_BRK_DET)
               OR (data AND Z180_ASEXT1_MASK AND NOT Z180_ASEXT1_BRK_DET))\<rparr>
      else if port = 0x14 then s\<lparr>m_tmdr := (m_tmdr s)(1 := set_lo16 (m_tmdr s 1) data),
             m_tmdr_value := (m_tmdr_value s)(1 := (m_tmdr_value s 1 AND 0xff00) OR ucast data)\<rparr>
      else if port = 0x15 then s\<lparr>m_tmdr := (m_tmdr s)(1 := set_hi16 (m_tmdr s 1) data),
             m_tmdr_value := (m_tmdr_value s)(1 := (m_tmdr_value s 1 AND 0x00ff) OR ucast data)\<rparr>
      else if port = 0x16 then s\<lparr>m_rldr := (m_rldr s)(1 := set_lo16 (m_rldr s 1) data)\<rparr>
      else if port = 0x17 then s\<lparr>m_rldr := (m_rldr s)(1 := set_hi16 (m_rldr s 1) data)\<rparr>
      else if port = 0x18 then s
      else if port = 0x19 then s
      else if port = 0x1a then s\<lparr>m_asci_tc := (m_asci_tc s)(0 := set_lo16 (m_asci_tc s 0) data)\<rparr>
      else if port = 0x1b then s\<lparr>m_asci_tc := (m_asci_tc s)(0 := set_hi16 (m_asci_tc s 0) data)\<rparr>
      else if port = 0x1c then s\<lparr>m_asci_tc := (m_asci_tc s)(1 := set_lo16 (m_asci_tc s 1) data)\<rparr>
      else if port = 0x1d then s\<lparr>m_asci_tc := (m_asci_tc s)(1 := set_hi16 (m_asci_tc s 1) data)\<rparr>
      else if port = 0x1e then s\<lparr>m_cmr := data AND Z180_CMR_MASK\<rparr>
      else if port = 0x1f then s\<lparr>m_ccr := data\<rparr>
      else if port = 0x20 then s\<lparr>m_dma_sar0 := set_b_l (m_dma_sar0 s) data\<rparr>
      else if port = 0x21 then s\<lparr>m_dma_sar0 := set_b_h (m_dma_sar0 s) data\<rparr>
      else if port = 0x22 then s\<lparr>m_dma_sar0 := set_b_h2 (m_dma_sar0 s) (data AND ucast (drop_bit 16 Z180_SAR0_MASK))\<rparr>
      else if port = 0x23 then s\<lparr>m_dma_dar0 := set_b_l (m_dma_dar0 s) data\<rparr>
      else if port = 0x24 then s\<lparr>m_dma_dar0 := set_b_h (m_dma_dar0 s) data\<rparr>
      else if port = 0x25 then s\<lparr>m_dma_dar0 := set_b_h2 (m_dma_dar0 s) (data AND ucast (drop_bit 16 Z180_DAR0_MASK))\<rparr>
      else if port = 0x26 then s\<lparr>m_dma_bcr := (m_dma_bcr s)(0 := set_lo16 (m_dma_bcr s 0) data)\<rparr>
      else if port = 0x27 then s\<lparr>m_dma_bcr := (m_dma_bcr s)(0 := set_hi16 (m_dma_bcr s 0) data)\<rparr>
      else if port = 0x28 then s\<lparr>m_dma_mar1 := set_b_l (m_dma_mar1 s) data\<rparr>
      else if port = 0x29 then s\<lparr>m_dma_mar1 := set_b_h (m_dma_mar1 s) data\<rparr>
      else if port = 0x2a then s\<lparr>m_dma_mar1 := set_b_h2 (m_dma_mar1 s) (data AND ucast (drop_bit 16 Z180_MAR1_MASK))\<rparr>
      else if port = 0x2b then s\<lparr>m_dma_iar1 := set_b_l (m_dma_iar1 s) data\<rparr>
      else if port = 0x2c then s\<lparr>m_dma_iar1 := set_b_h (m_dma_iar1 s) data\<rparr>
      else if port = 0x2d then s\<lparr>m_dma_iar1 := set_b_h2 (m_dma_iar1 s) (data AND ucast (drop_bit 16 Z180_IAR1_MASK))\<rparr>
      else if port = 0x2e then s\<lparr>m_dma_bcr := (m_dma_bcr s)(1 := set_lo16 (m_dma_bcr s 1) data)\<rparr>
      else if port = 0x2f then s\<lparr>m_dma_bcr := (m_dma_bcr s)(1 := set_hi16 (m_dma_bcr s 1) data)\<rparr>
      else if port = 0x30 then (let s1 = s\<lparr>m_dstat := (m_dstat s AND Z180_DSTAT_DME)
                                OR (data AND Z180_DSTAT_MASK AND NOT Z180_DSTAT_DME)\<rparr>;
               s2 = (if data AND (Z180_DSTAT_DE1 OR Z180_DSTAT_DWE1) = Z180_DSTAT_DE1
                     then s1\<lparr>m_dstat := m_dstat s1 OR Z180_DSTAT_DME\<rparr> else s1)
           in (if data AND (Z180_DSTAT_DE0 OR Z180_DSTAT_DWE0) = Z180_DSTAT_DE0
               then s2\<lparr>m_dstat := m_dstat s2 OR Z180_DSTAT_DME\<rparr> else s2))
      else if port = 0x31 then s\<lparr>m_dmode := data AND Z180_DMODE_MASK\<rparr>
      else if port = 0x32 then s\<lparr>m_dcntl := data\<rparr>
      else if port = 0x33 then s\<lparr>m_il := data AND Z180_IL_MASK\<rparr>
      else if port = 0x34 then s\<lparr>m_itc := (m_itc s AND Z180_ITC_UFO) OR (data AND Z180_ITC_MASK AND NOT Z180_ITC_UFO)\<rparr>
      else if port = 0x35 then s
      else if port = 0x36 then s\<lparr>m_rcr := data AND Z180_RCR_MASK\<rparr>
      else if port = 0x37 then s
      else if port = 0x38 then z180_mmu (s\<lparr>m_mmu_cbr := data\<rparr>)
      else if port = 0x39 then z180_mmu (s\<lparr>m_mmu_bbr := data\<rparr>)
      else if port = 0x3a then z180_mmu (s\<lparr>m_mmu_cbar := data\<rparr>)
      else if port = 0x3b then s
      else if port = 0x3c then s
      else if port = 0x3d then s
      else if port = 0x3e then s\<lparr>m_omcr := data AND Z180_OMCR_MASK\<rparr>
      else if port = 0x3f then s\<lparr>m_iocr := data AND Z180_IOCR_MASK\<rparr>
      else s)"

definition z180_writecontrol :: "z180_state \<Rightarrow> 32 word \<Rightarrow> 8 word \<Rightarrow> z180_state" where
  "z180_writecontrol s port data =
     (let s1 = io_write_byte s port data
      in write_switch s1 (remap_port s1 port) data)"

subsection \<open>Parts supplied by files that are not among the sources\<close>

text \<open>
  \<open>z180_dma0\<close>, \<open>z180_dma1\<close> and \<open>check_interrupts\<close> call members and macros declared in
  \<open>z180.h\<close> and \<open>z180ops.h\<close>. They are parameters of the model:
  \<^item> \<open>memory_wait_states()\<close>, a \<open>const\<close> member returning the number of wait states of a
    memory access;
  \<^item> the macros \<open>IN(port)\<close> and \<open>OUT(port, value)\<close>, the CPU's port access (they may add
    I/O wait states to \<open>m_extra_cycles\<close>);
  \<^item> \<open>take_interrupt(irq)\<close>, the acknowledge sequence, returning its cycles.
\<close>

record z180_ext =
  memory_wait_states :: "z180_state \<Rightarrow> int"
  op_IN :: "z180_state \<Rightarrow> 32 word \<Rightarrow> 8 word \<times> z180_state"
  op_OUT :: "z180_state \<Rightarrow> 32 word \<Rightarrow> 8 word \<Rightarrow> z180_state"
  take_interrupt :: "nat \<Rightarrow> z180_state \<Rightarrow> int \<times> z180_state"

subsection \<open>DMA channel 0: z180\_dma0\<close>

text \<open>The locals of \<open>z180_dma0\<close>: \<open>offs_t sar0, dar0; int bcr0, count, cycles\<close>.\<close>

record dma0_vars =
  sar0 :: "32 word"
  dar0 :: "32 word"
  bcr0 :: int
  count :: int
  cycles :: int

text \<open>
  The three shapes of the sixteen \<open>switch\<close> cases. \<open>sd\<close> and \<open>dd\<close> are what the case adds
  to \<open>sar0\<close> and \<open>dar0\<close> after the access: \<open>1\<close> for \<open>++\<close>, \<open>-1\<close> for \<open>--\<close>, \<open>0\<close> for a
  fixed address. \<open>memory_wait_states()\<close> is called after the transfer.
\<close>

definition dma0_mem_to_mem ::
  "z180_ext \<Rightarrow> 32 word \<Rightarrow> 32 word \<Rightarrow> z180_state \<times> dma0_vars \<Rightarrow> z180_state \<times> dma0_vars" where
  "dma0_mem_to_mem E sd dd = (\<lambda>(s, v).
     (let s1 = program_write_byte s (dar0 v) (program_read_byte s (sar0 v))
      in (s1, v\<lparr>sar0 := sar0 v + sd, dar0 := dar0 v + dd,
                 cycles := cycles v + memory_wait_states E s1 * 2,
                 bcr0 := bcr0 v - 1\<rparr>)))"

text \<open>\<open>/* edge sensitive DREQ0 ? */\<close>\<close>

definition dma0_edge_dreq0 :: "z180_state \<times> dma0_vars \<Rightarrow> z180_state \<times> dma0_vars" where
  "dma0_edge_dreq0 = (\<lambda>(s, v).
     (if m_dcntl s AND Z180_DCNTL_DMS0 \<noteq> 0
      then (s\<lparr>m_iol := m_iol s AND NOT Z180_DREQ0\<rparr>, v\<lparr>count := 0\<rparr>)
      else (s, v)))"

definition dma0_io_to_mem ::
  "z180_ext \<Rightarrow> 32 word \<Rightarrow> z180_state \<times> dma0_vars \<Rightarrow> z180_state \<times> dma0_vars" where
  "dma0_io_to_mem E dd = (\<lambda>(s, v).
     (if m_iol s AND Z180_DREQ0 \<noteq> 0
      then (let (x, s1) = op_IN E s (sar0 v);
                s2 = program_write_byte s1 (dar0 v) x
            in dma0_edge_dreq0
                 (s2, v\<lparr>dar0 := dar0 v + dd,
                        cycles := cycles v + memory_wait_states E s2,
                        bcr0 := bcr0 v - 1\<rparr>))
      else (s, v)))"

definition dma0_mem_to_io ::
  "z180_ext \<Rightarrow> 32 word \<Rightarrow> z180_state \<times> dma0_vars \<Rightarrow> z180_state \<times> dma0_vars" where
  "dma0_mem_to_io E sd = (\<lambda>(s, v).
     (if m_iol s AND Z180_DREQ0 \<noteq> 0
      then (let s1 = op_OUT E s (dar0 v) (program_read_byte s (sar0 v))
            in dma0_edge_dreq0
                 (s1, v\<lparr>sar0 := sar0 v + sd,
                        cycles := cycles v + memory_wait_states E s1,
                        bcr0 := bcr0 v - 1\<rparr>))
      else (s, v)))"

text \<open>\<open>switch( m_dmode & (Z180_DMODE_SM | Z180_DMODE_DM) )\<close>\<close>

definition dma0_switch ::
  "z180_ext \<Rightarrow> z180_state \<times> dma0_vars \<Rightarrow> z180_state \<times> dma0_vars" where
  "dma0_switch E sv =
     (let m = m_dmode (fst sv) AND (Z180_DMODE_SM OR Z180_DMODE_DM) in
      if m = 0x00 then dma0_mem_to_mem E 1 1 sv
      else if m = 0x04 then dma0_mem_to_mem E (-1) 1 sv
      else if m = 0x08 then dma0_mem_to_mem E 0 1 sv
      else if m = 0x0c then dma0_io_to_mem E 1 sv
      else if m = 0x10 then dma0_mem_to_mem E 1 (-1) sv
      else if m = 0x14 then dma0_mem_to_mem E (-1) (-1) sv
      else if m = 0x18 then dma0_mem_to_mem E 0 (-1) sv
      else if m = 0x1c then dma0_io_to_mem E (-1) sv
      else if m = 0x20 then dma0_mem_to_mem E 1 0 sv
      else if m = 0x24 then dma0_mem_to_mem E (-1) 0 sv
      else if m = 0x28 then sv
      else if m = 0x2c then sv
      else if m = 0x30 then dma0_mem_to_io E 1 sv
      else if m = 0x34 then dma0_mem_to_io E (-1) sv
      else if m = 0x38 then sv
      else if m = 0x3c then sv
      else sv)"

text \<open>One pass of the \<open>while\<close> body, up to and including \<open>cycles += 6 + m_extra_cycles\<close>.\<close>

definition dma0_body ::
  "z180_ext \<Rightarrow> z180_state \<times> dma0_vars \<Rightarrow> z180_state \<times> dma0_vars" where
  "dma0_body E = (\<lambda>(s, v).
     (let s1 = s\<lparr>m_extra_cycles := 0\<rparr>;
          s2 = (if bcr0 v = 1 then s1\<lparr>m_iol := m_iol s1 OR Z180_TEND0\<rparr> else s1);
          (s3, v3) = dma0_switch E (s2, v);
          v4 = v3\<lparr>count := count v3 - 1\<rparr>
      in (s3, v4\<lparr>cycles := cycles v4 + (6 + m_extra_cycles s3)\<rparr>)))"

text \<open>
  \<open>while (count > 0) { body; if (cycles > max_cycles) break; }\<close>. Every pass lowers
  \<open>count\<close>: the body leaves it alone or sets it to 0, then decrements it.
\<close>

function dma0_loop ::
  "z180_ext \<Rightarrow> int \<Rightarrow> z180_state \<times> dma0_vars \<Rightarrow> z180_state \<times> dma0_vars" where
  "dma0_loop E max_cycles sv =
     (if count (snd sv) > 0
      then (let sv1 = dma0_body E sv
            in if cycles (snd sv1) > max_cycles then sv1 else dma0_loop E max_cycles sv1)
      else sv)"
  by pat_completeness auto
termination
proof (relation "measure (\<lambda>(E, mx, sv). nat (count (snd sv)))")
  show "wf (measure (\<lambda>(E, mx, sv). nat (count (snd sv))))" by simp
next
  fix E :: z180_ext and max_cycles :: int and sv :: "z180_state \<times> dma0_vars" and sv1
  assume pos: "0 < count (snd sv)" and sv1: "sv1 = dma0_body E sv"
  obtain s v where sv: "sv = (s, v)" by (cases sv)
  define s2 where "s2 = (if bcr0 v = 1 then s\<lparr>m_extra_cycles := 0, m_iol := m_iol s OR Z180_TEND0\<rparr>
                         else s\<lparr>m_extra_cycles := 0\<rparr>)"
  have sw: "count (snd (dma0_switch E (s2, v))) = count v \<or> count (snd (dma0_switch E (s2, v))) = 0"
    by (simp add: dma0_switch_def dma0_mem_to_mem_def dma0_io_to_mem_def dma0_mem_to_io_def
          dma0_edge_dreq0_def Let_def split: prod.splits)
  have "count (snd (dma0_body E (s, v))) = count (snd (dma0_switch E (s2, v))) - 1"
    by (simp add: dma0_body_def s2_def Let_def split: prod.splits)
  with sw pos sv have "count (snd (dma0_body E sv)) < count (snd sv)" by auto
  with pos sv1 show "((E, max_cycles, sv1), (E, max_cycles, sv)) \<in> measure (\<lambda>(E, mx, sv). nat (count (snd sv)))"
    by simp
qed

declare dma0_loop.simps [simp del]

text \<open>The statements after the loop: write the locals back, then \<open>/* DMA terminal count? */\<close>.\<close>

definition dma0_write_back :: "z180_state \<times> dma0_vars \<Rightarrow> z180_state" where
  "dma0_write_back = (\<lambda>(s, v).
     s\<lparr>m_dma_sar0 := sar0 v, m_dma_dar0 := dar0 v,
       m_dma_bcr := (m_dma_bcr s)(0 := word_of_int (bcr0 v))\<rparr>)"

definition dma0_terminal_count :: "int \<Rightarrow> z180_state \<Rightarrow> z180_state" where
  "dma0_terminal_count bcr s =
     (if bcr = 0
      then (let s1 = s\<lparr>m_iol := m_iol s AND NOT Z180_TEND0\<rparr>;
                s2 = s1\<lparr>m_dstat := m_dstat s1 AND NOT Z180_DSTAT_DE0\<rparr>
            in if m_dstat s2 AND Z180_DSTAT_DIE0 \<noteq> 0 \<and> m_IFF1 s2 \<noteq> 0
               then s2\<lparr>m_int_pending := (m_int_pending s2)(Z180_INT_DMA0 := 1)\<rparr>
               else s2)
      else s)"

text \<open>
  \<open>dma0_from\<close> is the function from \<open>int count = ...\<close> on, for the value \<open>bcr\<close> that the
  local \<open>bcr0\<close> holds at that point.
\<close>

definition dma0_start :: "z180_state \<Rightarrow> int \<Rightarrow> dma0_vars" where
  "dma0_start s bcr =
     \<lparr>sar0 = m_dma_sar0 s, dar0 = m_dma_dar0 s, bcr0 = bcr,
      count = (if m_dmode s AND Z180_DMODE_MMOD \<noteq> 0 then bcr else 1), cycles = 0\<rparr>"

definition dma0_from :: "z180_ext \<Rightarrow> z180_state \<Rightarrow> int \<Rightarrow> int \<Rightarrow> int \<times> z180_state" where
  "dma0_from E s max_cycles bcr =
     (if m_dstat s AND Z180_DSTAT_DE0 = 0 then (0, s)
      else (let sv = dma0_loop E max_cycles (s, dma0_start s bcr)
            in (cycles (snd sv), dma0_terminal_count (bcr0 (snd sv)) (dma0_write_back sv))))"

definition z180_dma0 :: "z180_ext \<Rightarrow> z180_state \<Rightarrow> int \<Rightarrow> int \<times> z180_state" where
  "z180_dma0 E s max_cycles =
     (let bcr = uint (m_dma_bcr s 0)
      in dma0_from E s max_cycles (if bcr = 0 then 0x10000 else bcr))"

subsection \<open>DMA channel 1: z180\_dma1\<close>

definition dma1_terminal_count :: "int \<Rightarrow> z180_state \<Rightarrow> z180_state" where
  "dma1_terminal_count bcr s =
     (if bcr = 0
      then (let s1 = s\<lparr>m_iol := m_iol s AND NOT Z180_TEND1\<rparr>;
                s2 = s1\<lparr>m_dstat := m_dstat s1 AND NOT Z180_DSTAT_DE1\<rparr>
            in if m_dstat s2 AND Z180_DSTAT_DIE1 \<noteq> 0 \<and> m_IFF1 s2 \<noteq> 0
               then s2\<lparr>m_int_pending := (m_int_pending s2)(Z180_INT_DMA1 := 1)\<rparr>
               else s2)
      else s)"

text \<open>
  \<open>switch (m_dcntl & (Z180_DCNTL_DIM1 | Z180_DCNTL_DIM0))\<close>; the result is the state and
  the new value of the local \<open>mar1\<close>. The I/O side uses \<open>m_iospace\<close> directly.
\<close>

definition dma1_switch :: "z180_state \<Rightarrow> 32 word \<Rightarrow> 32 word \<Rightarrow> z180_state \<times> 32 word" where
  "dma1_switch s mar1 iar1 =
     (let m = m_dcntl s AND (Z180_DCNTL_DIM1 OR Z180_DCNTL_DIM0) in
      if m = 0x00 then (io_write_byte s iar1 (program_read_byte s mar1), mar1 + 1)
      else if m = 0x01 then (io_write_byte s iar1 (program_read_byte s mar1), mar1 - 1)
      else if m = 0x02 then (let (x, s1) = io_read_byte s iar1
                             in (program_write_byte s1 mar1 x, mar1 + 1))
      else if m = 0x03 then (let (x, s1) = io_read_byte s iar1
                             in (program_write_byte s1 mar1 x, mar1 - 1))
      else (s, mar1))"

definition dma1_from :: "z180_ext \<Rightarrow> z180_state \<Rightarrow> int \<Rightarrow> int \<times> z180_state" where
  "dma1_from E s bcr1 =
     (if m_iol s AND Z180_DREQ1 = 0 then (0, s)
      else if m_dstat s AND Z180_DSTAT_DE1 = 0 then (0, s)
      else (let s1 = (if bcr1 = 1 then s\<lparr>m_iol := m_iol s OR Z180_TEND1\<rparr> else s);
                s2 = s1\<lparr>m_extra_cycles := 0\<rparr>;
                (s3, mar1) = dma1_switch s2 (m_dma_mar1 s) (ucast (w_l (m_dma_iar1 s)));
                cyc = memory_wait_states E s3 + m_extra_cycles s3;
                s4 = (if m_dcntl s3 AND Z180_DCNTL_DIM1 \<noteq> 0
                      then s3\<lparr>m_iol := m_iol s3 AND NOT Z180_DREQ1\<rparr> else s3);
                s5 = s4\<lparr>m_dma_mar1 := mar1,
                        m_dma_bcr := (m_dma_bcr s4)(1 := word_of_int bcr1)\<rparr>
            in (6 + cyc, dma1_terminal_count bcr1 s5)))"

definition z180_dma1 :: "z180_ext \<Rightarrow> z180_state \<Rightarrow> int \<times> z180_state" where
  "z180_dma1 E s =
     (let bcr = uint (m_dma_bcr s 1)
      in dma1_from E s (if bcr = 0 then 0x10000 else bcr))"

subsection \<open>device\_reset\<close>

text \<open>
  Every assignment of \<open>device_reset\<close>, in order; the copy of the cycle tables
  (\<open>memcpy(m_cc, cc_default, ...)\<close>) is left out, the tables being no part of the state
  modelled here. \<open>_IX = _IY = 0xffff\<close> assigns the low words after \<open>_IXD = _IYD = 0\<close>,
  \<open>_F = ZF\<close> the low byte of \<open>AF\<close> after \<open>_AFD = 0\<close>.
\<close>

definition device_reset :: "z180_state \<Rightarrow> z180_state" where
  "device_reset s =
     z180_mmu (s\<lparr>
       m_PREPC := 0, m_PC := 0, m_SP := 0,
       m_AF := set_b_l 0 ZF,
       m_BC := 0, m_DE := 0, m_HL := 0,
       m_IX := set_w_l 0 0xffff, m_IY := set_w_l 0 0xffff,
       m_AF2 := 0, m_BC2 := 0, m_DE2 := 0, m_HL2 := 0,
       m_R := 0, m_R2 := 0, m_IFF1 := 0, m_IFF2 := 0, m_HALT := 0, m_IM := 0, m_I := 0,
       m_tmdr_latch := 0,
       m_read_tcr_tmdr := (m_read_tcr_tmdr s)(0 := 0, 1 := 0),
       m_iol := 0,
       m_mmu := (\<lambda>page. if page < 16 then 0 else m_mmu s page),
       m_tmdrh := (m_tmdrh s)(0 := 0, 1 := 0),
       m_tmdr_value := (m_tmdr_value s)(0 := 0xffff, 1 := 0xffff),
       m_nmi_state := word_of_int CLEAR_LINE,
       m_nmi_pending := 0,
       m_irq_state := (m_irq_state s)(0 := word_of_int CLEAR_LINE, 1 := word_of_int CLEAR_LINE,
                                       2 := word_of_int CLEAR_LINE),
       m_int_pending := (\<lambda>i. if i \<le> Z180_INT_MAX then 0 else m_int_pending s i),
       m_after_EI := 0,
       m_ea := 0,
       m_timer_cnt := 0, m_dma0_cnt := 0, m_dma1_cnt := 0,
       m_asci_cntla := (m_asci_cntla s)
          (0 := (m_asci_cntla s 0 AND Z180_CNTLA0_MPBR_EFR) OR Z180_CNTLA0_RTS0,
           1 := (m_asci_cntla s 1 AND Z180_CNTLA1_MPBR_EFR) OR Z180_CNTLA1_CKA1D),
       m_asci_cntlb := (m_asci_cntlb s)
          (0 := (m_asci_cntlb s 0 AND (Z180_CNTLB0_MPBT OR Z180_CNTLB0_CTS_PS)) OR 0x07,
           1 := (m_asci_cntlb s 1 AND Z180_CNTLB1_MPBT) OR 0x07),
       m_asci_stat := (m_asci_stat s)
          (0 := m_asci_stat s 0 AND (Z180_STAT0_DCD0 OR Z180_STAT0_TDRE),
           1 := Z180_STAT1_TDRE),
       m_csio_cntr := 0x07,
       m_tcr := 0x00,
       m_asci_ext := (m_asci_ext s)(0 := 0x00, 1 := 0x00),
       m_cmr := 0x00,
       m_ccr := 0x00,
       m_dma_iar1 := set_b_h2 (m_dma_iar1 s) 0x00,
       m_dstat := Z180_DSTAT_DWE1 OR Z180_DSTAT_DWE0,
       m_dmode := 0x00,
       m_dcntl := 0xf0,
       m_il := 0x00,
       m_itc := Z180_ITC_ITE0,
       m_rcr := Z180_RCR_REFE OR Z180_RCR_REFW,
       m_mmu_cbr := 0x00,
       m_mmu_bbr := 0x00,
       m_mmu_cbar := 0xf0,
       m_omcr := Z180_OMCR_M1E OR Z180_OMCR_M1TE OR Z180_OMCR_IOC,
       m_iocr := 0x00\<rparr>)"

subsection \<open>Timers: clock\_timers, handle\_io\_timers\<close>

text \<open>The block \<open>/* Programmable Reload Timer i */\<close>.\<close>

definition prt_count :: "nat \<Rightarrow> 8 word \<Rightarrow> 8 word \<Rightarrow> z180_state \<Rightarrow> z180_state" where
  "prt_count i tde tif s =
     (if m_tcr s AND tde \<noteq> 0
      then (if m_tmdr_value s i = 0
            then s\<lparr>m_tmdr_value := (m_tmdr_value s)(i := m_rldr s i), m_tcr := m_tcr s OR tif\<rparr>
            else s\<lparr>m_tmdr_value := (m_tmdr_value s)(i := m_tmdr_value s i - 1)\<rparr>)
      else s)"

text \<open>The block \<open>if((m_tcr & TIEi) && (m_tcr & TIFi))\<close>.\<close>

definition prt_irq :: "8 word \<Rightarrow> 8 word \<Rightarrow> nat \<Rightarrow> z180_state \<Rightarrow> z180_state" where
  "prt_irq tie tif irq s =
     (if m_tcr s AND tie \<noteq> 0 \<and> m_tcr s AND tif \<noteq> 0
      then (if m_IFF1 s \<noteq> 0 \<and> m_after_EI s = 0
            then s\<lparr>m_int_pending := (m_int_pending s)(irq := 1)\<rparr> else s)
      else s)"

text \<open>The body of \<open>if (m_timer_cnt >= 20)\<close>: one timer-clock tick.\<close>

definition timer_tick :: "z180_state \<Rightarrow> z180_state" where
  "timer_tick s =
     prt_irq Z180_TCR_TIE1 Z180_TCR_TIF1 Z180_INT_PRT1
       (prt_irq Z180_TCR_TIE0 Z180_TCR_TIF0 Z180_INT_PRT0
          (prt_count 1 Z180_TCR_TDE1 Z180_TCR_TIF1
             (prt_count 0 Z180_TCR_TDE0 Z180_TCR_TIF0 (s\<lparr>m_timer_cnt := 0\<rparr>))))"

definition clock_timers :: "z180_state \<Rightarrow> z180_state" where
  "clock_timers s =
     (let s1 = s\<lparr>m_timer_cnt := m_timer_cnt s + 1\<rparr>
      in if 20 \<le> m_timer_cnt s1 then timer_tick s1 else s1)"

text \<open>\<open>while (cycles-- > 0) clock_timers();\<close>, for the argument \<open>cycles = n\<close>.\<close>

definition handle_io_timers :: "int \<Rightarrow> z180_state \<Rightarrow> z180_state" where
  "handle_io_timers n s = (clock_timers ^^ nat n) s"

subsection \<open>check\_interrupts\<close>

definition promote_irq :: "nat \<Rightarrow> 8 word \<Rightarrow> nat \<Rightarrow> z180_state \<Rightarrow> z180_state" where
  "promote_irq line ite irq s =
     (if m_irq_state s line \<noteq> word_of_int CLEAR_LINE \<and> m_itc s AND ite = ite
      then s\<lparr>m_int_pending := (m_int_pending s)(irq := 1)\<rparr> else s)"

text \<open>\<open>/* check for IRQs before each instruction */\<close>\<close>

definition promote_irqs :: "z180_state \<Rightarrow> z180_state" where
  "promote_irqs s =
     (if m_IFF1 s \<noteq> 0 \<and> m_after_EI s = 0
      then promote_irq 2 Z180_ITC_ITE2 Z180_INT_IRQ2
             (promote_irq 1 Z180_ITC_ITE1 Z180_INT_IRQ1
                (promote_irq 0 Z180_ITC_ITE0 Z180_INT_IRQ0 s))
      else s)"

text \<open>
  \<open>for (i = 0; i <= Z180_INT_MAX; i++) if (m_int_pending[i]) { cycles += take_interrupt(i);
  m_int_pending[i] = 0; break; }\<close>, from index \<open>i\<close> on; \<open>cyc\<close> is the local \<open>cycles\<close>.
\<close>

function service_pending :: "z180_ext \<Rightarrow> nat \<Rightarrow> int \<Rightarrow> z180_state \<Rightarrow> int \<times> z180_state" where
  "service_pending E i cyc s =
     (if i \<le> Z180_INT_MAX
      then (if m_int_pending s i \<noteq> 0
            then (let (c, s1) = take_interrupt E i s
                  in (cyc + c, s1\<lparr>m_int_pending := (m_int_pending s1)(i := 0)\<rparr>))
            else service_pending E (i + 1) cyc s)
      else (cyc, s))"
  by pat_completeness auto
termination
  by (relation "measure (\<lambda>(E, i, c, s). Suc Z180_INT_MAX - i)") auto

declare service_pending.simps [simp del]

definition check_interrupts :: "z180_ext \<Rightarrow> z180_state \<Rightarrow> int \<times> z180_state" where
  "check_interrupts E s = service_pending E 0 0 (promote_irqs s)"

subsection \<open>Input lines: z180\_write\_iolines, execute\_set\_input\<close>

text \<open>
  \<open>z180_write_iolines\<close> copies the changed input bits of \<open>data\<close> into \<open>m_iol\<close>, one
  \<open>if (changes & BIT)\<close> after the other, in this order; the output bits are only logged.
\<close>

definition input_line_bits :: "32 word list" where
  "input_line_bits = [Z180_CKA0, Z180_CKA1, Z180_CKS, Z180_CTS0, Z180_CTS1, Z180_DCD0,
                      Z180_DREQ0, Z180_DREQ1, Z180_RXA0, Z180_RXA1, Z180_RXS]"

definition z180_write_iolines :: "32 word \<Rightarrow> z180_state \<Rightarrow> z180_state" where
  "z180_write_iolines data s =
     (let changes = m_iol s XOR data
      in fold (\<lambda>b t. if changes AND b \<noteq> 0
                      then t\<lparr>m_iol := (m_iol t AND NOT b) OR (data AND b)\<rparr> else t)
              input_line_bits s)"

text \<open>
  The values \<open>irqline\<close> is compared with: \<open>INPUT_LINE_NMI\<close> of the framework and the
  \<open>Z180_INPUT_LINE_*\<close> constants of \<open>z180.h\<close>; the three IRQ lines index \<open>m_irq_state\<close>.
  \<open>daisy\<close> is \<open>None\<close> when \<open>daisy_chain_present()\<close> is false and otherwise holds what
  \<open>daisy_update_irq_state()\<close> returns.
\<close>

datatype input_line =
  INPUT_LINE_NMI | Z180_INPUT_LINE_IRQ0 | Z180_INPUT_LINE_IRQ1 | Z180_INPUT_LINE_IRQ2
  | Z180_INPUT_LINE_DREQ0 | Z180_INPUT_LINE_DREQ1 | OTHER_LINE

fun irq_index :: "input_line \<Rightarrow> nat option" where
  "irq_index Z180_INPUT_LINE_IRQ0 = Some 0"
| "irq_index Z180_INPUT_LINE_IRQ1 = Some 1"
| "irq_index Z180_INPUT_LINE_IRQ2 = Some 2"
| "irq_index _ = None"

definition set_dreq :: "32 word \<Rightarrow> int \<Rightarrow> z180_state \<Rightarrow> z180_state" where
  "set_dreq b state s =
     (let iol = m_iol s AND NOT b;
          iol1 = (if state = ASSERT_LINE then iol OR b else iol)
      in z180_write_iolines iol1 s)"

definition execute_set_input :: "int option \<Rightarrow> input_line \<Rightarrow> int \<Rightarrow> z180_state \<Rightarrow> z180_state" where
  "execute_set_input daisy irqline state s =
     (if irqline = INPUT_LINE_NMI
      then (let s1 = (if m_nmi_state s = word_of_int CLEAR_LINE \<and> state \<noteq> CLEAR_LINE
                      then s\<lparr>m_nmi_pending := 1\<rparr> else s)
            in s1\<lparr>m_nmi_state := word_of_int state\<rparr>)
      else (case irq_index irqline of
              Some i \<Rightarrow>
                (let s1 = s\<lparr>m_irq_state := (m_irq_state s)(i := word_of_int state)\<rparr>
                 in (case daisy of
                       None \<Rightarrow> s1
                     | Some d \<Rightarrow> s1\<lparr>m_irq_state := (m_irq_state s1)(0 := word_of_int d)\<rparr>))
            | None \<Rightarrow>
                (if irqline = Z180_INPUT_LINE_DREQ0 then set_dreq Z180_DREQ0 state s
                 else if irqline = Z180_INPUT_LINE_DREQ1 then set_dreq Z180_DREQ1 state s
                 else s)))"

subsection \<open>execute\_run: the NMI check on the way in\<close>

text \<open>
  Modelled from the spec: the macros \<open>LEAVE_HALT()\<close> and \<open>PUSH(PC)\<close> are defined in
  \<open>z180ops.h\<close>, which is not among the sources. The specification: an NMI forces the
  processor out of halt (the halt flag is cleared) and pushes the return address; the
  stack pointer is a 16-bit register pair, the program space is little-endian
  (\<open>m_program_config\<close>) and reached through the MMU translation.
\<close>

definition LEAVE_HALT :: "z180_state \<Rightarrow> z180_state" where
  "LEAVE_HALT s = (if m_HALT s \<noteq> 0 then s\<lparr>m_HALT := 0\<rparr> else s)"

definition PUSH_PC :: "z180_state \<Rightarrow> z180_state" where
  "PUSH_PC s =
     (let sp = w_l (m_SP s) - 2;
          s1 = s\<lparr>m_SP := set_w_l (m_SP s) sp\<rparr>;
          s2 = program_write_byte s1 (translate s1 sp) (b_l (m_PC s1))
      in program_write_byte s2 (translate s2 (sp + 1)) (b_h (m_PC s2)))"

text \<open>The body of \<open>if (m_nmi_pending)\<close>.\<close>

definition take_nmi :: "z180_state \<Rightarrow> z180_state" where
  "take_nmi s =
     (let s1 = LEAVE_HALT s;
          s2 = s1\<lparr>m_dstat := m_dstat s1 AND NOT Z180_DSTAT_DME\<rparr>;
          s3 = s2\<lparr>m_IFF2 := m_IFF1 s2\<rparr>;
          s4 = s3\<lparr>m_IFF1 := 0\<rparr>;
          s5 = PUSH_PC s4;
          s6 = s5\<lparr>m_PC := 0x0066\<rparr>;
          s7 = s6\<lparr>m_icount := m_icount s6 - 11\<rparr>;
          s8 = s7\<lparr>m_nmi_pending := 0\<rparr>
      in handle_io_timers 11 s8)"

text \<open>
  \<open>execute_run\<close> is the NMI check followed by everything from the label \<open>again:\<close> on:
  the DMA service, the interrupt checks and the instruction loop. That remainder runs
  the instruction decoder (\<open>exec_op\<close>, not among the sources) and is the parameter
  \<open>run_loop\<close>.
\<close>

definition execute_run :: "(z180_state \<Rightarrow> z180_state) \<Rightarrow> z180_state \<Rightarrow> z180_state" where
  "execute_run run_loop s = run_loop (if m_nmi_pending s \<noteq> 0 then take_nmi s else s)"

subsection \<open>A concrete machine for evaluation\<close>

text \<open>
  The state the constructor leaves (it zeroes the ASCI, timer and DMA registers and sets
  both reload registers to \<open>0xffff\<close>), with every member it does not mention taken as
  zero, an empty access log, a program space of zero bytes and an external I/O space that
  answers \<open>0xAA\<close> on every port.
\<close>

definition constructed :: z180_state where
  "constructed =
     \<lparr>m_PREPC = 0, m_PC = 0, m_SP = 0, m_AF = 0, m_BC = 0, m_DE = 0, m_HL = 0,
      m_IX = 0, m_IY = 0, m_AF2 = 0, m_BC2 = 0, m_DE2 = 0, m_HL2 = 0,
      m_R = 0, m_R2 = 0, m_IFF1 = 0, m_IFF2 = 0, m_HALT = 0, m_IM = 0, m_I = 0,
      m_tmdr_latch = 0, m_read_tcr_tmdr = (\<lambda>_. 0), m_iol = 0, m_mmu = (\<lambda>_. 0),
      m_tmdrh = (\<lambda>_. 0), m_tmdr_value = (\<lambda>_. 0), m_nmi_state = 0, m_nmi_pending = 0,
      m_irq_state = (\<lambda>_. 0), m_int_pending = (\<lambda>_. 0), m_after_EI = 0, m_ea = 0,
      m_timer_cnt = 0, m_dma0_cnt = 0, m_dma1_cnt = 0, m_icount = 0, m_extra_cycles = 0,
      m_asci_cntla = (\<lambda>_. 0), m_asci_cntlb = (\<lambda>_. 0), m_asci_stat = (\<lambda>_. 0),
      m_asci_tdr = (\<lambda>_. 0), m_asci_rdr = (\<lambda>_. 0), m_asci_ext = (\<lambda>_. 0),
      m_asci_tc = (\<lambda>_. 0), m_csio_cntr = 0, m_csio_trdr = 0,
      m_tmdr = (\<lambda>_. 0), m_rldr = (\<lambda>_. 0xffff), m_tcr = 0, m_frc = 0, m_cmr = 0, m_ccr = 0,
      m_dma_sar0 = 0, m_dma_dar0 = 0, m_dma_mar1 = 0, m_dma_iar1 = 0, m_dma_bcr = (\<lambda>_. 0),
      m_dstat = 0, m_dmode = 0, m_dcntl = 0, m_il = 0, m_itc = 0, m_rcr = 0,
      m_mmu_cbr = 0, m_mmu_bbr = 0, m_mmu_cbar = 0, m_omcr = 0, m_iocr = 0,
      program = (\<lambda>_. 0), iospace = (\<lambda>_. 0xAA), io_log = []\<rparr>"

definition power_on :: z180_state where
  "power_on = device_reset constructed"

text \<open>
  Stand-ins for the parameters: \<open>memory_wait_states\<close> as the MWI field of DCNTL (bits
  7 and 6, see the comment at \<open>m_dcntl = 0xf0\<close> in \<open>device_reset\<close>), \<open>IN\<close>/\<open>OUT\<close> as the
  internal register access, and an acknowledge sequence that clears both interrupt
  flip-flops and costs 13 cycles.
\<close>

definition sample_ext :: z180_ext where
  "sample_ext =
     \<lparr>memory_wait_states = (\<lambda>s. uint (drop_bit 6 (m_dcntl s AND 0xc0))),
      op_IN = z180_readcontrol,
      op_OUT = z180_writecontrol,
      take_interrupt = (\<lambda>irq s. (13, s\<lparr>m_IFF1 := 0, m_IFF2 := 0\<rparr>))\<rparr>"

text \<open>
  A machine with interrupts enabled, the IRQ0 line asserted (ITE0 is set by reset) and
  the timer-0 interrupt already pending.
\<close>

definition irq0_and_prt0 :: z180_state where
  "irq0_and_prt0 = power_on\<lparr>m_IFF1 := 1, m_irq_state := (\<lambda>_. 0)(0 := 1),
                              m_int_pending := (\<lambda>_. 0)(Z180_INT_PRT0 := 1)\<rparr>"

subsection \<open>Programming a reload timer\<close>

text \<open>
  Timer \<open>i\<close> (0 or 1) has its enable bit \<open>TDEi\<close> and interrupt flag \<open>TIFi\<close> in TCR (port
  0x10) and its reload register at ports 0x0e/0x0f (timer 0) or 0x16/0x17 (timer 1).
  \<open>program_timer\<close> is the sequence of three port writes that loads the reload value
  \<open>R\<close>, low byte first, and then writes \<open>d\<close> to TCR.
\<close>

definition TCR_TDE :: "nat \<Rightarrow> 8 word" where
  "TCR_TDE i = (if i = 0 then Z180_TCR_TDE0 else Z180_TCR_TDE1)"

definition TCR_TIF :: "nat \<Rightarrow> 8 word" where
  "TCR_TIF i = (if i = 0 then Z180_TCR_TIF0 else Z180_TCR_TIF1)"

definition RLDR_L :: "nat \<Rightarrow> 32 word" where
  "RLDR_L i = (if i = 0 then 0x0e else 0x16)"

definition RLDR_H :: "nat \<Rightarrow> 32 word" where
  "RLDR_H i = (if i = 0 then 0x0f else 0x17)"

definition program_timer :: "nat \<Rightarrow> z180_state \<Rightarrow> 16 word \<Rightarrow> 8 word \<Rightarrow> z180_state" where
  "program_timer i s R d =
     z180_writecontrol
       (z180_writecontrol (z180_writecontrol s (RLDR_L i) (lo16 R)) (RLDR_H i) (hi16 R))
       0x10 d"

text \<open>
  The state the NMI block has built when it calls \<open>handle_io_timers(11)\<close>, written as
  one update of the entry state.
\<close>

definition nmi_frame :: "z180_state \<Rightarrow> z180_state" where
  "nmi_frame s =
     s\<lparr>m_HALT := 0,
       m_dstat := m_dstat s AND NOT Z180_DSTAT_DME,
       m_IFF2 := m_IFF1 s,
       m_IFF1 := 0,
       m_SP := set_w_l (m_SP s) (w_l (m_SP s) - 2),
       program := (program s)
          (translate s (w_l (m_SP s) - 2) AND 0xFFFFF := b_l (m_PC s),
           translate s (w_l (m_SP s) - 2 + 1) AND 0xFFFFF := b_h (m_PC s)),
       m_PC := 0x0066,
       m_icount := m_icount s - 11,
       m_nmi_pending := 0\<rparr>"

text \<open>A halted machine with an NMI latched, interrupts enabled and a DMA transfer armed.\<close>

definition halted_with_nmi :: z180_state where
  "halted_with_nmi = power_on\<lparr>m_nmi_pending := 1, m_HALT := 1, m_PC := 0x1234, m_SP := 0x8000,
                                 m_IFF1 := 1, m_dstat := 0x71\<rparr>"

text \<open>
  A machine whose internal registers have been moved to base 0x40, with a recognisable
  value in TCR.
\<close>

definition remapped_io :: z180_state where
  "remapped_io = power_on\<lparr>m_iocr := 0x40, m_tcr := 0x15\<rparr>"

subsection \<open>Memory-to-memory transfers of channel 0, stated directly\<close>

text \<open>
  The ten \<open>switch\<close> cases of \<open>z180_dma0\<close> that copy memory to memory, and the step each
  of them applies to \<open>sar0\<close> and \<open>dar0\<close>, read off the case labels:
  \<open>SM\<close> (bits 2-3) \<open>0x00\<close> is \<open>sar0++\<close>, \<open>0x04\<close> is \<open>sar0--\<close>, \<open>0x08\<close> is fixed;
  \<open>DM\<close> (bits 4-5) \<open>0x00\<close> is \<open>dar0++\<close>, \<open>0x10\<close> is \<open>dar0--\<close>, \<open>0x20\<close> is fixed.
\<close>

definition dma0_memory_to_memory :: "8 word \<Rightarrow> bool" where
  "dma0_memory_to_memory dmode =
     (dmode AND (Z180_DMODE_SM OR Z180_DMODE_DM) \<in> {0x00, 0x04, 0x08, 0x10, 0x14, 0x18, 0x20, 0x24})"

definition dma0_src_step :: "8 word \<Rightarrow> 32 word" where
  "dma0_src_step dmode =
     (if dmode AND Z180_DMODE_SM = 0x00 then 1
      else if dmode AND Z180_DMODE_SM = 0x04 then -1 else 0)"

definition dma0_dst_step :: "8 word \<Rightarrow> 32 word" where
  "dma0_dst_step dmode =
     (if dmode AND Z180_DMODE_DM = 0x00 then 1
      else if dmode AND Z180_DMODE_DM = 0x10 then -1 else 0)"

text \<open>
  \<open>copy_bytes n sd dd a b m\<close> is the program memory after \<open>n\<close> byte copies done one after
  the other, from address \<open>a\<close> stepped by \<open>sd\<close> to address \<open>b\<close> stepped by \<open>dd\<close>, on
  the 20-bit address bus.
\<close>

fun copy_bytes ::
  "nat \<Rightarrow> 32 word \<Rightarrow> 32 word \<Rightarrow> 32 word \<Rightarrow> 32 word \<Rightarrow> (32 word \<Rightarrow> 8 word) \<Rightarrow> (32 word \<Rightarrow> 8 word)" where
  "copy_bytes 0 sd dd a b m = m"
| "copy_bytes (Suc n) sd dd a b m =
     copy_bytes n sd dd (a + sd) (b + dd) (m(b AND 0xFFFFF := m (a AND 0xFFFFF)))"

text \<open>
  One pass of the \<open>while\<close> body in a memory-to-memory mode, with \<open>w\<close> the value of
  \<open>memory_wait_states()\<close>.
\<close>

definition dma0_mem_step :: "int \<Rightarrow> 32 word \<Rightarrow> 32 word \<Rightarrow> z180_state \<times> dma0_vars \<Rightarrow> z180_state \<times> dma0_vars" where
  "dma0_mem_step w sd dd = (\<lambda>(s, v).
     (s\<lparr>m_extra_cycles := 0,
        m_iol := (if bcr0 v = 1 then m_iol s OR Z180_TEND0 else m_iol s),
        program := (program s)(dar0 v AND 0xFFFFF := program s (sar0 v AND 0xFFFFF))\<rparr>,
      v\<lparr>sar0 := sar0 v + sd, dar0 := dar0 v + dd, cycles := cycles v + w * 2 + 6,
        bcr0 := bcr0 v - 1, count := count v - 1\<rparr>))"

text \<open>
  A machine set up for a burst of four bytes on channel 0: source 0x100 upwards,
  destination 0x203 downwards, DE0, DIE0 and DME set, interrupts enabled. Reset leaves
  DCNTL at 0xf0, that is three memory wait states.
\<close>

definition dma0_copy4 :: z180_state where
  "dma0_copy4 = power_on
     \<lparr>program := (\<lambda>a. if a = 0x100 then 0x11 else if a = 0x101 then 0x22
                       else if a = 0x102 then 0x33 else if a = 0x103 then 0x44 else 0),
      m_dma_sar0 := 0x100, m_dma_dar0 := 0x203, m_dma_bcr := (\<lambda>i. if i = 0 then 4 else 0),
      m_dmode := 0x12, m_dstat := 0x45, m_IFF1 := 1\<rparr>"

text \<open>The same machine with both count registers at 0, both channels enabled and DREQ1 asserted.\<close>

definition dma_count0 :: z180_state where
  "dma_count0 = dma0_copy4
     \<lparr>m_dma_bcr := (\<lambda>_. 0), m_dstat := 0xcd, m_iol := Z180_DREQ1,
      m_dma_mar1 := 0x100, m_dma_iar1 := 0x50\<rparr>"

section \<open>Proofs\<close>

subsection \<open>The flag tables against the direct recomputation\<close>

lemma int_and_0x80_iff_bit7: "((k::int) AND 0x80 \<noteq> 0) = bit k 7"
  using and_exp_eq_0_iff_not_bit[of k 7] by simp

lemma bit7_int_iff: "bit (k::int) 7 = (128 \<le> k mod 256)"
proof -
  have "bit k 7 = bit (take_bit 8 k) 7" by (simp add: bit_take_bit_iff)
  also have "\<dots> = odd ((k mod 256) div 128)" by (simp add: bit_iff_odd take_bit_eq_mod)
  also have "\<dots> = (128 \<le> k mod 256)"
  proof (cases "128 \<le> k mod 256")
    case True
    have "k mod 256 < 256" by simp
    with True have "(k mod 256) div 128 = 1" by simp
    with True show ?thesis by simp
  next
    case False
    have "0 \<le> k mod 256" by simp
    with False have "(k mod 256) div 128 = 0" by simp
    with False show ?thesis by simp
  qed
  finally show ?thesis .
qed

lemma int_and_0x0f_eq_mod: "(k::int) AND 0x0f = k mod 16"
  using take_bit_eq_mask[of 4 k] by (simp add: take_bit_eq_mod mask_eq_exp_minus_1)

lemma mod256_cases:
  fixes k :: int
  assumes "0 \<le> k" "k < 512"
  shows "k mod 256 = (if k < 256 then k else k - 256)"
proof (cases "k < 256")
  case True with assms show ?thesis by simp
next
  case False
  have "k mod 256 = (k - 256) mod 256" by simp
  also from False assms have "\<dots> = k - 256" by (intro mod_pos_pos_trivial) simp_all
  finally show ?thesis using False by simp
qed

lemma mod256_cases_neg:
  fixes k :: int
  assumes "-256 \<le> k" "k < 256"
  shows "k mod 256 = (if 0 \<le> k then k else k + 256)"
proof (cases "0 \<le> k")
  case True with assms show ?thesis by simp
next
  case False
  have "k mod 256 = (k + 256) mod 256" by simp
  also from False assms have "\<dots> = k + 256" by (intro mod_pos_pos_trivial) simp_all
  finally show ?thesis using False by simp
qed

lemma mod16_cases:
  fixes k :: int
  assumes "0 \<le> k" "k < 32"
  shows "k mod 16 = (if k < 16 then k else k - 16)"
proof (cases "k < 16")
  case True with assms show ?thesis by simp
next
  case False
  have "k mod 16 = (k - 16) mod 16" by simp
  also from False assms have "\<dots> = k - 16" by (intro mod_pos_pos_trivial) simp_all
  finally show ?thesis using False by simp
qed

lemma mod16_cases_neg:
  fixes k :: int
  assumes "-16 \<le> k" "k < 16"
  shows "k mod 16 = (if 0 \<le> k then k else k + 16)"
proof (cases "0 \<le> k")
  case True with assms show ?thesis by simp
next
  case False
  have "k mod 16 = (k + 16) mod 16" by simp
  also from False assms have "\<dots> = k + 16" by (intro mod_pos_pos_trivial) simp_all
  finally show ?thesis using False by simp
qed

lemma nibble_of_sum:
  fixes A B c :: int
  assumes "0 \<le> c" "c \<le> 1"
  shows "((A + B + c) mod 256) mod 16 = 
         (let s = A mod 16 + B mod 16 + c in if s < 16 then s else s - 16)"
proof -
  have "((A + B + c) mod 256) mod 16 = (A + B + c) mod 16"
    by (simp add: mod_mod_cancel)
  also have "\<dots> = (A mod 16 + B mod 16 + c) mod 16"
    by (metis mod_add_eq mod_add_left_eq)
  also have "\<dots> = (let s = A mod 16 + B mod 16 + c in if s < 16 then s else s - 16)"
  proof -
    have "0 \<le> A mod 16" "A mod 16 < 16" "0 \<le> B mod 16" "B mod 16 < 16" by simp_all
    with assms have "0 \<le> A mod 16 + B mod 16 + c" "A mod 16 + B mod 16 + c < 32" by linarith+
    from mod16_cases[OF this] show ?thesis by (simp add: Let_def)
  qed
  finally show ?thesis .
qed

lemma nibble_of_difference:
  fixes A B c :: int
  assumes "0 \<le> c" "c \<le> 1"
  shows "((A - B - c) mod 256) mod 16 = 
         (let s = A mod 16 - B mod 16 - c in if 0 \<le> s then s else s + 16)"
proof -
  have "((A - B - c) mod 256) mod 16 = (A - B - c) mod 16"
    by (simp add: mod_mod_cancel)
  also have "\<dots> = (A mod 16 - B mod 16 - c) mod 16"
    by (metis mod_diff_eq mod_diff_left_eq)
  also have "\<dots> = (let s = A mod 16 - B mod 16 - c in if 0 \<le> s then s else s + 16)"
  proof -
    have "0 \<le> A mod 16" "A mod 16 < 16" "0 \<le> B mod 16" "B mod 16 < 16" by simp_all
    with assms have "-16 \<le> A mod 16 - B mod 16 - c" "A mod 16 - B mod 16 - c < 16" by linarith+
    from mod16_cases_neg[OF this] show ?thesis by (simp add: Let_def)
  qed
  finally show ?thesis .
qed

lemma length_concat_rows:
  "length (concat (map (\<lambda>i. map (f i) [0..<m]) [0..<n])) = n * m"
  by (induction n) simp_all

lemma concat_rows_nth:
  "i < n \<Longrightarrow> j < m \<Longrightarrow> concat (map (\<lambda>i. map (f i) [0..<m]) [0..<n]) ! (i * m + j) = f i j"
proof (induction n)
  case 0
  then show ?case by simp
next
  case (Suc n)
  show ?case
  proof (cases "i < n")
    case True
    then have "Suc i \<le> n" by simp
    then have "Suc i * m \<le> n * m" by (rule mult_le_mono1)
    with Suc.prems have "i * m + j < n * m" by simp
    with Suc.IH[OF True Suc.prems(2)] show ?thesis
      by (simp add: nth_append length_concat_rows)
  next
    case False
    with Suc.prems have "i = n" by simp
    with Suc.prems show ?thesis
      by (simp add: nth_append length_concat_rows)
  qed
qed

lemma fill_table_nth:
  assumes "i < 256" "j < 256"
  shows "fill_table entry ! (i * 256 + j) = entry (int i) (int j)"
  unfolding fill_table_def using concat_rows_nth[OF assms, of "\<lambda>i j. entry (int i) (int j)"] by simp

lemma length_fill_table: "length (fill_table entry) = 65536"
  unfolding fill_table_def by (simp add: length_concat_rows)

lemma sint8_eq: "sint (a::8 word) = (if 128 \<le> uint a then uint a - 256 else uint a)"
proof -
  have m: "uint a mod 256 = uint a" using uint_bounded[of a] by simp
  have "sint a = take_bit 8 (uint a) - 256 * of_bool (bit (uint a) 7)"
    by (simp add: sint_uint signed_take_bit_eq_take_bit_minus)
  also have "take_bit 8 (uint a) = uint a" by (simp add: take_bit_eq_mod m)
  also have "bit (uint a) 7 = (128 \<le> uint a)" using bit7_int_iff[of "uint a"] m by simp
  finally show ?thesis by simp
qed

lemma overflow_test_iff: "((P::int) AND Q AND 0x80 \<noteq> 0) = (bit P 7 \<and> bit Q 7)"
proof -
  have "(P AND Q AND 0x80) = (P AND Q) AND 0x80" by (simp add: ac_simps)
  then show ?thesis using int_and_0x80_iff_bit7[of "P AND Q"] by (simp add: bit_and_iff)
qed

lemma sz_xy_uint: "sz_xy (uint r) = direct_sz_xy r"
proof -
  have "word_of_int (uint r AND uint (YF OR XF)) = r AND (YF OR XF)"
    by (simp add: word_and_def)
  moreover have "(uint r AND 0x80 \<noteq> 0) = bit r 7"
    by (simp add: int_and_0x80_iff_bit7 bit_uint_iff)
  moreover have "(uint r \<noteq> 0) = (r \<noteq> 0)"
    by (simp add: uint_0_iff)
  ultimately show ?thesis by (simp add: sz_xy_def direct_sz_xy_def)
qed

lemma uint_low_nibble: "uint (a AND 0x0f) = uint (a::8 word) mod 16"
  using int_and_0x0f_eq_mod[of "uint a"] by (simp add: uint_and)

lemma half_carry_add:
  fixes A B :: int
  shows "((A + B) mod 256 AND 0x0f < A AND 0x0f) = (15 < A mod 16 + B mod 16)"
    and "((A + B + 1) mod 256 AND 0x0f \<le> A AND 0x0f) = (15 < A mod 16 + B mod 16 + 1)"
proof -
  define x y where "x = A mod 16" and "y = B mod 16"
  have b: "0 \<le> x" "x < 16" "0 \<le> y" "y < 16" by (simp_all add: x_def y_def)
  have n0: "(A + B) mod 256 mod 16 = (if x + y < 16 then x + y else x + y - 16)"
    using nibble_of_sum[of 0 A B] by (simp add: Let_def x_def y_def)
  have n1: "(A + B + 1) mod 256 mod 16 = (if x + y + 1 < 16 then x + y + 1 else x + y + 1 - 16)"
    using nibble_of_sum[of 1 A B] by (simp add: Let_def x_def y_def)
  show "((A + B) mod 256 AND 0x0f < A AND 0x0f) = (15 < A mod 16 + B mod 16)"
    unfolding int_and_0x0f_eq_mod n0 x_def[symmetric] y_def[symmetric] using b by (cases "x + y < 16") simp_all
  show "((A + B + 1) mod 256 AND 0x0f \<le> A AND 0x0f) = (15 < A mod 16 + B mod 16 + 1)"
    unfolding int_and_0x0f_eq_mod n1 x_def[symmetric] y_def[symmetric] using b by (cases "x + y + 1 < 16") simp_all
qed

lemma half_carry_sub:
  fixes A B :: int
  shows "((A - B) mod 256 AND 0x0f > A AND 0x0f) = (A mod 16 < B mod 16)"
    and "((A - B - 1) mod 256 AND 0x0f \<ge> A AND 0x0f) = (A mod 16 < B mod 16 + 1)"
proof -
  define x y where "x = A mod 16" and "y = B mod 16"
  have b: "0 \<le> x" "x < 16" "0 \<le> y" "y < 16" by (simp_all add: x_def y_def)
  have n0: "(A - B) mod 256 mod 16 = (if 0 \<le> x - y then x - y else x - y + 16)"
    using nibble_of_difference[of 0 A B] by (simp add: Let_def x_def y_def)
  have n1: "(A - B - 1) mod 256 mod 16 = (if 0 \<le> x - y - 1 then x - y - 1 else x - y - 1 + 16)"
    using nibble_of_difference[of 1 A B] by (simp add: Let_def x_def y_def)
  show "((A - B) mod 256 AND 0x0f > A AND 0x0f) = (A mod 16 < B mod 16)"
    unfolding int_and_0x0f_eq_mod n0 x_def[symmetric] y_def[symmetric] using b by (cases "0 \<le> x - y") simp_all
  show "((A - B - 1) mod 256 AND 0x0f \<ge> A AND 0x0f) = (A mod 16 < B mod 16 + 1)"
    unfolding int_and_0x0f_eq_mod n1 x_def[symmetric] y_def[symmetric] using b by (cases "0 \<le> x - y - 1") simp_all
qed

lemma carry_add:
  fixes A B :: int
  assumes "0 \<le> A" "A < 256" "0 \<le> B" "B < 256"
  shows "((A + B) mod 256 < A) = (255 < A + B)"
    and "((A + B + 1) mod 256 \<le> A) = (255 < A + B + 1)"
proof -
  from assms have "0 \<le> A + B" "A + B < 512" "0 \<le> A + B + 1" "A + B + 1 < 512" by simp_all
  note m = mod256_cases[OF this(1,2)] mod256_cases[OF this(3,4)]
  show "((A + B) mod 256 < A) = (255 < A + B)" unfolding m using assms by (cases "A + B < 256") simp_all
  show "((A + B + 1) mod 256 \<le> A) = (255 < A + B + 1)" unfolding m using assms by (cases "A + B + 1 < 256") simp_all
qed

lemma carry_sub:
  fixes A B :: int
  assumes "0 \<le> A" "A < 256" "0 \<le> B" "B < 256"
  shows "((A - B) mod 256 > A) = (A < B)"
    and "((A - B - 1) mod 256 \<ge> A) = (A < B + 1)"
proof -
  from assms have "-256 \<le> A - B" "A - B < 256" "-256 \<le> A - B - 1" "A - B - 1 < 256" by simp_all
  note m = mod256_cases_neg[OF this(1,2)] mod256_cases_neg[OF this(3,4)]
  show "((A - B) mod 256 > A) = (A < B)" unfolding m using assms by (cases "0 \<le> A - B") simp_all
  show "((A - B - 1) mod 256 \<ge> A) = (A < B + 1)" unfolding m using assms by (cases "0 \<le> A - B - 1") simp_all
qed

lemma overflow_add:
  fixes A B c :: int
  assumes "0 \<le> A" "A < 256" "0 \<le> B" "B < 256" "0 \<le> c" "c \<le> 1" and N: "N = (A + B + c) mod 256"
  shows "(((N - A - c) XOR A XOR 0x80) AND ((N - A - c) XOR N) AND 0x80 \<noteq> 0)
         = (s8 A + s8 B + c < -128 \<or> 127 < s8 A + s8 B + c)"
proof -
  have "(N - A - c) mod 256 = (A + B + c - A - c) mod 256"
    unfolding N by (intro mod_diff_cong) simp_all
  with assms have v: "(N - A - c) mod 256 = B" by simp
  from assms have "0 \<le> A + B + c" "A + B + c < 512" by simp_all
  note m = mod256_cases[OF this]
  have nb: "0 \<le> N" "N < 256" unfolding N by simp_all
  have "(((N - A - c) XOR A XOR 0x80) AND ((N - A - c) XOR N) AND 0x80 \<noteq> 0)
      = (((128 \<le> B) = (128 \<le> A)) \<and> ((128 \<le> B) \<noteq> (128 \<le> N)))"
  proof -
    have bv: "bit (N - A - c) 7 = (128 \<le> B)" by (simp add: bit7_int_iff v)
    have ba: "bit A 7 = (128 \<le> A)" using assms by (simp add: bit7_int_iff)
    have bn: "bit N 7 = (128 \<le> N)" using nb by (simp add: bit7_int_iff)
    have b80: "bit (0x80::int) 7" by (simp add: bit7_int_iff)
    show ?thesis unfolding overflow_test_iff bit_xor_iff bv ba bn using b80 by auto
  qed
  also have "\<dots> = (s8 A + s8 B + c < -128 \<or> 127 < s8 A + s8 B + c)"
    unfolding N m s8_def using assms by (cases "A + B + c < 256") auto
  finally show ?thesis .
qed

lemma overflow_sub:
  fixes A B c :: int
  assumes "0 \<le> A" "A < 256" "0 \<le> B" "B < 256" "0 \<le> c" "c \<le> 1" and N: "N = (A - B - c) mod 256"
  shows "(((A - N - c) XOR A) AND (A XOR N) AND 0x80 \<noteq> 0)
         = (s8 A - s8 B - c < -128 \<or> 127 < s8 A - s8 B - c)"
proof -
  have "(A - N - c) mod 256 = (A - (A - B - c) - c) mod 256"
    unfolding N by (intro mod_diff_cong) simp_all
  with assms have v: "(A - N - c) mod 256 = B" by simp
  from assms have "-256 \<le> A - B - c" "A - B - c < 256" by simp_all
  note m = mod256_cases_neg[OF this]
  have nb: "0 \<le> N" "N < 256" unfolding N by simp_all
  have "(((A - N - c) XOR A) AND (A XOR N) AND 0x80 \<noteq> 0)
      = (((128 \<le> B) \<noteq> (128 \<le> A)) \<and> ((128 \<le> A) \<noteq> (128 \<le> N)))"
  proof -
    have bv: "bit (A - N - c) 7 = (128 \<le> B)" by (simp add: bit7_int_iff v)
    have ba: "bit A 7 = (128 \<le> A)" using assms by (simp add: bit7_int_iff)
    have bn: "bit N 7 = (128 \<le> N)" using nb by (simp add: bit7_int_iff)
    show ?thesis unfolding overflow_test_iff bit_xor_iff bv ba bn by auto
  qed
  also have "\<dots> = (s8 A - s8 B - c < -128 \<or> 127 < s8 A - s8 B - c)"
    unfolding N m s8_def using assms by (cases "0 \<le> A - B - c") auto
  finally show ?thesis .
qed

lemma s8_uint: "s8 (uint a) = sint (a::8 word)"
  by (simp add: s8_def sint8_eq)

lemma uint8_bounds: "0 \<le> uint (a::8 word)" "uint a < 256"
  using uint_bounded[of a] by simp_all

lemma padd_entry_direct: "padd_entry (uint a) (uint (a + b)) = direct_add_flags a b False"
proof -
  have n: "uint (a + b) = (uint a + uint b) mod 256" by (simp add: uint_word_ariths)
  have h: "(uint (a + b) AND 0x0f < uint a AND 0x0f) = (15 < uint (a AND 0x0f) + uint (b AND 0x0f) + 0)"
    unfolding n uint_low_nibble using half_carry_add(1)[of "uint a" "uint b"] by simp
  have c: "(uint (a + b) < uint a) = (255 < uint a + uint b + 0)"
    unfolding n using carry_add(1)[OF uint8_bounds uint8_bounds, of a b] by simp
  have v: "((uint (a + b) - uint a XOR uint a XOR 0x80) AND (uint (a + b) - uint a XOR uint (a + b)) AND 0x80 \<noteq> 0)
         = (sint a + sint b + 0 < -128 \<or> 127 < sint a + sint b + 0)"
    using overflow_add[OF uint8_bounds uint8_bounds, of 0 "uint (a + b)" a b] n by (simp add: s8_uint)
  show ?thesis
    unfolding padd_entry_def direct_add_flags_def Let_def sz_xy_uint h c v by simp
qed

lemma padc_entry_direct: "padc_entry (uint a) (uint (a + b + 1)) = direct_add_flags a b True"
proof -
  have n: "uint (a + b + 1) = (uint a + uint b + 1) mod 256"
    by (simp add: uint_word_ariths mod_add_left_eq)
  have h: "(uint (a + b + 1) AND 0x0f \<le> uint a AND 0x0f) = (15 < uint (a AND 0x0f) + uint (b AND 0x0f) + 1)"
    unfolding n uint_low_nibble using half_carry_add(2)[of "uint a" "uint b"] by simp
  have c: "(uint (a + b + 1) \<le> uint a) = (255 < uint a + uint b + 1)"
    unfolding n using carry_add(2)[OF uint8_bounds uint8_bounds, of a b] by simp
  have v: "((uint (a + b + 1) - uint a - 1 XOR uint a XOR 0x80) AND (uint (a + b + 1) - uint a - 1 XOR uint (a + b + 1)) AND 0x80 \<noteq> 0)
         = (sint a + sint b + 1 < -128 \<or> 127 < sint a + sint b + 1)"
    using overflow_add[OF uint8_bounds uint8_bounds, of 1 "uint (a + b + 1)" a b] n by (simp add: s8_uint)
  show ?thesis
    unfolding padc_entry_def direct_add_flags_def Let_def sz_xy_uint h c v by simp
qed

lemma psub_entry_direct: "psub_entry (uint a) (uint (a - b)) = direct_sub_flags a b False"
proof -
  have n: "uint (a - b) = (uint a - uint b) mod 256" by (simp add: uint_word_ariths)
  have h: "(uint (a - b) AND 0x0f > uint a AND 0x0f) = (uint (a AND 0x0f) < uint (b AND 0x0f) + 0)"
    unfolding n uint_low_nibble using half_carry_sub(1)[of "uint a" "uint b"] by simp
  have c: "(uint (a - b) > uint a) = (uint a < uint b + 0)"
    unfolding n using carry_sub(1)[OF uint8_bounds uint8_bounds, of a b] by simp
  have v: "((uint a - uint (a - b) XOR uint a) AND (uint a XOR uint (a - b)) AND 0x80 \<noteq> 0)
         = (sint a - sint b - 0 < -128 \<or> 127 < sint a - sint b - 0)"
    using overflow_sub[OF uint8_bounds uint8_bounds, of 0 "uint (a - b)" a b] n by (simp add: s8_uint)
  show ?thesis
    unfolding psub_entry_def direct_sub_flags_def Let_def sz_xy_uint h c v by simp
qed

lemma psbc_entry_direct: "psbc_entry (uint a) (uint (a - b - 1)) = direct_sub_flags a b True"
proof -
  have n: "uint (a - b - 1) = (uint a - uint b - 1) mod 256"
    by (simp add: uint_word_ariths mod_diff_left_eq)
  have h: "(uint (a - b - 1) AND 0x0f \<ge> uint a AND 0x0f) = (uint (a AND 0x0f) < uint (b AND 0x0f) + 1)"
    unfolding n uint_low_nibble using half_carry_sub(2)[of "uint a" "uint b"] by simp
  have c: "(uint (a - b - 1) \<ge> uint a) = (uint a < uint b + 1)"
    unfolding n using carry_sub(2)[OF uint8_bounds uint8_bounds, of a b] by simp
  have v: "((uint a - uint (a - b - 1) - 1 XOR uint a) AND (uint a XOR uint (a - b - 1)) AND 0x80 \<noteq> 0)
         = (sint a - sint b - 1 < -128 \<or> 127 < sint a - sint b - 1)"
    using overflow_sub[OF uint8_bounds uint8_bounds, of 1 "uint (a - b - 1)" a b] n by (simp add: s8_uint)
  show ?thesis
    unfolding psbc_entry_def direct_sub_flags_def Let_def sz_xy_uint h c v by simp
qed

lemma unat_lt256: "unat (a::8 word) < 256"
  using unsigned_less[of a, where 'a=nat] by simp

lemma SZHVC_add_nocarry:
  fixes a r :: "8 word"
  shows "SZHVC_add ! (unat a * 256 + unat r) = padd_entry (uint a) (uint r)"
proof -
  have "unat a * 256 + unat r < 65536" using unat_lt256[of a] unat_lt256[of r] by simp
  then show ?thesis
    unfolding SZHVC_add_def
    using fill_table_nth[OF unat_lt256 unat_lt256, of padd_entry a r]
    by (simp add: nth_append length_fill_table)
qed

lemma SZHVC_add_carry:
  fixes a r :: "8 word"
  shows "SZHVC_add ! (256 * 256 + unat a * 256 + unat r) = padc_entry (uint a) (uint r)"
  unfolding SZHVC_add_def
  using fill_table_nth[OF unat_lt256 unat_lt256, of padc_entry a r]
  by (simp add: nth_append length_fill_table)

lemma SZHVC_sub_nocarry:
  fixes a r :: "8 word"
  shows "SZHVC_sub ! (unat a * 256 + unat r) = psub_entry (uint a) (uint r)"
proof -
  have "unat a * 256 + unat r < 65536" using unat_lt256[of a] unat_lt256[of r] by simp
  then show ?thesis
    unfolding SZHVC_sub_def
    using fill_table_nth[OF unat_lt256 unat_lt256, of psub_entry a r]
    by (simp add: nth_append length_fill_table)
qed

lemma SZHVC_sub_carry:
  fixes a r :: "8 word"
  shows "SZHVC_sub ! (256 * 256 + unat a * 256 + unat r) = psbc_entry (uint a) (uint r)"
  unfolding SZHVC_sub_def
  using fill_table_nth[OF unat_lt256 unat_lt256, of psbc_entry a r]
  by (simp add: nth_append length_fill_table)

lemma direct_add_flags_xy:
  "bit (direct_add_flags a b c) 3 = bit (a + b + (if c then 1 else 0)) 3"
  "bit (direct_add_flags a b c) 5 = bit (a + b + (if c then 1 else 0)) 5"
  by (simp_all add: direct_add_flags_def Let_def direct_sz_xy_def bit_or_iff bit_and_iff
        SF_def ZF_def YF_def XF_def HF_def CF_def VF_def PF_def)

lemma direct_sub_flags_xy:
  "bit (direct_sub_flags a b c) 3 = bit (a - b - (if c then 1 else 0)) 3"
  "bit (direct_sub_flags a b c) 5 = bit (a - b - (if c then 1 else 0)) 5"
  by (simp_all add: direct_sub_flags_def Let_def direct_sz_xy_def bit_or_iff bit_and_iff
        SF_def ZF_def YF_def XF_def HF_def CF_def VF_def PF_def NF_def)

text \<open>
  Claim C1. The cell that ADD/ADC (resp. SUB/SBC/CP) reads for the operands \<open>a\<close>, \<open>b\<close>
  and a carry-in is the one in the row of the old accumulator value \<open>a\<close> and the column
  of the 8-bit result, in the second half of the table when the carry-in is set. For
  every pair of bytes that cell holds exactly the flags of the direct recomputation of
  sign, zero, half carry, overflow and carry (with N clear for additions and set for
  subtractions), and its bits 3 and 5 are bits 3 and 5 of the result.
\<close>

theorem C1_flag_tables_match_direct:
  fixes a b :: "8 word"
  shows "SZHVC_add ! (unat a * 256 + unat (a + b)) = direct_add_flags a b False
       \<and> SZHVC_add ! (256 * 256 + unat a * 256 + unat (a + b + 1)) = direct_add_flags a b True
       \<and> SZHVC_sub ! (unat a * 256 + unat (a - b)) = direct_sub_flags a b False
       \<and> SZHVC_sub ! (256 * 256 + unat a * 256 + unat (a - b - 1)) = direct_sub_flags a b True
       \<and> bit (SZHVC_add ! (unat a * 256 + unat (a + b))) 3 = bit (a + b) 3
       \<and> bit (SZHVC_add ! (unat a * 256 + unat (a + b))) 5 = bit (a + b) 5
       \<and> bit (SZHVC_add ! (256 * 256 + unat a * 256 + unat (a + b + 1))) 3 = bit (a + b + 1) 3
       \<and> bit (SZHVC_add ! (256 * 256 + unat a * 256 + unat (a + b + 1))) 5 = bit (a + b + 1) 5
       \<and> bit (SZHVC_sub ! (unat a * 256 + unat (a - b))) 3 = bit (a - b) 3
       \<and> bit (SZHVC_sub ! (unat a * 256 + unat (a - b))) 5 = bit (a - b) 5
       \<and> bit (SZHVC_sub ! (256 * 256 + unat a * 256 + unat (a - b - 1))) 3 = bit (a - b - 1) 3
       \<and> bit (SZHVC_sub ! (256 * 256 + unat a * 256 + unat (a - b - 1))) 5 = bit (a - b - 1) 5"
proof -
  have t: "SZHVC_add ! (unat a * 256 + unat (a + b)) = direct_add_flags a b False"
    "SZHVC_add ! (256 * 256 + unat a * 256 + unat (a + b + 1)) = direct_add_flags a b True"
    "SZHVC_sub ! (unat a * 256 + unat (a - b)) = direct_sub_flags a b False"
    "SZHVC_sub ! (256 * 256 + unat a * 256 + unat (a - b - 1)) = direct_sub_flags a b True"
    by (simp_all only: SZHVC_add_nocarry SZHVC_add_carry SZHVC_sub_nocarry SZHVC_sub_carry
          padd_entry_direct padc_entry_direct psub_entry_direct psbc_entry_direct)
  show ?thesis
    unfolding t direct_add_flags_xy direct_sub_flags_xy by simp
qed

subsection \<open>Reset\<close>

lemma page_lt16: "unat (drop_bit 12 (a::32 word) AND 15) < 16"
proof -
  have "drop_bit 12 a AND 15 \<le> 15" by (rule word_and_le1)
  then show ?thesis by (simp add: word_le_nat_alt) 
qed

lemma remap_identity_mask:
  fixes addr :: "16 word"
  shows "(push_bit 12 (drop_bit 12 (ucast addr :: 32 word) AND mask 4) AND mask 20) OR (ucast addr AND mask 12) = (ucast addr :: 32 word)"
proof (rule bit_word_eqI)
  fix n assume "n < LENGTH(32)"
  show "bit ((push_bit 12 (drop_bit 12 (ucast addr :: 32 word) AND mask 4) AND mask 20) OR (ucast addr AND mask 12)) n
          = bit (ucast addr :: 32 word) n"
  proof (cases "n < 12")
    case True
    then show ?thesis by (auto simp add: bit_simps)
  next
    case False
    then have "12 + (n - 12) = n" by simp
    with False show ?thesis by (auto simp add: bit_simps dest: bit_imp_le_length)
  qed
qed

lemma remap_identity:
  fixes addr :: "16 word"
  shows "(push_bit 12 (of_nat (unat (drop_bit 12 (ucast addr :: 32 word) AND 15))) AND 0xFFFFF) OR (ucast addr AND 4095) = (ucast addr :: 32 word)"
  using remap_identity_mask[of addr] by (simp add: mask_eq_exp_minus_1)


text \<open>
  Claim C3. After \<open>device_reset\<close>, from any prior state: IX = IY = 0xFFFF, the zero
  flag of F is set, DE0 and DE1 of DSTAT are clear, TDE0 and TDE1 of TCR are clear, CBR =
  0, BBR = 0, CBAR = 0xF0, and the translation maps every 16-bit logical address to
  itself.
\<close>

theorem C3_device_reset_state:
  fixes addr :: "16 word"
  shows "w_l (m_IX (device_reset s)) = 0xFFFF \<and> w_l (m_IY (device_reset s)) = 0xFFFF
     \<and> b_l (m_AF (device_reset s)) AND ZF \<noteq> 0
     \<and> m_dstat (device_reset s) AND Z180_DSTAT_DE0 = 0
     \<and> m_dstat (device_reset s) AND Z180_DSTAT_DE1 = 0
     \<and> m_tcr (device_reset s) AND Z180_TCR_TDE0 = 0
     \<and> m_tcr (device_reset s) AND Z180_TCR_TDE1 = 0
     \<and> m_mmu_cbr (device_reset s) = 0 \<and> m_mmu_bbr (device_reset s) = 0
     \<and> m_mmu_cbar (device_reset s) = 0xF0
     \<and> translate (device_reset s) addr = ucast addr"
proof -
  have regs: "w_l (m_IX (device_reset s)) = 0xFFFF" "w_l (m_IY (device_reset s)) = 0xFFFF"
    "b_l (m_AF (device_reset s)) AND ZF \<noteq> 0"
    by (simp_all add: device_reset_def z180_mmu_def w_l_def set_w_l_def b_l_def set_b_l_def ZF_def)
  have io: "m_dstat (device_reset s) AND Z180_DSTAT_DE0 = 0"
    "m_dstat (device_reset s) AND Z180_DSTAT_DE1 = 0"
    "m_tcr (device_reset s) AND Z180_TCR_TDE0 = 0"
    "m_tcr (device_reset s) AND Z180_TCR_TDE1 = 0"
    by (simp_all add: device_reset_def z180_mmu_def Z180_DSTAT_DWE1_def Z180_DSTAT_DWE0_def
          Z180_DSTAT_DE0_def Z180_DSTAT_DE1_def)
  have mmu: "m_mmu_cbr (device_reset s) = 0" "m_mmu_bbr (device_reset s) = 0"
    "m_mmu_cbar (device_reset s) = 0xF0"
    by (simp_all add: device_reset_def z180_mmu_def)
  have "translate (device_reset s) addr = ucast addr"
    using remap_identity[of addr] page_lt16[of "ucast addr"]
    by (simp add: translate_def MMU_REMAP_ADDR_def device_reset_def z180_mmu_def mmu_page_def Let_def)
  with regs io mmu show ?thesis by simp
qed

subsection \<open>Register writes\<close>

lemma remap_port_io_write [simp]: "remap_port (io_write_byte s p d) = remap_port s"
  by (rule ext) (simp add: remap_port_def port_matches_base_def iocr_base_def io_write_byte_def)

lemma write_0x15:
  "m_tmdr_value (write_switch s 0x15 d) 1 = (m_tmdr_value s 1 AND 0x00ff) OR ucast d"
  by (simp add: write_switch_def)

lemma write_0x0d:
  "m_tmdr_value (write_switch s 0x0d d) 0 = (m_tmdr_value s 0 AND 0x00ff) OR push_bit 8 (ucast d)"
  by (simp add: write_switch_def)

lemma io_write_fields [simp]:
  "m_tmdr_value (io_write_byte s p d) = m_tmdr_value s"
  "m_dstat (io_write_byte s p d) = m_dstat s"
  by (simp_all add: io_write_byte_def)

lemma power_on_iocr: "m_iocr power_on = 0"
  by (simp add: power_on_def device_reset_def z180_mmu_def)

lemma power_on_remap: "remap_port power_on port = port"
  by (simp add: remap_port_def port_matches_base_def iocr_base_def power_on_iocr)

text \<open>
  Claim C9. For every state and data byte \<open>d\<close>, a write that is dispatched to the
  remapped port 0x15 (TMDR1H) sets the timer-1 down-counter to (previous value AND
  0x00FF) OR \<open>d\<close>, the byte landing in bits 0-7, while a write dispatched to port 0x0D
  (TMDR0H) sets the timer-0 down-counter to (previous value AND 0x00FF) OR (\<open>d\<close> shifted
  left by 8).
\<close>

theorem C9_timer_high_byte_writes:
  assumes "remap_port s p1 = 0x15" and "remap_port s p0 = 0x0d"
  shows "m_tmdr_value (z180_writecontrol s p1 d) 1 = (m_tmdr_value s 1 AND 0x00FF) OR ucast d
       \<and> m_tmdr_value (z180_writecontrol s p0 d) 0 = (m_tmdr_value s 0 AND 0x00FF) OR push_bit 8 (ucast d)"
  using assms write_0x15[of "io_write_byte s p1 d" d] write_0x0d[of "io_write_byte s p0 d" d]
  by (simp add: z180_writecontrol_def Let_def)

theorem C9_timer_high_byte_writes_witness:
  "remap_port power_on 0x15 = 0x15 \<and> remap_port power_on 0x0d = 0x0d
   \<and> m_tmdr_value (z180_writecontrol power_on 0x15 0x12) 1 = 0x00FF
   \<and> m_tmdr_value (z180_writecontrol power_on 0x0d 0x12) 0 = 0x12FF"
proof -
  have h: "remap_port power_on 0x15 = 0x15" "remap_port power_on 0x0d = 0x0d"
    by (simp_all add: power_on_remap)
  have v: "m_tmdr_value power_on 1 = 0xFFFF" "m_tmdr_value power_on 0 = 0xFFFF"
    by (simp_all add: power_on_def device_reset_def z180_mmu_def)
  show ?thesis
    using h v C9_timer_high_byte_writes [OF h, of "0x12"] by simp
qed

lemma w8_mask_bit:
  fixes x :: "8 word"
  shows "(x AND 0x80 \<noteq> 0) = bit x 7" "(x AND 0x40 \<noteq> 0) = bit x 6" "(x AND 0x20 \<noteq> 0) = bit x 5"
   "(x AND 0x10 \<noteq> 0) = bit x 4" "(x AND 0x01 \<noteq> 0) = bit x 0"
  using and_exp_eq_0_iff_not_bit[of x 7] and_exp_eq_0_iff_not_bit[of x 6] and_exp_eq_0_iff_not_bit[of x 5]
   and_exp_eq_0_iff_not_bit[of x 4] and_exp_eq_0_iff_not_bit[of x 0]
  by simp_all

lemma dstat_enable_test:
  fixes d :: "8 word"
  shows "(d AND (Z180_DSTAT_DE1 OR Z180_DSTAT_DWE1) = Z180_DSTAT_DE1) = (bit d 7 \<and> \<not> bit d 5)"
    and "(d AND (Z180_DSTAT_DE0 OR Z180_DSTAT_DWE0) = Z180_DSTAT_DE0) = (bit d 6 \<and> \<not> bit d 4)"
  unfolding Z180_DSTAT_DE1_def Z180_DSTAT_DWE1_def Z180_DSTAT_DE0_def Z180_DSTAT_DWE0_def
  by (simp_all add: bit_eq_iff bit_simps) (auto simp: numeral_eq_Suc bit_Suc less_Suc_eq)

lemma dstat_masks:
  fixes d :: "8 word"
  shows "(d AND Z180_DSTAT_DME \<noteq> 0) = bit d 0" "(d AND Z180_DSTAT_DE1 \<noteq> 0) = bit d 7"
    "(d AND Z180_DSTAT_DE0 \<noteq> 0) = bit d 6" "(d AND Z180_DSTAT_DWE1 = 0) = (\<not> bit d 5)"
    "(d AND Z180_DSTAT_DWE0 = 0) = (\<not> bit d 4)"
  unfolding Z180_DSTAT_DE1_def Z180_DSTAT_DWE1_def Z180_DSTAT_DE0_def Z180_DSTAT_DWE0_def Z180_DSTAT_DME_def
  using w8_mask_bit[of d] by auto

lemma dstat_write:
  "(m_dstat (write_switch s 0x30 d) AND Z180_DSTAT_DME \<noteq> 0) =
     (m_dstat s AND Z180_DSTAT_DME \<noteq> 0
      \<or> (d AND Z180_DSTAT_DE1 \<noteq> 0 \<and> d AND Z180_DSTAT_DWE1 = 0)
      \<or> (d AND Z180_DSTAT_DE0 \<noteq> 0 \<and> d AND Z180_DSTAT_DWE0 = 0))"
proof -
  have b: "bit ((m_dstat s AND Z180_DSTAT_DME) OR (d AND Z180_DSTAT_MASK AND NOT Z180_DSTAT_DME)) 0
            = bit (m_dstat s) 0"
    by (simp add: Z180_DSTAT_DME_def Z180_DSTAT_MASK_def bit_simps)
  have c: "bit (x OR Z180_DSTAT_DME) 0" for x :: "8 word"
    by (simp add: Z180_DSTAT_DME_def bit_simps)
  show ?thesis
    unfolding dstat_masks
    by (auto simp add: write_switch_def Let_def dstat_enable_test b c)
qed

text \<open>
  Claim C10. For every data byte \<open>d\<close>, after a write dispatched to the remapped port
  0x30 (DSTAT) the DME bit is set exactly when it was set before, or \<open>d\<close> has DE1 set with
  DWE1 clear, or \<open>d\<close> has DE0 set with DWE0 clear. In particular the write never clears
  DME.
\<close>

theorem C10_dstat_write_keeps_DME:
  assumes "remap_port s port = 0x30"
  shows "(m_dstat (z180_writecontrol s port d) AND Z180_DSTAT_DME \<noteq> 0) =
     (m_dstat s AND Z180_DSTAT_DME \<noteq> 0
      \<or> (d AND Z180_DSTAT_DE1 \<noteq> 0 \<and> d AND Z180_DSTAT_DWE1 = 0)
      \<or> (d AND Z180_DSTAT_DE0 \<noteq> 0 \<and> d AND Z180_DSTAT_DWE0 = 0))"
  using assms dstat_write[of "io_write_byte s port d" d]
  by (simp add: z180_writecontrol_def Let_def)

theorem C10_dstat_write_keeps_DME_witness:
  "remap_port power_on 0x30 = 0x30
   \<and> m_dstat power_on AND Z180_DSTAT_DME = 0
   \<and> m_dstat (z180_writecontrol power_on 0x30 0x40) AND Z180_DSTAT_DME \<noteq> 0
   \<and> m_dstat (z180_writecontrol power_on 0x30 0x50) AND Z180_DSTAT_DME = 0"
proof -
  have h: "remap_port power_on 0x30 = 0x30" by (simp add: power_on_remap)
  have v: "m_dstat power_on = 0x30"
    by (simp add: power_on_def device_reset_def z180_mmu_def Z180_DSTAT_DWE1_def
          Z180_DSTAT_DWE0_def)
  show ?thesis
    using h v C10_dstat_write_keeps_DME [OF h, of "0x40"] C10_dstat_write_keeps_DME [OF h, of "0x50"]
    by (simp add: Z180_DSTAT_DME_def Z180_DSTAT_DE1_def Z180_DSTAT_DE0_def Z180_DSTAT_DWE1_def
          Z180_DSTAT_DWE0_def)
qed

subsection \<open>Interrupt priorities\<close>

lemma service_pending_none:
  "(\<And>j. i \<le> j \<Longrightarrow> j \<le> Z180_INT_MAX \<Longrightarrow> m_int_pending s j = 0) \<Longrightarrow> service_pending E i c s = (c, s)"
proof (induction E i c s rule: service_pending.induct)
  case (1 E i cyc s)
  show ?case
  proof (cases "i \<le> Z180_INT_MAX")
    case True
    have z: "m_int_pending s i = 0" using "1.prems"[of i] True by simp
    have nz: "\<not> m_int_pending s i \<noteq> 0" using z by simp
    have r: "service_pending E (i + 1) cyc s = (cyc, s)"
    proof (rule "1.IH"[OF True nz])
      fix j assume "i + 1 \<le> j" "j \<le> Z180_INT_MAX"
      then show "m_int_pending s j = 0" using "1.prems"[of j] by simp
    qed
    show ?thesis
      by (subst service_pending.simps) (simp only: True z r if_True if_False refl not_True_eq_False simp_thms)
  next
    case False
    then show ?thesis by (subst service_pending.simps) (simp only: if_False)
  qed
qed


lemma service_pending_first:
  assumes "i0 \<le> i" "i \<le> Z180_INT_MAX" "m_int_pending s i \<noteq> 0"
    and "\<And>j. i0 \<le> j \<Longrightarrow> j < i \<Longrightarrow> m_int_pending s j = 0"
  shows "service_pending E i0 c s =
           (c + fst (take_interrupt E i s),
            (snd (take_interrupt E i s))\<lparr>m_int_pending := (m_int_pending (snd (take_interrupt E i s)))(i := 0)\<rparr>)"
  using assms
proof (induction E i0 c s rule: service_pending.induct)
  case (1 E i0 cyc s)
  show ?case
  proof (cases "i0 = i")
    case True
    have le: "i \<le> Z180_INT_MAX" by (rule "1.prems"(2))
    have nz: "m_int_pending s i \<noteq> 0" by (rule "1.prems"(3))
    show ?thesis
      unfolding True
      by (subst service_pending.simps)
         (simp only: le nz if_True case_prod_unfold Let_def simp_thms)
  next
    case False
    with "1.prems"(1) have lt: "i0 < i" by simp
    with "1.prems"(2) have le: "i0 \<le> Z180_INT_MAX" by simp
    have z: "m_int_pending s i0 = 0" using "1.prems"(4)[of i0] lt by simp
    have nz: "\<not> m_int_pending s i0 \<noteq> 0" using z by simp
    have s1: "i0 + 1 \<le> i" using lt by simp
    have r: "service_pending E (i0 + 1) cyc s =
           (cyc + fst (take_interrupt E i s),
            (snd (take_interrupt E i s))\<lparr>m_int_pending := (m_int_pending (snd (take_interrupt E i s)))(i := 0)\<rparr>)"
    proof (rule "1.IH"[OF le nz s1 "1.prems"(2) "1.prems"(3)])
      fix j assume "i0 + 1 \<le> j" "j < i"
      then show "m_int_pending s j = 0" using "1.prems"(4)[of j] by simp
    qed
    show ?thesis
      by (subst service_pending.simps) (simp only: le z r if_True if_False refl not_True_eq_False simp_thms)
  qed
qed

text \<open>
  Claim C2. \<open>check_interrupts\<close> first promotes the asserted, enabled IRQ lines into the
  pending flags (\<open>promote_irqs\<close>; nothing changes when IFF1 is clear, the EI shadow is
  active or no IRQ line is asserted) and then scans the flags in the order TRAP, NMI,
  IRQ0, IRQ1, IRQ2, PRT0, PRT1, DMA0, DMA1, CSIO, ASCI0, ASCI1. For every state, provided
  the acknowledge sequence \<open>take_interrupt\<close> itself leaves the pending flags alone: if no
  flag is pending, nothing is serviced, no cycles are spent and the flags stay as they
  are; otherwise \<open>take_interrupt\<close> runs once, for the pending interrupt \<open>i\<close> of lowest
  index, and afterwards exactly flag \<open>i\<close> has been cleared, every other flag being
  unchanged.
\<close>

theorem C2_check_interrupts_services_lowest_pending:
  assumes take: "\<And>i t. m_int_pending (snd (take_interrupt E i t)) = m_int_pending t"
  shows "((\<forall>j \<le> Z180_INT_MAX. m_int_pending (promote_irqs s) j = 0)
            \<longrightarrow> check_interrupts E s = (0, promote_irqs s))
       \<and> (i \<le> Z180_INT_MAX \<and> m_int_pending (promote_irqs s) i \<noteq> 0
            \<and> (\<forall>j < i. m_int_pending (promote_irqs s) j = 0)
            \<longrightarrow> check_interrupts E s =
                  (fst (take_interrupt E i (promote_irqs s)),
                   (snd (take_interrupt E i (promote_irqs s)))
                     \<lparr>m_int_pending := (m_int_pending (promote_irqs s))(i := 0)\<rparr>))
       \<and> (m_IFF1 s = 0 \<or> m_after_EI s \<noteq> 0
            \<or> (m_irq_state s 0 = 0 \<and> m_irq_state s 1 = 0 \<and> m_irq_state s 2 = 0)
            \<longrightarrow> promote_irqs s = s)"
proof (intro conjI impI)
  assume a: "\<forall>j \<le> Z180_INT_MAX. m_int_pending (promote_irqs s) j = 0"
  show "check_interrupts E s = (0, promote_irqs s)"
    unfolding check_interrupts_def
  proof (rule service_pending_none)
    fix j assume "j \<le> Z180_INT_MAX"
    with a show "m_int_pending (promote_irqs s) j = 0" by simp
  qed
next
  assume a: "i \<le> Z180_INT_MAX \<and> m_int_pending (promote_irqs s) i \<noteq> 0
            \<and> (\<forall>j < i. m_int_pending (promote_irqs s) j = 0)"
  have "service_pending E 0 0 (promote_irqs s) =
           (0 + fst (take_interrupt E i (promote_irqs s)),
            (snd (take_interrupt E i (promote_irqs s)))\<lparr>m_int_pending := (m_int_pending (snd (take_interrupt E i (promote_irqs s))))(i := 0)\<rparr>)"
  proof (rule service_pending_first)
    show "0 \<le> i" by simp
    show "i \<le> Z180_INT_MAX" using a by simp
    show "m_int_pending (promote_irqs s) i \<noteq> 0" using a by simp
    fix j assume "j < i"
    with a show "m_int_pending (promote_irqs s) j = 0" by simp
  qed
  then show "check_interrupts E s =
                  (fst (take_interrupt E i (promote_irqs s)),
                   (snd (take_interrupt E i (promote_irqs s)))
                     \<lparr>m_int_pending := (m_int_pending (promote_irqs s))(i := 0)\<rparr>)"
    unfolding check_interrupts_def by (simp only: take add_0)
next
  assume "m_IFF1 s = 0 \<or> m_after_EI s \<noteq> 0
            \<or> (m_irq_state s 0 = 0 \<and> m_irq_state s 1 = 0 \<and> m_irq_state s 2 = 0)"
  then show "promote_irqs s = s"
    by (auto simp: promote_irqs_def promote_irq_def CLEAR_LINE_def)
qed

lemma power_on_interrupt_fields: "m_itc power_on = Z180_ITC_ITE0" "m_after_EI power_on = 0"
  "m_int_pending power_on j = (if j \<le> Z180_INT_MAX then 0 else m_int_pending constructed j)"
  "m_IFF1 power_on = 0"
  by (simp_all add: power_on_def device_reset_def z180_mmu_def)

lemma irq0_and_prt0_promoted:
  "m_int_pending (promote_irqs irq0_and_prt0) = (\<lambda>_. 0)(Z180_INT_PRT0 := 1, Z180_INT_IRQ0 := 1)"
  by (simp add: irq0_and_prt0_def promote_irqs_def promote_irq_def power_on_interrupt_fields CLEAR_LINE_def
       Z180_ITC_ITE0_def Z180_ITC_ITE1_def Z180_ITC_ITE2_def)

theorem C2_check_interrupts_services_lowest_pending_witness:
  "Z180_INT_IRQ0 \<le> Z180_INT_MAX
   \<and> m_int_pending (promote_irqs irq0_and_prt0) Z180_INT_IRQ0 \<noteq> 0
   \<and> m_int_pending (promote_irqs irq0_and_prt0) Z180_INT_PRT0 \<noteq> 0
   \<and> fst (check_interrupts sample_ext irq0_and_prt0) = 13
   \<and> m_int_pending (snd (check_interrupts sample_ext irq0_and_prt0)) Z180_INT_IRQ0 = 0
   \<and> m_int_pending (snd (check_interrupts sample_ext irq0_and_prt0)) Z180_INT_PRT0 = 1
   \<and> check_interrupts sample_ext power_on = (0, power_on)"
proof -
  have take: "\<And>i t. m_int_pending (snd (take_interrupt sample_ext i t)) = m_int_pending t"
    by (simp add: sample_ext_def)
  have le: "Z180_INT_IRQ0 \<le> Z180_INT_MAX"
    by (simp add: Z180_INT_IRQ0_def Z180_INT_MAX_def Z180_INT_ASCI1_def)
  have low: "\<forall>j < Z180_INT_IRQ0. m_int_pending (promote_irqs irq0_and_prt0) j = 0"
    by (simp add: irq0_and_prt0_promoted Z180_INT_IRQ0_def Z180_INT_PRT0_def)
  have p: "m_int_pending (promote_irqs irq0_and_prt0) Z180_INT_IRQ0 \<noteq> 0"
     "m_int_pending (promote_irqs irq0_and_prt0) Z180_INT_PRT0 \<noteq> 0"
    by (simp_all add: irq0_and_prt0_promoted Z180_INT_IRQ0_def Z180_INT_PRT0_def)
  have quiet: "promote_irqs power_on = power_on"
    by (simp add: promote_irqs_def power_on_interrupt_fields)
  have none: "\<forall>j \<le> Z180_INT_MAX. m_int_pending (promote_irqs power_on) j = 0"
    by (simp add: quiet power_on_interrupt_fields)
  from C2_check_interrupts_services_lowest_pending [of sample_ext irq0_and_prt0 Z180_INT_IRQ0, OF take] le p low
  have "check_interrupts sample_ext irq0_and_prt0 =
                  (fst (take_interrupt sample_ext Z180_INT_IRQ0 (promote_irqs irq0_and_prt0)),
                   (snd (take_interrupt sample_ext Z180_INT_IRQ0 (promote_irqs irq0_and_prt0)))
                     \<lparr>m_int_pending := (m_int_pending (promote_irqs irq0_and_prt0))(Z180_INT_IRQ0 := 0)\<rparr>)"
    by simp
  then have a: "fst (check_interrupts sample_ext irq0_and_prt0) = 13"
    "m_int_pending (snd (check_interrupts sample_ext irq0_and_prt0)) Z180_INT_IRQ0 = 0"
    "m_int_pending (snd (check_interrupts sample_ext irq0_and_prt0)) Z180_INT_PRT0 = 1"
    by (simp_all add: sample_ext_def irq0_and_prt0_promoted Z180_INT_IRQ0_def Z180_INT_PRT0_def)
  from C2_check_interrupts_services_lowest_pending [of sample_ext power_on 0, OF take] none
  have b: "check_interrupts sample_ext power_on = (0, power_on)" by (simp add: quiet)
  from le p a b show ?thesis by simp
qed

subsection \<open>Timers\<close>

lemma tcr_bits:
  fixes x :: "8 word"
  shows "(x AND Z180_TCR_TDE0 \<noteq> 0) = bit x 0" "(x AND Z180_TCR_TDE1 \<noteq> 0) = bit x 1"
        "(x AND Z180_TCR_TIF0 \<noteq> 0) = bit x 6" "(x AND Z180_TCR_TIF1 \<noteq> 0) = bit x 7"
        "(x AND Z180_TCR_TDE0 = 0) = (\<not> bit x 0)" "(x AND Z180_TCR_TDE1 = 0) = (\<not> bit x 1)"
  unfolding Z180_TCR_TDE0_def Z180_TCR_TDE1_def Z180_TCR_TIF0_def Z180_TCR_TIF1_def
  using and_exp_eq_0_iff_not_bit[of x 0] and_exp_eq_0_iff_not_bit[of x 1]
        and_exp_eq_0_iff_not_bit[of x 6] and_exp_eq_0_iff_not_bit[of x 7]
  by auto

lemma mask8_16: "(0x00FF::16 word) = mask 8" "(0xFF00::16 word) = NOT (mask 8)"
  by (simp_all add: mask_eq_exp_minus_1 not_eq_complement)

lemma set_lo_hi16: "set_hi16 (set_lo16 p (lo16 R)) (hi16 R) = R" (is "?l = R")
proof (rule bit_word_eqI)
  fix n assume "n < LENGTH(16)"
  show "bit ?l n = bit R n"
  proof (cases "n < 8")
    case True
    then show ?thesis
      by (auto simp add: set_hi16_def set_lo16_def lo16_def hi16_def mask8_16 bit_simps)
  next
    case False
    then have "8 + (n - 8) = n" by simp
    with False show ?thesis
      by (auto simp add: set_hi16_def set_lo16_def lo16_def hi16_def mask8_16 bit_simps
            dest: bit_imp_le_length)
  qed
qed

lemma remap_port_base0: "iocr_base s = 0 \<Longrightarrow> remap_port s port = port"
  by (simp add: remap_port_def port_matches_base_def)

lemma io_write_byte_fields:
  "m_iocr (io_write_byte s p d) = m_iocr s" "m_tcr (io_write_byte s p d) = m_tcr s"
  "m_rldr (io_write_byte s p d) = m_rldr s" "m_tmdr_value (io_write_byte s p d) = m_tmdr_value s"
  "m_timer_cnt (io_write_byte s p d) = m_timer_cnt s"
  "iocr_base (io_write_byte s p d) = iocr_base s"
  by (simp_all add: io_write_byte_def iocr_base_def)

lemma write_rldr_lo:
  assumes "iocr_base s = 0" "i = 0 \<or> i = 1"
  shows "m_rldr (z180_writecontrol s (RLDR_L i) v) = (m_rldr s)(i := set_lo16 (m_rldr s i) v)"
    "m_tcr (z180_writecontrol s (RLDR_L i) v) = m_tcr s"
    "m_timer_cnt (z180_writecontrol s (RLDR_L i) v) = m_timer_cnt s"
    "iocr_base (z180_writecontrol s (RLDR_L i) v) = 0"
  using assms
  by (auto simp add: z180_writecontrol_def Let_def remap_port_base0 io_write_byte_fields
        RLDR_L_def write_switch_def iocr_base_def)

lemma write_rldr_hi:
  assumes "iocr_base s = 0" "i = 0 \<or> i = 1"
  shows "m_rldr (z180_writecontrol s (RLDR_H i) v) = (m_rldr s)(i := set_hi16 (m_rldr s i) v)"
    "m_tcr (z180_writecontrol s (RLDR_H i) v) = m_tcr s"
    "m_timer_cnt (z180_writecontrol s (RLDR_H i) v) = m_timer_cnt s"
    "iocr_base (z180_writecontrol s (RLDR_H i) v) = 0"
  using assms
  by (auto simp add: z180_writecontrol_def Let_def remap_port_base0 io_write_byte_fields
        RLDR_H_def write_switch_def iocr_base_def)


lemma write_tcr_enable:
  assumes "iocr_base s = 0" "i = 0 \<or> i = 1" "m_tcr s AND TCR_TDE i = 0" "d AND TCR_TDE i \<noteq> 0"
  shows "m_tmdr_value (z180_writecontrol s 0x10 d) i = 0"
    "m_rldr (z180_writecontrol s 0x10 d) = m_rldr s"
    "m_tcr (z180_writecontrol s 0x10 d) AND TCR_TDE i \<noteq> 0"
    "m_timer_cnt (z180_writecontrol s 0x10 d) = m_timer_cnt s"
  using assms
  by (auto simp add: z180_writecontrol_def Let_def remap_port_base0 io_write_byte_fields
        write_switch_def TCR_TDE_def tcr_bits Z180_TCR_TIF1_def Z180_TCR_TIF0_def bit_simps)

lemma program_timer_result:
  assumes "iocr_base s = 0" "i = 0 \<or> i = 1" "m_tcr s AND TCR_TDE i = 0" "d AND TCR_TDE i \<noteq> 0"
  shows "m_tmdr_value (program_timer i s R d) i = 0"
    "m_rldr (program_timer i s R d) i = R"
    "m_tcr (program_timer i s R d) AND TCR_TDE i \<noteq> 0"
    "m_timer_cnt (program_timer i s R d) = m_timer_cnt s"
proof -
  let ?s1 = "z180_writecontrol s (RLDR_L i) (lo16 R)"
  let ?s2 = "z180_writecontrol ?s1 (RLDR_H i) (hi16 R)"
  note a = write_rldr_lo[OF assms(1,2), of "lo16 R"]
  note b = write_rldr_hi[OF a(4) assms(2), of "hi16 R"]
  have t: "m_tcr ?s2 AND TCR_TDE i = 0" using assms(3) by (simp add: a b)
  note c = write_tcr_enable[OF b(4) assms(2) t assms(4)]
  show "m_tmdr_value (program_timer i s R d) i = 0" unfolding program_timer_def by (rule c(1))
  show "m_rldr (program_timer i s R d) i = R"
    unfolding program_timer_def by (simp add: c(2) a b set_lo_hi16)
  show "m_tcr (program_timer i s R d) AND TCR_TDE i \<noteq> 0" unfolding program_timer_def by (rule c(3))
  show "m_timer_cnt (program_timer i s R d) = m_timer_cnt s"
    unfolding program_timer_def by (simp add: c(4) a b)
qed

lemma prt_irq_fields:
  "m_tcr (prt_irq tie tif irq s) = m_tcr s" "m_tmdr_value (prt_irq tie tif irq s) = m_tmdr_value s"
  "m_rldr (prt_irq tie tif irq s) = m_rldr s" "m_timer_cnt (prt_irq tie tif irq s) = m_timer_cnt s"
  by (simp_all add: prt_irq_def)

lemma or_tif_bits:
  fixes x :: "8 word"
  shows "bit (x OR Z180_TCR_TIF0) n = (bit x n \<or> n = 6)"
    and "bit (x OR Z180_TCR_TIF1) n = (bit x n \<or> n = 7)"
proof -
  have e: "bit (64 :: 8 word) n = (n = 6)" "bit (128 :: 8 word) n = (n = 7)"
    using bit_exp_iff[where ?'a = "8 word", of 6 n] bit_exp_iff[where ?'a = "8 word", of 7 n]
    by auto
  show "bit (x OR Z180_TCR_TIF0) n = (bit x n \<or> n = 6)"
    unfolding Z180_TCR_TIF0_def bit_or_iff e by (rule refl)
  show "bit (x OR Z180_TCR_TIF1) n = (bit x n \<or> n = 7)"
    unfolding Z180_TCR_TIF1_def bit_or_iff e by (rule refl)
qed

lemma tick_keeps:
  "m_rldr (timer_tick s) = m_rldr s" "m_timer_cnt (timer_tick s) = 0"
  by (simp_all add: timer_tick_def prt_count_def prt_irq_fields)

lemma tick_tde:
  assumes "i = 0 \<or> i = 1"
  shows "(m_tcr (timer_tick s) AND TCR_TDE i \<noteq> 0) = (m_tcr s AND TCR_TDE i \<noteq> 0)"
  using assms
  by (auto simp add: timer_tick_def prt_count_def prt_irq_fields TCR_TDE_def tcr_bits or_tif_bits)

lemma tick_counter:
  assumes "i = 0 \<or> i = 1" "m_tcr s AND TCR_TDE i \<noteq> 0"
  shows "m_tmdr_value (timer_tick s) i =
           (if m_tmdr_value s i = 0 then m_rldr s i else m_tmdr_value s i - 1)"
  using assms
  by (auto simp add: timer_tick_def prt_count_def prt_irq_fields TCR_TDE_def tcr_bits or_tif_bits)

lemma tick_reload_sets_tif:
  assumes "i = 0 \<or> i = 1" "m_tcr s AND TCR_TDE i \<noteq> 0" "m_tmdr_value s i = 0"
  shows "m_tcr (timer_tick s) AND TCR_TIF i \<noteq> 0"
  using assms
  by (auto simp add: timer_tick_def prt_count_def prt_irq_fields TCR_TDE_def TCR_TIF_def tcr_bits or_tif_bits)

lemma tick_keeps_tif:
  assumes "i = 0 \<or> i = 1" "m_tcr s AND TCR_TIF i \<noteq> 0"
  shows "m_tcr (timer_tick s) AND TCR_TIF i \<noteq> 0"
  using assms
  by (auto simp add: timer_tick_def prt_count_def prt_irq_fields TCR_TDE_def TCR_TIF_def tcr_bits or_tif_bits)

lemma timer_tick_cnt_irrelevant: "timer_tick (s\<lparr>m_timer_cnt := x\<rparr>) = timer_tick s"
  by (simp add: timer_tick_def)

lemma clock_timers_before_tick:
  assumes "m_timer_cnt s = 0" "k < 20"
  shows "(clock_timers ^^ k) s = s\<lparr>m_timer_cnt := of_nat k\<rparr>"
  using assms(2)
proof (induction k)
  case 0
  show ?case using assms(1) by simp
next
  case (Suc k)
  then have ih: "(clock_timers ^^ k) s = s\<lparr>m_timer_cnt := of_nat k\<rparr>" by simp
  have "unat (of_nat (Suc k) :: 8 word) = Suc k"
    using Suc.prems by (simp only: unat_of_nat) simp
  then have small: "\<not> (20 :: 8 word) \<le> of_nat (Suc k)"
    using Suc.prems by (simp add: word_le_nat_alt)
  have "(clock_timers ^^ Suc k) s = clock_timers (s\<lparr>m_timer_cnt := of_nat k\<rparr>)"
    by (simp add: ih)
  also have "\<dots> = s\<lparr>m_timer_cnt := of_nat (Suc k)\<rparr>"
    using small by (simp add: clock_timers_def Let_def add.commute)
  finally show ?case .
qed

lemma clock_timers_20:
  assumes "m_timer_cnt s = 0"
  shows "(clock_timers ^^ 20) s = timer_tick s"
proof -
  have "(clock_timers ^^ 20) s = clock_timers ((clock_timers ^^ 19) s)"
    by (simp add: eval_nat_numeral)
  also have "\<dots> = clock_timers (s\<lparr>m_timer_cnt := 19\<rparr>)"
    using clock_timers_before_tick[OF assms, of 19] by simp
  also have "\<dots> = timer_tick s"
    by (simp add: clock_timers_def Let_def timer_tick_cnt_irrelevant)
  finally show ?thesis .
qed

lemma ticks_by_clock:
  assumes "m_timer_cnt s = 0"
  shows "handle_io_timers (20 * int k) s = (timer_tick ^^ k) s"
proof -
  have "(clock_timers ^^ (20 * k)) s = (timer_tick ^^ k) s"
  proof (induction k)
    case 0
    show ?case by simp
  next
    case (Suc k)
    have c: "m_timer_cnt ((timer_tick ^^ k) s) = 0"
      using assms by (cases k) (simp_all add: tick_keeps)
    have e: "20 * Suc k = 20 + 20 * k" by simp
    have "(clock_timers ^^ (20 * Suc k)) s = (clock_timers ^^ 20) ((clock_timers ^^ (20 * k)) s)"
      unfolding e funpow_add comp_def by (rule refl)
    also have "\<dots> = (clock_timers ^^ 20) ((timer_tick ^^ k) s)" by (simp only: Suc.IH)
    also have "\<dots> = timer_tick ((timer_tick ^^ k) s)" by (rule clock_timers_20[OF c])
    finally show ?case by simp
  qed
  moreover have "nat (20 * int k) = 20 * k" by (simp add: nat_mult_distrib)
  ultimately show ?thesis by (simp only: handle_io_timers_def)
qed


lemma ticks_keep:
  assumes "i = 0 \<or> i = 1" "m_tcr s AND TCR_TDE i \<noteq> 0"
  shows "m_tcr ((timer_tick ^^ n) s) AND TCR_TDE i \<noteq> 0 \<and> m_rldr ((timer_tick ^^ n) s) = m_rldr s"
  using assms by (induction n) (simp_all add: tick_tde tick_keeps)

lemma word16_sub_nonzero:
  fixes R :: "16 word"
  assumes "k < unat R"
  shows "R - of_nat k \<noteq> 0"
proof
  assume "R - of_nat k = 0"
  then have "R = of_nat k" by simp
  then have "unat R = k mod 2 ^ 16" by (simp add: unat_of_nat)
  also have "\<dots> \<le> k" by simp
  finally show False using assms by simp
qed

lemma countdown:
  assumes i: "i = 0 \<or> i = 1" and tde: "m_tcr s AND TCR_TDE i \<noteq> 0"
    and zero: "m_tmdr_value s i = 0" and k: "k \<le> unat (m_rldr s i)"
  shows "m_tmdr_value ((timer_tick ^^ Suc k) s) i = m_rldr s i - of_nat k"
  using k
proof (induction k)
  case 0
  show ?case using tick_counter[OF i tde] zero by simp
next
  case (Suc k)
  let ?t = "(timer_tick ^^ Suc k) s"
  from Suc have v: "m_tmdr_value ?t i = m_rldr s i - of_nat k" by simp
  from Suc.prems have "k < unat (m_rldr s i)" by simp
  then have nz: "m_tmdr_value ?t i \<noteq> 0" unfolding v by (rule word16_sub_nonzero)
  from ticks_keep[OF i tde, of "Suc k"] have tde': "m_tcr ?t AND TCR_TDE i \<noteq> 0" by simp
  have "m_tmdr_value ((timer_tick ^^ Suc (Suc k)) s) i = m_tmdr_value (timer_tick ?t) i" by simp
  also have "\<dots> = m_tmdr_value ?t i - 1" using tick_counter[OF i tde'] nz by simp
  also have "\<dots> = m_rldr s i - of_nat (Suc k)" unfolding v by simp
  finally show ?case .
qed

text \<open>
  Claim C6, as amended. Let the internal registers sit at base 0, the tick divider be
  at 0 and timer \<open>i\<close> be disabled; write \<open>R\<close> to its reload register and then a TCR
  value with its enable bit set. The enabling write resets the down-counter to 0, not to
  \<open>R\<close>. Hence the first timer-clock tick (20 T-states of \<open>clock_timers\<close>) already
  reloads the counter to \<open>R\<close> and raises TIF; from there the counter steps down by one
  per tick, holding \<open>R - k\<close> after \<open>1 + k\<close> ticks for \<open>k \<le> R\<close>, so it is 0 again after
  \<open>R + 1\<close> ticks, and the tick after that (number \<open>R + 2\<close>) reloads it to \<open>R\<close> with TIF
  raised: reloads are \<open>R + 1\<close> ticks apart.
\<close>

theorem C6_timer_period_after_enable:
  assumes i: "i = 0 \<or> i = 1"
    and base: "iocr_base s = 0" and cnt: "m_timer_cnt s = 0"
    and off: "m_tcr s AND TCR_TDE i = 0" and on: "d AND TCR_TDE i \<noteq> 0"
  shows "m_tmdr_value (program_timer i s R d) i = 0
       \<and> m_rldr (program_timer i s R d) i = R
       \<and> m_tmdr_value (handle_io_timers 20 (program_timer i s R d)) i = R
       \<and> m_tcr (handle_io_timers 20 (program_timer i s R d)) AND TCR_TIF i \<noteq> 0
       \<and> (k \<le> unat R \<longrightarrow>
            m_tmdr_value (handle_io_timers (20 * (1 + int k)) (program_timer i s R d)) i = R - of_nat k)
       \<and> m_tmdr_value (handle_io_timers (20 * (1 + int (unat R))) (program_timer i s R d)) i = 0
       \<and> m_tmdr_value (handle_io_timers (20 * (2 + int (unat R))) (program_timer i s R d)) i = R
       \<and> m_tcr (handle_io_timers (20 * (2 + int (unat R))) (program_timer i s R d)) AND TCR_TIF i \<noteq> 0"
proof -
  let ?p = "program_timer i s R d"
  note p = program_timer_result[OF base i off on, of R]
  have c0: "m_timer_cnt ?p = 0" using p(4) cnt by simp
  have h: "handle_io_timers (20 * int n) ?p = (timer_tick ^^ n) ?p" for n
    by (rule ticks_by_clock[OF c0])
  have h1: "handle_io_timers 20 ?p = timer_tick ?p" using h[of 1] by simp
  have hk: "handle_io_timers (20 * (1 + int n)) ?p = (timer_tick ^^ Suc n) ?p" for n
    using h[of "Suc n"] by (simp add: algebra_simps)
  have hk2: "handle_io_timers (20 * (2 + int n)) ?p = timer_tick ((timer_tick ^^ Suc n) ?p)" for n
    using h[of "Suc (Suc n)"] by (simp add: algebra_simps)
  have cd: "n \<le> unat R \<Longrightarrow> m_tmdr_value ((timer_tick ^^ Suc n) ?p) i = R - of_nat n" for n
    using countdown[OF i p(3) p(1), of n] p(2) by simp
  have a1: "m_tmdr_value (handle_io_timers 20 ?p) i = R"
    unfolding h1 using tick_counter[OF i p(3)] p(1,2) by simp
  have a2: "m_tcr (handle_io_timers 20 ?p) AND TCR_TIF i \<noteq> 0"
    unfolding h1 by (rule tick_reload_sets_tif[OF i p(3) p(1)])
  have a3: "k \<le> unat R \<longrightarrow> m_tmdr_value (handle_io_timers (20 * (1 + int k)) ?p) i = R - of_nat k"
    unfolding hk using cd[of k] by simp
  let ?z = "(timer_tick ^^ Suc (unat R)) ?p"
  have z: "m_tmdr_value ?z i = 0" using cd[of "unat R"] by simp
  have a4: "m_tmdr_value (handle_io_timers (20 * (1 + int (unat R))) ?p) i = 0"
    unfolding hk by (rule z)
  from ticks_keep[OF i p(3), of "Suc (unat R)"]
  have tz: "m_tcr ?z AND TCR_TDE i \<noteq> 0" and rz: "m_rldr ?z = m_rldr ?p" by simp_all
  have a5: "m_tmdr_value (handle_io_timers (20 * (2 + int (unat R))) ?p) i = R"
    unfolding hk2 using tick_counter[OF i tz] z rz p(2) by simp
  have a6: "m_tcr (handle_io_timers (20 * (2 + int (unat R))) ?p) AND TCR_TIF i \<noteq> 0"
    unfolding hk2 by (rule tick_reload_sets_tif[OF i tz z])
  from p(1,2) a1 a2 a3 a4 a5 a6 show ?thesis by simp
qed

lemma power_on_timer_fields:
  "iocr_base power_on = 0" "m_timer_cnt power_on = 0" "m_tcr power_on = 0"
  by (simp_all add: power_on_def device_reset_def z180_mmu_def iocr_base_def)

theorem C6_timer_period_after_enable_witness:
  "iocr_base power_on = 0 \<and> m_timer_cnt power_on = 0
   \<and> m_tcr power_on AND TCR_TDE 0 = 0 \<and> (1 :: 8 word) AND TCR_TDE 0 \<noteq> 0
   \<and> (1 :: nat) \<le> unat (2 :: 16 word)
   \<and> m_tmdr_value (program_timer 0 power_on 2 1) 0 = 0
   \<and> m_tmdr_value (handle_io_timers 20 (program_timer 0 power_on 2 1)) 0 = 2
   \<and> m_tmdr_value (handle_io_timers 40 (program_timer 0 power_on 2 1)) 0 = 1
   \<and> m_tmdr_value (handle_io_timers 60 (program_timer 0 power_on 2 1)) 0 = 0
   \<and> m_tmdr_value (handle_io_timers 80 (program_timer 0 power_on 2 1)) 0 = 2"
proof -
  have i: "(0 :: nat) = 0 \<or> (0 :: nat) = 1" by simp
  have off: "m_tcr power_on AND TCR_TDE 0 = 0" by (simp add: power_on_timer_fields)
  have on: "(1 :: 8 word) AND TCR_TDE 0 \<noteq> 0" by (simp add: TCR_TDE_def Z180_TCR_TDE0_def)
  have k: "(1 :: nat) \<le> unat (2 :: 16 word)" by simp
  show ?thesis
    using off on k power_on_timer_fields(1,2)
      C6_timer_period_after_enable [OF i power_on_timer_fields(1,2) off on, of 2 1]
    by simp
qed

lemma write_tcr_value:
  assumes "iocr_base s = 0"
  shows "m_tcr (z180_writecontrol s 0x10 d) =
           (m_tcr s AND (Z180_TCR_TIF1 OR Z180_TCR_TIF0)) OR (d AND NOT (Z180_TCR_TIF1 OR Z180_TCR_TIF0))"
  using assms
  by (simp add: z180_writecontrol_def Let_def remap_port_base0 io_write_byte_fields write_switch_def)

lemma programmed_timer0_tif_clear: "m_tcr (program_timer 0 power_on 2 1) AND Z180_TCR_TIF0 = 0"
proof -
  have i: "(0 :: nat) = 0 \<or> (0 :: nat) = 1" by simp
  note a = write_rldr_lo[OF power_on_timer_fields(1) i, of "lo16 2"]
  note b = write_rldr_hi[OF a(4) i, of "hi16 2"]
  show ?thesis
    unfolding program_timer_def write_tcr_value[OF b(4)]
    by (simp add: a b power_on_timer_fields Z180_TCR_TIF0_def Z180_TCR_TIF1_def)
qed

text \<open>
  Claim C6 as stated fails: with \<open>R = 2\<close>, timer 0 has TIF0 clear when it is enabled,
  has reloaded to 2 and raised TIF0 after one tick (20 T-states) instead of three, and
  after \<open>R + 1 = 3\<close> ticks (60 T-states) holds 0 rather than the reload value.
\<close>

theorem C6_counterexample:
  "m_tcr (program_timer 0 power_on 2 1) AND Z180_TCR_TIF0 = 0
   \<and> m_tcr (handle_io_timers 20 (program_timer 0 power_on 2 1)) AND Z180_TCR_TIF0 \<noteq> 0
   \<and> m_tmdr_value (handle_io_timers 20 (program_timer 0 power_on 2 1)) 0 = 2
   \<and> m_tmdr_value (handle_io_timers 60 (program_timer 0 power_on 2 1)) 0 \<noteq> 2"
proof -
  let ?p = "program_timer 0 power_on 2 1"
  have i: "(0 :: nat) = 0 \<or> (0 :: nat) = 1" by simp
  have off: "m_tcr power_on AND TCR_TDE 0 = 0" by (simp add: power_on_timer_fields)
  have on: "(1 :: 8 word) AND TCR_TDE 0 \<noteq> 0" by (simp add: TCR_TDE_def Z180_TCR_TDE0_def)
  note p = program_timer_result[OF power_on_timer_fields(1) i off on, of 2]
  have c0: "m_timer_cnt ?p = 0" using p(4) by (simp add: power_on_timer_fields)
  have t1: "handle_io_timers 20 ?p = timer_tick ?p" using ticks_by_clock[OF c0, of 1] by simp
  have t3: "handle_io_timers 60 ?p = (timer_tick ^^ Suc 2) ?p"
    using ticks_by_clock[OF c0, of "Suc 2"] by simp
  have a: "m_tcr (handle_io_timers 20 ?p) AND Z180_TCR_TIF0 \<noteq> 0"
    unfolding t1 using tick_reload_sets_tif[OF i p(3) p(1)] by (simp add: TCR_TIF_def)
  have b: "m_tmdr_value (handle_io_timers 20 ?p) 0 = 2"
    unfolding t1 using tick_counter[OF i p(3)] p(1,2) by simp
  have k: "(2 :: nat) \<le> unat (m_rldr ?p 0)" using p(2) by simp
  have "m_tmdr_value (handle_io_timers 60 ?p) 0 = m_rldr ?p 0 - of_nat 2"
    unfolding t3 by (rule countdown[OF i p(3) p(1) k])
  then have c: "m_tmdr_value (handle_io_timers 60 ?p) 0 \<noteq> 2" using p(2) by simp
  from programmed_timer0_tif_clear a b c show ?thesis by simp
qed

subsection \<open>The NMI\<close>

lemma prt_count_untouched:
  "m_HALT (prt_count i tde tif s) = m_HALT s" "m_dstat (prt_count i tde tif s) = m_dstat s"
  "m_IFF1 (prt_count i tde tif s) = m_IFF1 s" "m_IFF2 (prt_count i tde tif s) = m_IFF2 s"
  "m_SP (prt_count i tde tif s) = m_SP s" "m_PC (prt_count i tde tif s) = m_PC s"
  "program (prt_count i tde tif s) = program s" "m_nmi_pending (prt_count i tde tif s) = m_nmi_pending s"
  "m_icount (prt_count i tde tif s) = m_icount s" "m_mmu (prt_count i tde tif s) = m_mmu s"
  "m_after_EI (prt_count i tde tif s) = m_after_EI s"
  by (simp_all add: prt_count_def)

lemma prt_irq_untouched:
  "m_HALT (prt_irq tie tif irq s) = m_HALT s" "m_dstat (prt_irq tie tif irq s) = m_dstat s"
  "m_IFF1 (prt_irq tie tif irq s) = m_IFF1 s" "m_IFF2 (prt_irq tie tif irq s) = m_IFF2 s"
  "m_SP (prt_irq tie tif irq s) = m_SP s" "m_PC (prt_irq tie tif irq s) = m_PC s"
  "program (prt_irq tie tif irq s) = program s" "m_nmi_pending (prt_irq tie tif irq s) = m_nmi_pending s"
  "m_icount (prt_irq tie tif irq s) = m_icount s" "m_mmu (prt_irq tie tif irq s) = m_mmu s"
  "m_after_EI (prt_irq tie tif irq s) = m_after_EI s"
  by (simp_all add: prt_irq_def)

lemma clock_timers_untouched:
  "m_HALT (clock_timers s) = m_HALT s" "m_dstat (clock_timers s) = m_dstat s"
  "m_IFF1 (clock_timers s) = m_IFF1 s" "m_IFF2 (clock_timers s) = m_IFF2 s"
  "m_SP (clock_timers s) = m_SP s" "m_PC (clock_timers s) = m_PC s"
  "program (clock_timers s) = program s" "m_nmi_pending (clock_timers s) = m_nmi_pending s"
  "m_icount (clock_timers s) = m_icount s" "m_mmu (clock_timers s) = m_mmu s"
  by (simp_all add: clock_timers_def timer_tick_def Let_def prt_count_untouched prt_irq_untouched)

lemma clock_timers_funpow_untouched:
  "m_HALT ((clock_timers ^^ k) s) = m_HALT s \<and> m_dstat ((clock_timers ^^ k) s) = m_dstat s
   \<and> m_IFF1 ((clock_timers ^^ k) s) = m_IFF1 s \<and> m_IFF2 ((clock_timers ^^ k) s) = m_IFF2 s
   \<and> m_SP ((clock_timers ^^ k) s) = m_SP s \<and> m_PC ((clock_timers ^^ k) s) = m_PC s
   \<and> program ((clock_timers ^^ k) s) = program s
   \<and> m_nmi_pending ((clock_timers ^^ k) s) = m_nmi_pending s
   \<and> m_icount ((clock_timers ^^ k) s) = m_icount s \<and> m_mmu ((clock_timers ^^ k) s) = m_mmu s"
  by (induction k) (simp_all add: clock_timers_untouched)

lemma handle_io_timers_untouched:
  "m_HALT (handle_io_timers n s) = m_HALT s" "m_dstat (handle_io_timers n s) = m_dstat s"
  "m_IFF1 (handle_io_timers n s) = m_IFF1 s" "m_IFF2 (handle_io_timers n s) = m_IFF2 s"
  "m_SP (handle_io_timers n s) = m_SP s" "m_PC (handle_io_timers n s) = m_PC s"
  "program (handle_io_timers n s) = program s"
  "m_nmi_pending (handle_io_timers n s) = m_nmi_pending s"
  "m_icount (handle_io_timers n s) = m_icount s" "m_mmu (handle_io_timers n s) = m_mmu s"
  unfolding handle_io_timers_def using clock_timers_funpow_untouched[of "nat n" s] by simp_all

lemma translate_cong: "m_mmu t = m_mmu s \<Longrightarrow> translate t = translate s"
  by (rule ext) (simp add: translate_def MMU_REMAP_ADDR_def)

lemma LEAVE_HALT_eq: "LEAVE_HALT s = s\<lparr>m_HALT := 0\<rparr>"
proof (cases "m_HALT s = 0")
  case True
  have "s\<lparr>m_HALT := m_HALT s\<rparr> = s" by simp
  with True have "s\<lparr>m_HALT := 0\<rparr> = s" by simp
  with True show ?thesis by (simp add: LEAVE_HALT_def)
next
  case False
  then show ?thesis by (simp add: LEAVE_HALT_def)
qed

lemma take_nmi_eq: "take_nmi s = handle_io_timers 11 (nmi_frame s)"
  by (simp add: take_nmi_def nmi_frame_def LEAVE_HALT_eq PUSH_PC_def Let_def
        program_write_byte_def translate_def MMU_REMAP_ADDR_def)

lemma write_iolines_nmi_pending:
  "m_nmi_pending (z180_write_iolines data s) = m_nmi_pending s"
proof -
  have "m_nmi_pending (fold (\<lambda>b t. if c AND b \<noteq> 0
                      then t\<lparr>m_iol := (m_iol t AND NOT b) OR (data AND b)\<rparr> else t) bs s)
        = m_nmi_pending s" for c :: "32 word" and bs
    by (induction bs arbitrary: s) simp_all
  then show ?thesis by (simp add: z180_write_iolines_def Let_def)
qed

lemma set_input_latch:
  "m_nmi_pending (execute_set_input daisy irqline state s) =
     (if irqline = INPUT_LINE_NMI \<and> m_nmi_state s = word_of_int CLEAR_LINE \<and> state \<noteq> CLEAR_LINE
      then 1 else m_nmi_pending s)"
  by (cases irqline; cases daisy)
     (simp_all add: execute_set_input_def Let_def set_dreq_def write_iolines_nmi_pending)

lemma mask16_32: "(0xFFFF0000 :: 32 word) = NOT (mask 16)"
  by (simp add: mask_eq_exp_minus_1 not_eq_complement)

lemma w_l_set_w_l: "w_l (set_w_l p v) = v"
  unfolding w_l_def set_w_l_def mask16_32
  by (rule bit_word_eqI) (auto simp add: bit_simps)

text \<open>
  Claim C7. When \<open>execute_run\<close> is entered with an NMI pending, everything that follows
  in the run (interrupt checks, DMA service, instruction fetch) starts from the state
  \<open>take_nmi\<close> leaves: the halt flag cleared, DME cleared in DSTAT (the other bits kept),
  IFF2 holding the old IFF1, IFF1 cleared, the old PC stored little-endian at the new top
  of stack (SP lowered by 2, addresses translated by the MMU), PC = 0x0066, the
  NMI-pending latch cleared and 11 T-states accounted (\<open>m_icount\<close> lowered by 11 and the
  timers clocked 11 times). \<open>execute_set_input\<close> sets the latch exactly on a call for the
  NMI line that finds the stored line state clear and passes a state other than
  \<open>CLEAR_LINE\<close>; every other call leaves the latch as it is.
\<close>

theorem C7_nmi_on_the_way_in:
  assumes "m_nmi_pending s \<noteq> 0"
  shows "execute_run run_loop s = run_loop (take_nmi s)
       \<and> take_nmi s = handle_io_timers 11 (nmi_frame s)
       \<and> m_HALT (take_nmi s) = 0
       \<and> m_dstat (take_nmi s) = m_dstat s AND NOT Z180_DSTAT_DME
       \<and> m_dstat (take_nmi s) AND Z180_DSTAT_DME = 0
       \<and> m_IFF2 (take_nmi s) = m_IFF1 s
       \<and> m_IFF1 (take_nmi s) = 0
       \<and> w_l (m_SP (take_nmi s)) = w_l (m_SP s) - 2
       \<and> program (take_nmi s) =
            (program s)
              (translate s (w_l (m_SP s) - 2) AND 0xFFFFF := b_l (m_PC s),
               translate s (w_l (m_SP s) - 2 + 1) AND 0xFFFFF := b_h (m_PC s))
       \<and> m_PC (take_nmi s) = 0x0066
       \<and> m_nmi_pending (take_nmi s) = 0
       \<and> m_icount (take_nmi s) = m_icount s - 11
       \<and> m_nmi_pending (execute_set_input daisy irqline state t) =
            (if irqline = INPUT_LINE_NMI \<and> m_nmi_state t = word_of_int CLEAR_LINE
                \<and> state \<noteq> CLEAR_LINE
             then 1 else m_nmi_pending t)"
proof -
  have run: "execute_run run_loop s = run_loop (take_nmi s)"
    using assms by (simp add: execute_run_def)
  have dme: "(x AND NOT Z180_DSTAT_DME) AND Z180_DSTAT_DME = 0" for x
    by (simp add: and.assoc)
  show ?thesis
    unfolding set_input_latch
    using run
    by (simp add: take_nmi_eq handle_io_timers_untouched nmi_frame_def w_l_set_w_l dme)
qed

lemma translate_device_reset: "translate (device_reset s) addr = ucast addr"
  using remap_identity[of addr] page_lt16[of "ucast addr"]
  by (simp add: translate_def MMU_REMAP_ADDR_def device_reset_def z180_mmu_def mmu_page_def Let_def)

lemma translate_halted_with_nmi: "translate halted_with_nmi addr = ucast addr"
proof -
  have "translate halted_with_nmi = translate power_on"
    by (rule translate_cong) (simp add: halted_with_nmi_def)
  then show ?thesis by (simp add: power_on_def translate_device_reset)
qed

lemma power_on_nmi_fields:
  "m_nmi_state power_on = 0" "m_nmi_pending power_on = 0" "m_icount power_on = 0"
  "program power_on = (\<lambda>_. 0)"
  by (simp_all add: power_on_def device_reset_def z180_mmu_def constructed_def CLEAR_LINE_def)

theorem C7_nmi_on_the_way_in_witness:
  "m_nmi_pending halted_with_nmi \<noteq> 0
   \<and> m_HALT (take_nmi halted_with_nmi) = 0
   \<and> m_dstat (take_nmi halted_with_nmi) = 0x70
   \<and> m_IFF2 (take_nmi halted_with_nmi) = 1
   \<and> m_IFF1 (take_nmi halted_with_nmi) = 0
   \<and> w_l (m_SP (take_nmi halted_with_nmi)) = 0x7FFE
   \<and> program (take_nmi halted_with_nmi) 0x7FFE = 0x34
   \<and> program (take_nmi halted_with_nmi) 0x7FFF = 0x12
   \<and> m_PC (take_nmi halted_with_nmi) = 0x0066
   \<and> m_nmi_pending (take_nmi halted_with_nmi) = 0
   \<and> m_icount (take_nmi halted_with_nmi) = -11
   \<and> m_nmi_pending (execute_set_input None INPUT_LINE_NMI 1 power_on) = 1
   \<and> m_nmi_pending (execute_set_input None INPUT_LINE_NMI 1 (power_on\<lparr>m_nmi_state := 1\<rparr>)) = 0
   \<and> m_nmi_pending (execute_set_input None Z180_INPUT_LINE_IRQ0 1 power_on) = 0"
proof -
  have h: "m_nmi_pending halted_with_nmi \<noteq> 0" by (simp add: halted_with_nmi_def)
  have f: "m_IFF1 halted_with_nmi = 1" "m_SP halted_with_nmi = 0x8000" "m_PC halted_with_nmi = 0x1234"
    "m_dstat halted_with_nmi = 0x71" "m_icount halted_with_nmi = 0"
    "program halted_with_nmi = (\<lambda>_. 0)"
    by (simp_all add: halted_with_nmi_def power_on_nmi_fields)
  from C7_nmi_on_the_way_in [OF h, of id None INPUT_LINE_NMI 1 power_on]
       C7_nmi_on_the_way_in [OF h, of id None INPUT_LINE_NMI 1 "power_on\<lparr>m_nmi_state := 1\<rparr>"]
       C7_nmi_on_the_way_in [OF h, of id None Z180_INPUT_LINE_IRQ0 1 power_on]
  show ?thesis
    using h
    by (simp add: f translate_halted_with_nmi power_on_nmi_fields w_l_def b_l_def b_h_def
          Z180_DSTAT_DME_def CLEAR_LINE_def)
qed

subsection \<open>The port dispatch of the register bank\<close>

lemma external_port_neq:
  fixes p k :: "32 word"
  assumes "0x40 \<le> p" "unat k < 0x40"
  shows "(p = k) = False"
proof -
  from assms(1) have "0x40 \<le> unat p" by (simp add: word_le_nat_alt)
  with assms(2) show ?thesis by auto
qed

lemma read_switch_external:
  "0x40 \<le> p \<Longrightarrow> read_switch s p d = (d, s)"
  by (simp add: read_switch_def external_port_neq)

lemma write_switch_external:
  "0x40 \<le> p \<Longrightarrow> write_switch s p d = s"
  by (simp add: write_switch_def external_port_neq)

lemma nat_below_64: "(n::nat) < 64 \<Longrightarrow> n \<in> {0x00, 0x01, 0x02, 0x03, 0x04, 0x05, 0x06, 0x07, 0x08, 0x09, 0x0a, 0x0b, 0x0c, 0x0d, 0x0e, 0x0f, 0x10, 0x11, 0x12, 0x13, 0x14, 0x15, 0x16, 0x17, 0x18, 0x19, 0x1a, 0x1b, 0x1c, 0x1d, 0x1e, 0x1f, 0x20, 0x21, 0x22, 0x23, 0x24, 0x25, 0x26, 0x27, 0x28, 0x29, 0x2a, 0x2b, 0x2c, 0x2d, 0x2e, 0x2f, 0x30, 0x31, 0x32, 0x33, 0x34, 0x35, 0x36, 0x37, 0x38, 0x39, 0x3a, 0x3b, 0x3c, 0x3d, 0x3e, 0x3f}"
  by (simp add: eval_nat_numeral less_Suc_eq)


lemma internal_port_cases:
  fixes p :: "32 word"
  assumes "p < 0x40"
  shows "p \<in> {0x00, 0x01, 0x02, 0x03, 0x04, 0x05, 0x06, 0x07, 0x08, 0x09, 0x0a, 0x0b, 0x0c, 0x0d, 0x0e, 0x0f, 0x10, 0x11, 0x12, 0x13, 0x14, 0x15, 0x16, 0x17, 0x18, 0x19, 0x1a, 0x1b, 0x1c, 0x1d, 0x1e, 0x1f, 0x20, 0x21, 0x22, 0x23, 0x24, 0x25, 0x26, 0x27, 0x28, 0x29, 0x2a, 0x2b, 0x2c, 0x2d, 0x2e, 0x2f, 0x30, 0x31, 0x32, 0x33, 0x34, 0x35, 0x36, 0x37, 0x38, 0x39, 0x3a, 0x3b, 0x3c, 0x3d, 0x3e, 0x3f}"
proof -
  from assms have "unat p < 64" by (simp add: word_less_nat_alt)
  then have "unat p \<in> {0x00, 0x01, 0x02, 0x03, 0x04, 0x05, 0x06, 0x07, 0x08, 0x09, 0x0a, 0x0b, 0x0c, 0x0d, 0x0e, 0x0f, 0x10, 0x11, 0x12, 0x13, 0x14, 0x15, 0x16, 0x17, 0x18, 0x19, 0x1a, 0x1b, 0x1c, 0x1d, 0x1e, 0x1f, 0x20, 0x21, 0x22, 0x23, 0x24, 0x25, 0x26, 0x27, 0x28, 0x29, 0x2a, 0x2b, 0x2c, 0x2d, 0x2e, 0x2f, 0x30, 0x31, 0x32, 0x33, 0x34, 0x35, 0x36, 0x37, 0x38, 0x39, 0x3a, 0x3b, 0x3c, 0x3d, 0x3e, 0x3f}" by (rule nat_below_64)
  then have "(of_nat (unat p) :: 32 word) \<in> of_nat ` {0x00, 0x01, 0x02, 0x03, 0x04, 0x05, 0x06, 0x07, 0x08, 0x09, 0x0a, 0x0b, 0x0c, 0x0d, 0x0e, 0x0f, 0x10, 0x11, 0x12, 0x13, 0x14, 0x15, 0x16, 0x17, 0x18, 0x19, 0x1a, 0x1b, 0x1c, 0x1d, 0x1e, 0x1f, 0x20, 0x21, 0x22, 0x23, 0x24, 0x25, 0x26, 0x27, 0x28, 0x29, 0x2a, 0x2b, 0x2c, 0x2d, 0x2e, 0x2f, 0x30, 0x31, 0x32, 0x33, 0x34, 0x35, 0x36, 0x37, 0x38, 0x39, 0x3a, 0x3b, 0x3c, 0x3d, 0x3e, 0x3f}" by (rule imageI)
  then show ?thesis by simp
qed

lemma read_switch_override:
  assumes "p < 0x40"
  shows "read_switch s p d = read_switch s p d'"
  using internal_port_cases[OF assms]
  by (elim insertE emptyE; simp add: read_switch_def)


lemma read_switch_io_log: "io_log (snd (read_switch s p d)) = io_log s"
proof (cases "p < 0x40")
  case True
  from internal_port_cases[OF True] show ?thesis
    by (elim insertE emptyE;
        simp add: read_switch_def tcr_tmdr_read_def tmdr_latch_msb_def tmdrh_read_def)
next
  case False
  then have "0x40 \<le> p" by simp
  then show ?thesis by (simp add: read_switch_external)
qed

lemma write_switch_io_log: "io_log (write_switch s p d) = io_log s"
proof (cases "p < 0x40")
  case True
  from internal_port_cases[OF True] show ?thesis
    by (elim insertE emptyE; simp add: write_switch_def z180_mmu_def Let_def)
next
  case False
  then have "0x40 \<le> p" by simp
  then show ?thesis by (simp add: write_switch_external)
qed

lemma read_switch_ignores_external:
  assumes "p < 0x40"
  shows "fst (read_switch (s\<lparr>iospace := f\<rparr>) p d) = fst (read_switch s p d')"
  using internal_port_cases[OF assms]
  by (elim insertE emptyE;
      simp add: read_switch_def tcr_tmdr_read_def tmdr_latch_msb_def tmdrh_read_def)

lemma remap_port_cong:
  "m_iocr t = m_iocr s \<Longrightarrow> remap_port t = remap_port s"
  by (rule ext) (simp add: remap_port_def port_matches_base_def iocr_base_def)

text \<open>
  Claim C8, as amended. For every port and data byte, \<open>z180_readcontrol\<close> and
  \<open>z180_writecontrol\<close> first perform the access on the external I/O space (the access log
  grows by exactly that access, at the port as given); the base offset is subtracted
  from the port exactly when the port's bits selected by the base field of \<open>m_iocr\<close> all
  match it; the access is then served by the internal register bank exactly when the
  resulting port number is below 0x40, whether or not the offset was subtracted: then
  the value read does not depend on what the external space returned; for any other
  resulting port number the read returns the external byte and neither function changes
  anything but the log.
\<close>

theorem C8_control_port_dispatch:
  "io_log (snd (z180_readcontrol s port)) = io_log s @ [IoRead (port AND 0xFFFF)]
   \<and> io_log (z180_writecontrol s port data) = io_log s @ [IoWrite (port AND 0xFFFF) data]
   \<and> z180_readcontrol s port =
         read_switch (snd (io_read_byte s port))
           (if port_matches_base s port then port - iocr_base s else port)
           (iospace s (port AND 0xFFFF))
   \<and> z180_writecontrol s port data =
         write_switch (io_write_byte s port data)
           (if port_matches_base s port then port - iocr_base s else port) data
   \<and> (remap_port s port < 0x40 \<longrightarrow>
         fst (z180_readcontrol (s\<lparr>iospace := f\<rparr>) port) = fst (z180_readcontrol s port))
   \<and> (0x40 \<le> remap_port s port \<longrightarrow>
         z180_readcontrol s port =
           (iospace s (port AND 0xFFFF), s\<lparr>io_log := io_log s @ [IoRead (port AND 0xFFFF)]\<rparr>)
         \<and> z180_writecontrol s port data =
           s\<lparr>io_log := io_log s @ [IoWrite (port AND 0xFFFF) data]\<rparr>)"
proof -
  have r1: "remap_port (snd (io_read_byte s port)) = remap_port s"
    by (rule remap_port_cong) (simp add: io_read_byte_def)
  have r2: "remap_port (io_write_byte s port data) = remap_port s"
    by (rule remap_port_cong) (simp add: io_write_byte_def)
  have rd: "z180_readcontrol s port =
         read_switch (snd (io_read_byte s port)) (remap_port s port) (iospace s (port AND 0xFFFF))"
    using r1 by (simp add: z180_readcontrol_def io_read_byte_def Let_def)
  have wr: "z180_writecontrol s port data =
         write_switch (io_write_byte s port data) (remap_port s port) data"
    using r2 by (simp add: z180_writecontrol_def Let_def)
  have a: "io_log (snd (z180_readcontrol s port)) = io_log s @ [IoRead (port AND 0xFFFF)]"
    unfolding rd read_switch_io_log by (simp add: io_read_byte_def)
  have b: "io_log (z180_writecontrol s port data) = io_log s @ [IoWrite (port AND 0xFFFF) data]"
    unfolding wr write_switch_io_log by (simp add: io_write_byte_def)
  have c: "fst (z180_readcontrol (s\<lparr>iospace := f\<rparr>) port) = fst (z180_readcontrol s port)"
    if "remap_port s port < 0x40"
  proof -
    have r3: "remap_port (snd (io_read_byte (s\<lparr>iospace := f\<rparr>) port)) = remap_port s"
      by (rule remap_port_cong) (simp add: io_read_byte_def)
    have "snd (io_read_byte (s\<lparr>iospace := f\<rparr>) port) = (snd (io_read_byte s port))\<lparr>iospace := f\<rparr>"
      by (simp add: io_read_byte_def)
    then show ?thesis
      unfolding rd
      using r3 read_switch_ignores_external[OF that]
      by (simp add: z180_readcontrol_def Let_def case_prod_unfold)
  qed
  have d: "z180_readcontrol s port =
           (iospace s (port AND 0xFFFF), s\<lparr>io_log := io_log s @ [IoRead (port AND 0xFFFF)]\<rparr>)"
    "z180_writecontrol s port data = s\<lparr>io_log := io_log s @ [IoWrite (port AND 0xFFFF) data]\<rparr>"
    if "0x40 \<le> remap_port s port"
    using that unfolding rd wr
    by (simp_all add: read_switch_external write_switch_external io_read_byte_def io_write_byte_def)
  from a b rd wr c d show ?thesis by (simp add: remap_port_def)
qed

lemma remapped_io_fields:
  "m_iocr remapped_io = 0x40" "m_tcr remapped_io = 0x15" "iospace remapped_io = (\<lambda>_. 0xAA)"
  "iocr_base remapped_io = 0x40" "io_log remapped_io = []"
  by (simp_all add: remapped_io_def power_on_def device_reset_def z180_mmu_def constructed_def
        iocr_base_def)

lemma power_on_io_fields:
  "iospace power_on = (\<lambda>_. 0xAA)" "io_log power_on = []"
  by (simp_all add: power_on_def device_reset_def z180_mmu_def constructed_def)

theorem C8_control_port_dispatch_witness:
  "remap_port remapped_io 0x10 < 0x40
   \<and> fst (z180_readcontrol (remapped_io\<lparr>iospace := (\<lambda>_. 0x55)\<rparr>) 0x10)
       = fst (z180_readcontrol remapped_io 0x10)
   \<and> remap_port remapped_io 0x50 < 0x40
   \<and> fst (z180_readcontrol (remapped_io\<lparr>iospace := (\<lambda>_. 0x55)\<rparr>) 0x50)
       = fst (z180_readcontrol remapped_io 0x50)
   \<and> 0x40 \<le> remap_port power_on 0x80
   \<and> fst (z180_readcontrol power_on 0x80) = 0xAA
   \<and> io_log (snd (z180_readcontrol power_on 0x80)) = [IoRead 0x80]
   \<and> io_log (z180_writecontrol power_on 0x80 0x07) = [IoWrite 0x80 0x07]"
proof -
  have a: "remap_port remapped_io 0x10 < 0x40" "remap_port remapped_io 0x50 < 0x40"
    by (simp_all add: remap_port_def port_matches_base_def remapped_io_fields)
  have b: "0x40 \<le> remap_port power_on 0x80" by (simp add: power_on_remap)
  from C8_control_port_dispatch [of remapped_io "0x10" 0 "\<lambda>_. 0x55"] a(1)
  have c1: "fst (z180_readcontrol (remapped_io\<lparr>iospace := (\<lambda>_. 0x55)\<rparr>) 0x10)
       = fst (z180_readcontrol remapped_io 0x10)" by blast
  from C8_control_port_dispatch [of remapped_io "0x50" 0 "\<lambda>_. 0x55"] a(2)
  have c2: "fst (z180_readcontrol (remapped_io\<lparr>iospace := (\<lambda>_. 0x55)\<rparr>) 0x50)
       = fst (z180_readcontrol remapped_io 0x50)" by blast
  from C8_control_port_dispatch [of power_on "0x80" "0x07" "\<lambda>_. 0x55"] b
  have c3: "z180_readcontrol power_on 0x80 =
           (iospace power_on (0x80 AND 0xFFFF), power_on\<lparr>io_log := io_log power_on @ [IoRead (0x80 AND 0xFFFF)]\<rparr>)"
    and c4: "io_log (z180_writecontrol power_on 0x80 0x07) = io_log power_on @ [IoWrite (0x80 AND 0xFFFF) 0x07]"
    by blast+
  from c3 have c5: "fst (z180_readcontrol power_on 0x80) = 0xAA"
    "io_log (snd (z180_readcontrol power_on 0x80)) = [IoRead 0x80]"
    by (simp_all add: power_on_io_fields)
  from c4 have c6: "io_log (z180_writecontrol power_on 0x80 0x07) = [IoWrite 0x80 0x07]"
    by (simp add: power_on_io_fields)
  from a b c1 c2 c5 c6 show ?thesis by simp
qed

text \<open>
  Claim C8 as stated fails in both directions. With the base field at 0x40, port 0x10
  does not match the base, yet the read returns TCR's value 0x15, not the externally
  read 0xAA, and a write changes TCR. With the base field at 0 (after reset) port 0x80
  matches the base, yet no internal register serves it: the read returns the external
  byte.
\<close>

theorem C8_counterexample:
  "\<not> port_matches_base remapped_io 0x10
   \<and> iospace remapped_io 0x10 = 0xAA
   \<and> fst (z180_readcontrol remapped_io 0x10) = 0x15
   \<and> m_tcr remapped_io = 0x15
   \<and> m_tcr (z180_writecontrol remapped_io 0x10 0x20) = 0x20
   \<and> port_matches_base power_on 0x80
   \<and> fst (z180_readcontrol power_on 0x80) = iospace power_on 0x80"
proof -
  have a: "\<not> port_matches_base remapped_io 0x10" "remap_port remapped_io 0x10 = 0x10"
    by (simp_all add: remap_port_def port_matches_base_def remapped_io_fields)
  have r: "fst (z180_readcontrol remapped_io 0x10) = 0x15"
    by (simp add: z180_readcontrol_def io_read_byte_def Let_def remap_port_def
          port_matches_base_def iocr_base_def remapped_io_fields read_switch_def)
  have w: "m_tcr (z180_writecontrol remapped_io 0x10 0x20) = 0x20"
    by (simp add: z180_writecontrol_def io_write_byte_def Let_def remap_port_def
          port_matches_base_def iocr_base_def remapped_io_fields write_switch_def
          Z180_TCR_TIF0_def Z180_TCR_TIF1_def Z180_TCR_TDE0_def Z180_TCR_TDE1_def)
  have m: "port_matches_base power_on 0x80"
    by (simp add: port_matches_base_def power_on_timer_fields)
  have e: "fst (z180_readcontrol power_on 0x80) = iospace power_on 0x80"
    by (simp add: z180_readcontrol_def io_read_byte_def Let_def remap_port_def
          port_matches_base_def iocr_base_def power_on_iocr read_switch_external)
  from a r w m e show ?thesis by (simp add: remapped_io_fields)
qed

subsection \<open>DMA\<close>

lemma dmode_fields:
  fixes m :: "8 word"
  assumes "m AND 0x3c = k"
  shows "m AND 0x0c = k AND 0x0c" "m AND 0x30 = k AND 0x30"
proof -
  have "m AND 0x0c = (m AND 0x3c) AND 0x0c" by (simp add: and.assoc)
  then show "m AND 0x0c = k AND 0x0c" using assms by simp
  have "m AND 0x30 = (m AND 0x3c) AND 0x30" by (simp add: and.assoc)
  then show "m AND 0x30 = k AND 0x30" using assms by simp
qed

lemma dma0_switch_mem:
  assumes "dma0_memory_to_memory (m_dmode s)"
  shows "dma0_switch E (s, v) =
           dma0_mem_to_mem E (dma0_src_step (m_dmode s)) (dma0_dst_step (m_dmode s)) (s, v)"
proof -
  from assms have "m_dmode s AND 0x3c \<in> {0x00, 0x04, 0x08, 0x10, 0x14, 0x18, 0x20, 0x24}"
    by (simp add: dma0_memory_to_memory_def Z180_DMODE_SM_def Z180_DMODE_DM_def)
  then consider "m_dmode s AND 0x3c = 0x00" | "m_dmode s AND 0x3c = 0x04"
    | "m_dmode s AND 0x3c = 0x08" | "m_dmode s AND 0x3c = 0x10" | "m_dmode s AND 0x3c = 0x14"
    | "m_dmode s AND 0x3c = 0x18" | "m_dmode s AND 0x3c = 0x20" | "m_dmode s AND 0x3c = 0x24"
    by auto
  then show ?thesis
  proof cases
    case 1
    from 1 dmode_fields[OF 1] show ?thesis
      by (simp add: dma0_switch_def dma0_src_step_def dma0_dst_step_def Let_def
            Z180_DMODE_SM_def Z180_DMODE_DM_def)
  next
    case 2
    from 2 dmode_fields[OF 2] show ?thesis
      by (simp add: dma0_switch_def dma0_src_step_def dma0_dst_step_def Let_def
            Z180_DMODE_SM_def Z180_DMODE_DM_def)
  next
    case 3
    from 3 dmode_fields[OF 3] show ?thesis
      by (simp add: dma0_switch_def dma0_src_step_def dma0_dst_step_def Let_def
            Z180_DMODE_SM_def Z180_DMODE_DM_def)
  next
    case 4
    from 4 dmode_fields[OF 4] show ?thesis
      by (simp add: dma0_switch_def dma0_src_step_def dma0_dst_step_def Let_def
            Z180_DMODE_SM_def Z180_DMODE_DM_def)
  next
    case 5
    from 5 dmode_fields[OF 5] show ?thesis
      by (simp add: dma0_switch_def dma0_src_step_def dma0_dst_step_def Let_def
            Z180_DMODE_SM_def Z180_DMODE_DM_def)
  next
    case 6
    from 6 dmode_fields[OF 6] show ?thesis
      by (simp add: dma0_switch_def dma0_src_step_def dma0_dst_step_def Let_def
            Z180_DMODE_SM_def Z180_DMODE_DM_def)
  next
    case 7
    from 7 dmode_fields[OF 7] show ?thesis
      by (simp add: dma0_switch_def dma0_src_step_def dma0_dst_step_def Let_def
            Z180_DMODE_SM_def Z180_DMODE_DM_def)
  next
    case 8
    from 8 dmode_fields[OF 8] show ?thesis
      by (simp add: dma0_switch_def dma0_src_step_def dma0_dst_step_def Let_def
            Z180_DMODE_SM_def Z180_DMODE_DM_def)
  qed
qed

lemma dma0_body_mem:
  assumes mode: "dma0_memory_to_memory (m_dmode s)"
    and mws: "\<And>t. m_dcntl t = m_dcntl s \<Longrightarrow> memory_wait_states E t = w"
  shows "dma0_body E (s, v) =
           dma0_mem_step w (dma0_src_step (m_dmode s)) (dma0_dst_step (m_dmode s)) (s, v)"
proof -
  let ?s2 = "(if bcr0 v = 1 then s\<lparr>m_extra_cycles := 0, m_iol := m_iol s OR Z180_TEND0\<rparr>
              else s\<lparr>m_extra_cycles := 0\<rparr>)"
  have m2: "dma0_memory_to_memory (m_dmode ?s2)" "m_dmode ?s2 = m_dmode s" using mode by simp_all
  show ?thesis
    by (cases "bcr0 v = 1")
       (simp_all add: dma0_body_def Let_def dma0_switch_mem mode dma0_mem_to_mem_def
          dma0_mem_step_def program_write_byte_def program_read_byte_def mws)
qed


lemma dma0_mem_step_keeps:
  "m_dcntl (fst (dma0_mem_step w sd dd sv)) = m_dcntl (fst sv)"
  "m_dmode (fst (dma0_mem_step w sd dd sv)) = m_dmode (fst sv)"
  "count (snd (dma0_mem_step w sd dd sv)) = count (snd sv) - 1"
  "cycles (snd (dma0_mem_step w sd dd sv)) = cycles (snd sv) + w * 2 + 6"
  by (simp_all add: dma0_mem_step_def case_prod_unfold)

lemma dma0_loop_done: "count (snd sv) \<le> 0 \<Longrightarrow> dma0_loop E mx sv = sv"
  by (subst dma0_loop.simps) simp

lemma dma0_loop_burst:
  assumes mws: "\<And>t. m_dcntl t = d0 \<Longrightarrow> memory_wait_states E t = w"
    and mode: "dma0_memory_to_memory md" and w: "0 \<le> w"
  shows "1 \<le> n \<Longrightarrow> m_dcntl (fst sv) = d0 \<Longrightarrow> m_dmode (fst sv) = md
     \<Longrightarrow> int n \<le> count (snd sv)
     \<Longrightarrow> cycles (snd sv) + (int n - 1) * (w * 2 + 6) \<le> mx
     \<Longrightarrow> count (snd sv) = int n \<or> mx < cycles (snd sv) + int n * (w * 2 + 6)
     \<Longrightarrow> dma0_loop E mx sv = (dma0_mem_step w (dma0_src_step md) (dma0_dst_step md) ^^ n) sv"
proof (induction n arbitrary: sv)
  case 0
  then show ?case by simp
next
  case (Suc n)
  let ?f = "dma0_mem_step w (dma0_src_step md) (dma0_dst_step md)"
  obtain s v where sv: "sv = (s, v)" by (cases sv)
  have body: "dma0_body E sv = ?f sv"
    unfolding sv using dma0_body_mem[of s E w v] mode mws Suc.prems(2,3) by (simp add: sv)
  have pos: "0 < count (snd sv)" using Suc.prems(4) by simp
  have cyc: "cycles (snd (?f sv)) = cycles (snd sv) + w * 2 + 6" by (rule dma0_mem_step_keeps)
  have cnt: "count (snd (?f sv)) = count (snd sv) - 1" by (rule dma0_mem_step_keeps)
  have unfold: "dma0_loop E mx sv = (if cycles (snd (?f sv)) > mx then ?f sv else dma0_loop E mx (?f sv))"
    using pos by (subst dma0_loop.simps) (simp add: body Let_def)
  show ?case
  proof (cases n)
    case 0
    have "dma0_loop E mx (?f sv) = ?f sv" if "\<not> cycles (snd (?f sv)) > mx"
    proof -
      from that Suc.prems(6) have "count (snd sv) = 1" unfolding cyc 0 by simp
      then show ?thesis by (intro dma0_loop_done) (simp add: cnt)
    qed
    then show ?thesis unfolding unfold 0 by simp
  next
    case (Suc k)
    have per: "0 \<le> w * 2 + 6" using w by simp
    have "int n * (w * 2 + 6) \<ge> 1 * (w * 2 + 6)"
      using per Suc by (intro mult_right_mono) simp_all
    with Suc.prems(5) have nobreak: "\<not> cycles (snd (?f sv)) > mx"
      unfolding cyc by (simp add: algebra_simps)
    have "dma0_loop E mx (?f sv) = (?f ^^ n) (?f sv)"
    proof (rule Suc.IH)
      show "1 \<le> n" using Suc by simp
      show "m_dcntl (fst (?f sv)) = d0" using Suc.prems(2) by (simp add: dma0_mem_step_keeps)
      show "m_dmode (fst (?f sv)) = md" using Suc.prems(3) by (simp add: dma0_mem_step_keeps)
      show "int n \<le> count (snd (?f sv))" using Suc.prems(4) by (simp add: cnt)
      show "cycles (snd (?f sv)) + (int n - 1) * (w * 2 + 6) \<le> mx"
        using Suc.prems(5) unfolding cyc by (simp add: algebra_simps)
      show "count (snd (?f sv)) = int n \<or> mx < cycles (snd (?f sv)) + int n * (w * 2 + 6)"
        using Suc.prems(6) unfolding cyc cnt by (auto simp add: algebra_simps)
    qed
    then show ?thesis unfolding unfold using nobreak by (simp add: funpow_swap1)
  qed
qed


lemma dma0_mem_step_apply:
  "dma0_mem_step w sd dd (s, v) =
     (s\<lparr>m_extra_cycles := 0,
        m_iol := (if bcr0 v = 1 then m_iol s OR Z180_TEND0 else m_iol s),
        program := (program s)(dar0 v AND 0xFFFFF := program s (sar0 v AND 0xFFFFF))\<rparr>,
      v\<lparr>sar0 := sar0 v + sd, dar0 := dar0 v + dd, cycles := cycles v + w * 2 + 6,
        bcr0 := bcr0 v - 1, count := count v - 1\<rparr>)"
  by (simp add: dma0_mem_step_def)

lemma dma0_mem_steps_vars:
  "sar0 (snd ((dma0_mem_step w sd dd ^^ n) (s, v))) = sar0 v + of_nat n * sd
   \<and> dar0 (snd ((dma0_mem_step w sd dd ^^ n) (s, v))) = dar0 v + of_nat n * dd
   \<and> bcr0 (snd ((dma0_mem_step w sd dd ^^ n) (s, v))) = bcr0 v - int n
   \<and> count (snd ((dma0_mem_step w sd dd ^^ n) (s, v))) = count v - int n
   \<and> cycles (snd ((dma0_mem_step w sd dd ^^ n) (s, v))) = cycles v + int n * (w * 2 + 6)"
proof (induction n arbitrary: s v)
  case 0
  show ?case by simp
next
  case (Suc n)
  show ?case
    unfolding funpow_Suc_right comp_def
    by (simp add: dma0_mem_step_apply Suc.IH algebra_simps)
qed

lemma dma0_mem_steps_program:
  "program (fst ((dma0_mem_step w sd dd ^^ n) (s, v))) = copy_bytes n sd dd (sar0 v) (dar0 v) (program s)"
proof (induction n arbitrary: s v)
  case 0
  show ?case by simp
next
  case (Suc n)
  show ?case
    unfolding funpow_Suc_right comp_def
    by (simp add: dma0_mem_step_apply Suc.IH fun_upd_def)
qed

lemma dma0_mem_steps_iol:
  "m_iol (fst ((dma0_mem_step w sd dd ^^ n) (s, v))) =
     (if 1 \<le> bcr0 v \<and> bcr0 v \<le> int n then m_iol s OR Z180_TEND0 else m_iol s)"
proof (induction n arbitrary: s v)
  case 0
  show ?case by auto
next
  case (Suc n)
  show ?case
    unfolding funpow_Suc_right comp_def
    by (auto simp add: dma0_mem_step_apply Suc.IH or.assoc)
qed

lemma dma0_mem_steps_frame:
  "m_dstat (fst ((dma0_mem_step w sd dd ^^ n) (s, v))) = m_dstat s
   \<and> m_IFF1 (fst ((dma0_mem_step w sd dd ^^ n) (s, v))) = m_IFF1 s
   \<and> m_int_pending (fst ((dma0_mem_step w sd dd ^^ n) (s, v))) = m_int_pending s
   \<and> m_dma_bcr (fst ((dma0_mem_step w sd dd ^^ n) (s, v))) = m_dma_bcr s
   \<and> io_log (fst ((dma0_mem_step w sd dd ^^ n) (s, v))) = io_log s"
proof (induction n arbitrary: s v)
  case 0
  show ?case by simp
next
  case (Suc n)
  show ?case
    unfolding funpow_Suc_right comp_def
    by (simp add: dma0_mem_step_apply Suc.IH)
qed


lemma tend0_bits:
  fixes x :: "32 word"
  shows "(x OR Z180_TEND0) AND Z180_TEND0 \<noteq> 0" "(x AND NOT Z180_TEND0) AND Z180_TEND0 = 0"
proof -
  have "(x OR Z180_TEND0) AND Z180_TEND0 = Z180_TEND0"
    by (simp add: and.commute)
  then show "(x OR Z180_TEND0) AND Z180_TEND0 \<noteq> 0" by (simp add: Z180_TEND0_def)
  show "(x AND NOT Z180_TEND0) AND Z180_TEND0 = 0" by (simp add: and.assoc)
qed

lemma dstat_die0_after_clear:
  fixes x :: "8 word"
  shows "((x AND NOT Z180_DSTAT_DE0) AND Z180_DSTAT_DIE0 \<noteq> 0) = (x AND Z180_DSTAT_DIE0 \<noteq> 0)"
proof -
  have b64: "\<not> bit (64::8 word) 2"
    using bit_exp_iff[where ?'a = "8 word", of 6 2] by simp
  have "((x AND NOT 64) AND 4 \<noteq> 0) = bit (x AND NOT 64) 2"
    using and_exp_eq_0_iff_not_bit[of "x AND NOT 64" 2] by simp
  also have "\<dots> = bit x 2" using b64 by (simp add: bit_and_iff bit_not_iff)
  also have "\<dots> = (x AND 4 \<noteq> 0)"
    using and_exp_eq_0_iff_not_bit[of x 2] by simp
  finally show ?thesis by (simp add: Z180_DSTAT_DE0_def Z180_DSTAT_DIE0_def)
qed

lemma or_and_not_same:
  fixes x :: "'a::len word"
  shows "(x OR y) AND NOT y = x AND NOT y"
  by (rule bit_word_eqI) (auto simp add: bit_simps)

lemma dma0_from_mem_to_mem:
  assumes mws: "\<And>t. m_dcntl t = m_dcntl s \<Longrightarrow> memory_wait_states E t = w"
    and w: "0 \<le> w"
    and mode: "dma0_memory_to_memory (m_dmode s)"
    and n: "1 \<le> n" "int n \<le> bcr"
    and budget: "(int n - 1) * (w * 2 + 6) \<le> max_cycles"
    and stop: "if m_dmode s AND Z180_DMODE_MMOD \<noteq> 0
               then bcr = int n \<or> max_cycles < int n * (w * 2 + 6) else n = 1"
  shows "dma0_loop E max_cycles (s, dma0_start s bcr) =
           (dma0_mem_step w (dma0_src_step (m_dmode s)) (dma0_dst_step (m_dmode s)) ^^ n)
             (s, dma0_start s bcr)"
proof (rule dma0_loop_burst[OF mws mode w n(1)])
  show "m_dcntl (fst (s, dma0_start s bcr)) = m_dcntl s" by simp
  show "m_dmode (fst (s, dma0_start s bcr)) = m_dmode s" by simp
  show "int n \<le> count (snd (s, dma0_start s bcr))"
    using stop n by (simp add: dma0_start_def split: if_splits)
  show "cycles (snd (s, dma0_start s bcr)) + (int n - 1) * (w * 2 + 6) \<le> max_cycles"
    using budget by (simp add: dma0_start_def)
  show "count (snd (s, dma0_start s bcr)) = int n
        \<or> max_cycles < cycles (snd (s, dma0_start s bcr)) + int n * (w * 2 + 6)"
    using stop by (simp add: dma0_start_def split: if_splits)
qed (assumption)

lemma dma0_mem_steps_finish:
  fixes w :: int and sd dd :: "32 word" and s :: z180_state and bcr :: int and n :: nat
  assumes n: "1 \<le> n" "int n \<le> bcr"
  defines "r \<equiv> (dma0_mem_step w sd dd ^^ n) (s, dma0_start s bcr)"
  defines "s' \<equiv> dma0_terminal_count (bcr0 (snd r)) (dma0_write_back r)"
  shows "cycles (snd r) = int n * (w * 2 + 6)"
    and "m_iol (fst r) = (if bcr = int n then m_iol s OR Z180_TEND0 else m_iol s)"
    and "program s' = copy_bytes n sd dd (m_dma_sar0 s) (m_dma_dar0 s) (program s)"
    and "m_dma_sar0 s' = m_dma_sar0 s + of_nat n * sd"
    and "m_dma_dar0 s' = m_dma_dar0 s + of_nat n * dd"
    and "m_dma_bcr s' = (m_dma_bcr s)(0 := word_of_int (bcr - int n))"
    and "m_iol s' = (if bcr = int n then m_iol s AND NOT Z180_TEND0 else m_iol s)"
    and "m_dstat s' = (if bcr = int n then m_dstat s AND NOT Z180_DSTAT_DE0 else m_dstat s)"
    and "m_int_pending s' =
           (if bcr = int n \<and> m_dstat s AND Z180_DSTAT_DIE0 \<noteq> 0 \<and> m_IFF1 s \<noteq> 0
            then (m_int_pending s)(Z180_INT_DMA0 := 1) else m_int_pending s)"
proof -
  let ?v = "dma0_start s bcr"
  note vars = dma0_mem_steps_vars[where w = w and sd = sd and dd = dd and n = n and s = s and v = "?v"]
  note prog = dma0_mem_steps_program[where w = w and sd = sd and dd = dd and n = n and s = s and v = "?v"]
  note iol = dma0_mem_steps_iol[where w = w and sd = sd and dd = dd and n = n and s = s and v = "?v"]
  note frame = dma0_mem_steps_frame[where w = w and sd = sd and dd = dd and n = n and s = s and v = "?v"]
  have b0: "bcr0 (snd r) = bcr - int n" unfolding r_def using vars by (simp add: dma0_start_def)
  have sa: "sar0 (snd r) = m_dma_sar0 s + of_nat n * sd" "dar0 (snd r) = m_dma_dar0 s + of_nat n * dd"
    unfolding r_def using vars by (simp_all add: dma0_start_def)
  have pr: "program (fst r) = copy_bytes n sd dd (m_dma_sar0 s) (m_dma_dar0 s) (program s)"
    unfolding r_def using prog by (simp add: dma0_start_def)
  have fr: "m_dstat (fst r) = m_dstat s" "m_IFF1 (fst r) = m_IFF1 s"
    "m_int_pending (fst r) = m_int_pending s" "m_dma_bcr (fst r) = m_dma_bcr s"
    unfolding r_def using frame by simp_all
  show "cycles (snd r) = int n * (w * 2 + 6)"
    unfolding r_def using vars by (simp add: dma0_start_def)
  have wb: "dma0_write_back r =
        (fst r)\<lparr>m_dma_sar0 := sar0 (snd r), m_dma_dar0 := dar0 (snd r),
                 m_dma_bcr := (m_dma_bcr (fst r))(0 := word_of_int (bcr0 (snd r)))\<rparr>"
    by (simp add: dma0_write_back_def case_prod_unfold)
  show i: "m_iol (fst r) = (if bcr = int n then m_iol s OR Z180_TEND0 else m_iol s)"
    unfolding r_def using iol n by (simp add: dma0_start_def)
  show "program s' = copy_bytes n sd dd (m_dma_sar0 s) (m_dma_dar0 s) (program s)"
    unfolding s'_def wb by (simp add: dma0_terminal_count_def Let_def pr)
  show "m_dma_sar0 s' = m_dma_sar0 s + of_nat n * sd"
    unfolding s'_def wb by (simp add: dma0_terminal_count_def Let_def sa)
  show "m_dma_dar0 s' = m_dma_dar0 s + of_nat n * dd"
    unfolding s'_def wb by (simp add: dma0_terminal_count_def Let_def sa)
  show "m_dma_bcr s' = (m_dma_bcr s)(0 := word_of_int (bcr - int n))"
    unfolding s'_def wb b0 by (simp add: dma0_terminal_count_def Let_def fr)
  show "m_iol s' = (if bcr = int n then m_iol s AND NOT Z180_TEND0 else m_iol s)"
    unfolding s'_def wb b0 by (simp add: dma0_terminal_count_def Let_def i or_and_not_same)
  show "m_dstat s' = (if bcr = int n then m_dstat s AND NOT Z180_DSTAT_DE0 else m_dstat s)"
    unfolding s'_def wb b0 by (simp add: dma0_terminal_count_def Let_def fr)
  show "m_int_pending s' =
           (if bcr = int n \<and> m_dstat s AND Z180_DSTAT_DIE0 \<noteq> 0 \<and> m_IFF1 s \<noteq> 0
            then (m_int_pending s)(Z180_INT_DMA0 := 1) else m_int_pending s)"
    unfolding s'_def wb b0
    by (simp add: dma0_terminal_count_def Let_def dstat_die0_after_clear fr)
qed


lemma copy_bytes_numeral:
  "copy_bytes (numeral k) sd dd a b m =
     copy_bytes (pred_numeral k) sd dd (a + sd) (b + dd) (m(b AND 0xFFFFF := m (a AND 0xFFFFF)))"
  by (simp add: numeral_eq_Suc)

lemma copy_bytes_1:
  "copy_bytes 1 sd dd a b m = m(b AND 0xFFFFF := m (a AND 0xFFFFF))"
  by simp

lemma z180_dma0_count:
  "z180_dma0 E s max_cycles =
     dma0_from E s max_cycles (if m_dma_bcr s 0 = 0 then 65536 else uint (m_dma_bcr s 0))"
  by (simp add: z180_dma0_def Let_def uint_0_iff)

lemma dma0_from_enabled:
  "m_dstat s AND Z180_DSTAT_DE0 \<noteq> 0 \<Longrightarrow>
   dma0_from E s max_cycles bcr =
     (cycles (snd (dma0_loop E max_cycles (s, dma0_start s bcr))),
      dma0_terminal_count (bcr0 (snd (dma0_loop E max_cycles (s, dma0_start s bcr))))
        (dma0_write_back (dma0_loop E max_cycles (s, dma0_start s bcr))))"
  by (simp add: dma0_from_def Let_def)

text \<open>
  Claim C4, amended. Channel 0, memory to memory, burst mode, byte count 4, enabled, and
  a cycle budget that is not used up before the fourth byte (three transfers of
  \<open>2 * w + 6\<close> cycles each fit in it, \<open>w\<close> being the memory wait states): one dispatch
  copies 4 bytes one after the other, source and destination stepped by +1, -1 or 0
  as the mode selects, takes \<open>4 * (2 * w + 6)\<close> cycles, leaves the count register at 0,
  clears DE0 and queues the DMA0 interrupt if DIE0 and IFF1 are set. The transfer-end
  output TEND0 is raised for the transfer of the last byte (it is set when the loop is
  left) and lowered again at terminal count: it is clear when the dispatch returns.
\<close>

theorem C4_dma0_burst_of_four:
  assumes mws: "\<And>t. m_dcntl t = m_dcntl s \<Longrightarrow> memory_wait_states E t = w"
    and w: "0 \<le> w"
    and mode: "dma0_memory_to_memory (m_dmode s)"
    and burst: "m_dmode s AND Z180_DMODE_MMOD \<noteq> 0"
    and cnt: "m_dma_bcr s 0 = 4"
    and en: "m_dstat s AND Z180_DSTAT_DE0 \<noteq> 0"
    and budget: "3 * (w * 2 + 6) \<le> max_cycles"
  shows "fst (z180_dma0 E s max_cycles) = 4 * (w * 2 + 6)
       \<and> program (snd (z180_dma0 E s max_cycles)) =
           copy_bytes 4 (dma0_src_step (m_dmode s)) (dma0_dst_step (m_dmode s))
             (m_dma_sar0 s) (m_dma_dar0 s) (program s)
       \<and> m_dma_sar0 (snd (z180_dma0 E s max_cycles)) = m_dma_sar0 s + 4 * dma0_src_step (m_dmode s)
       \<and> m_dma_dar0 (snd (z180_dma0 E s max_cycles)) = m_dma_dar0 s + 4 * dma0_dst_step (m_dmode s)
       \<and> m_dma_bcr (snd (z180_dma0 E s max_cycles)) 0 = 0
       \<and> get_tend0 (fst (dma0_loop E max_cycles (s, dma0_start s 4)))
       \<and> \<not> get_tend0 (snd (z180_dma0 E s max_cycles))
       \<and> m_dstat (snd (z180_dma0 E s max_cycles)) = m_dstat s AND NOT Z180_DSTAT_DE0
       \<and> m_int_pending (snd (z180_dma0 E s max_cycles)) =
           (if m_dstat s AND Z180_DSTAT_DIE0 \<noteq> 0 \<and> m_IFF1 s \<noteq> 0
            then (m_int_pending s)(Z180_INT_DMA0 := 1) else m_int_pending s)"
proof -
  let ?sd = "dma0_src_step (m_dmode s)" and ?dd = "dma0_dst_step (m_dmode s)"
  have loop: "dma0_loop E max_cycles (s, dma0_start s 4) =
                (dma0_mem_step w ?sd ?dd ^^ 4) (s, dma0_start s 4)"
    using dma0_from_mem_to_mem[OF mws w mode, where n = 4 and bcr = 4 and max_cycles = max_cycles]
      budget burst by simp
  have z: "z180_dma0 E s max_cycles = dma0_from E s max_cycles 4"
    unfolding z180_dma0_count using cnt by simp
  note res = z[unfolded dma0_from_enabled[OF en] loop]
  note f = dma0_mem_steps_finish[where n = 4 and bcr = 4 and w = w and sd = ?sd and dd = ?dd and s = s]
  have c: "fst (z180_dma0 E s max_cycles) = 4 * (w * 2 + 6)"
    unfolding res using f(1) by simp
  have p: "program (snd (z180_dma0 E s max_cycles)) =
           copy_bytes 4 ?sd ?dd (m_dma_sar0 s) (m_dma_dar0 s) (program s)"
    unfolding res using f(3) by simp
  have a: "m_dma_sar0 (snd (z180_dma0 E s max_cycles)) = m_dma_sar0 s + 4 * ?sd"
    "m_dma_dar0 (snd (z180_dma0 E s max_cycles)) = m_dma_dar0 s + 4 * ?dd"
    "m_dma_bcr (snd (z180_dma0 E s max_cycles)) 0 = 0"
    unfolding res using f(4) f(5) f(6) by simp_all
  have i4: "m_iol (fst ((dma0_mem_step w ?sd ?dd ^^ 4) (s, dma0_start s 4))) = m_iol s OR Z180_TEND0"
    using f(2) by simp
  have t1: "get_tend0 (fst (dma0_loop E max_cycles (s, dma0_start s 4)))"
    unfolding loop get_tend0_def i4 by (rule tend0_bits(1))
  have t2: "\<not> get_tend0 (snd (z180_dma0 E s max_cycles))"
    unfolding res get_tend0_def using f(7) by (simp add: tend0_bits)
  have d: "m_dstat (snd (z180_dma0 E s max_cycles)) = m_dstat s AND NOT Z180_DSTAT_DE0"
    unfolding res using f(8) by simp
  have q: "m_int_pending (snd (z180_dma0 E s max_cycles)) =
           (if m_dstat s AND Z180_DSTAT_DIE0 \<noteq> 0 \<and> m_IFF1 s \<noteq> 0
            then (m_int_pending s)(Z180_INT_DMA0 := 1) else m_int_pending s)"
    unfolding res using f(9) by simp
  from c p a t1 t2 d q show ?thesis by simp
qed

lemma dma0_copy4_fields:
  "m_dcntl dma0_copy4 = 0xf0" "m_dmode dma0_copy4 = 0x12" "m_dstat dma0_copy4 = 0x45"
  "m_dma_bcr dma0_copy4 0 = 4" "m_IFF1 dma0_copy4 = 1"
  "m_dma_sar0 dma0_copy4 = 0x100" "m_dma_dar0 dma0_copy4 = 0x203"
  "m_iol dma0_copy4 = 0" "m_int_pending dma0_copy4 i = 0"
  "program dma0_copy4 = (\<lambda>a. if a = 0x100 then 0x11 else if a = 0x101 then 0x22
                       else if a = 0x102 then 0x33 else if a = 0x103 then 0x44 else 0)"
  by (simp_all add: dma0_copy4_def power_on_def device_reset_def z180_mmu_def constructed_def)

lemma dma0_copy4_mode:
  "dma0_memory_to_memory (m_dmode dma0_copy4)"
  "m_dmode dma0_copy4 AND Z180_DMODE_MMOD \<noteq> 0"
  "m_dstat dma0_copy4 AND Z180_DSTAT_DE0 \<noteq> 0"
  "m_dstat dma0_copy4 AND Z180_DSTAT_DIE0 \<noteq> 0"
  "dma0_src_step (m_dmode dma0_copy4) = 1"
  "dma0_dst_step (m_dmode dma0_copy4) = - 1"
  by (simp_all add: dma0_copy4_fields dma0_memory_to_memory_def dma0_src_step_def dma0_dst_step_def
        Z180_DMODE_SM_def Z180_DMODE_DM_def Z180_DMODE_MMOD_def Z180_DSTAT_DE0_def Z180_DSTAT_DIE0_def)

lemma sample_ext_wait_states:
  "m_dcntl t = 0xf0 \<Longrightarrow> memory_wait_states sample_ext t = 3"
  by (simp add: sample_ext_def)


theorem C4_dma0_burst_of_four_witness:
  "dma0_memory_to_memory (m_dmode dma0_copy4)
   \<and> m_dmode dma0_copy4 AND Z180_DMODE_MMOD \<noteq> 0
   \<and> m_dma_bcr dma0_copy4 0 = 4
   \<and> m_dstat dma0_copy4 AND Z180_DSTAT_DE0 \<noteq> 0
   \<and> fst (z180_dma0 sample_ext dma0_copy4 1000) = 48
   \<and> program (snd (z180_dma0 sample_ext dma0_copy4 1000)) 0x203 = 0x11
   \<and> program (snd (z180_dma0 sample_ext dma0_copy4 1000)) 0x202 = 0x22
   \<and> program (snd (z180_dma0 sample_ext dma0_copy4 1000)) 0x201 = 0x33
   \<and> program (snd (z180_dma0 sample_ext dma0_copy4 1000)) 0x200 = 0x44
   \<and> m_dma_sar0 (snd (z180_dma0 sample_ext dma0_copy4 1000)) = 0x104
   \<and> m_dma_dar0 (snd (z180_dma0 sample_ext dma0_copy4 1000)) = 0x1ff
   \<and> m_dma_bcr (snd (z180_dma0 sample_ext dma0_copy4 1000)) 0 = 0
   \<and> get_tend0 (fst (dma0_loop sample_ext 1000 (dma0_copy4, dma0_start dma0_copy4 4)))
   \<and> m_dstat (snd (z180_dma0 sample_ext dma0_copy4 1000)) = 0x05
   \<and> m_int_pending (snd (z180_dma0 sample_ext dma0_copy4 1000)) Z180_INT_DMA0 = 1"
proof -
  have mws: "\<And>t. m_dcntl t = m_dcntl dma0_copy4 \<Longrightarrow> memory_wait_states sample_ext t = 3"
    by (simp add: dma0_copy4_fields sample_ext_wait_states)
  have w: "(0::int) \<le> 3" by simp
  have b: "3 * ((3::int) * 2 + 6) \<le> 1000" by simp
  note r = C4_dma0_burst_of_four[OF mws w dma0_copy4_mode(1) dma0_copy4_mode(2)
      dma0_copy4_fields(4) dma0_copy4_mode(3) b, unfolded dma0_copy4_mode(5) dma0_copy4_mode(6)]
  from r have c: "fst (z180_dma0 sample_ext dma0_copy4 1000) = 48" by simp
  from r have p: "program (snd (z180_dma0 sample_ext dma0_copy4 1000)) =
      copy_bytes 4 1 (- 1) 0x100 0x203 (program dma0_copy4)"
    by (simp add: dma0_copy4_mode dma0_copy4_fields)
  have p': "program (snd (z180_dma0 sample_ext dma0_copy4 1000)) 0x203 = 0x11"
    "program (snd (z180_dma0 sample_ext dma0_copy4 1000)) 0x202 = 0x22"
    "program (snd (z180_dma0 sample_ext dma0_copy4 1000)) 0x201 = 0x33"
    "program (snd (z180_dma0 sample_ext dma0_copy4 1000)) 0x200 = 0x44"
    unfolding p by (simp_all add: copy_bytes_numeral copy_bytes_1 dma0_copy4_fields)
  from r have a: "m_dma_sar0 (snd (z180_dma0 sample_ext dma0_copy4 1000)) = 0x104"
    "m_dma_dar0 (snd (z180_dma0 sample_ext dma0_copy4 1000)) = 0x1ff"
    "m_dma_bcr (snd (z180_dma0 sample_ext dma0_copy4 1000)) 0 = 0"
    by (simp_all add: dma0_copy4_mode dma0_copy4_fields)
  from r have t: "get_tend0 (fst (dma0_loop sample_ext 1000 (dma0_copy4, dma0_start dma0_copy4 4)))"
    by simp
  from r have d: "m_dstat (snd (z180_dma0 sample_ext dma0_copy4 1000)) = 0x05"
    by (simp add: dma0_copy4_fields Z180_DSTAT_DE0_def)
  from r have q: "m_int_pending (snd (z180_dma0 sample_ext dma0_copy4 1000)) Z180_INT_DMA0 = 1"
    by (simp add: dma0_copy4_fields Z180_DSTAT_DIE0_def)
  from dma0_copy4_mode dma0_copy4_fields(4) c p' a t d q show ?thesis by simp
qed

text \<open>
  Claim C4 as stated fails on its transfer-end conjunct. The machine \<open>dma0_copy4\<close> is
  channel 0 in a memory-to-memory burst mode with count 4 and DE0 set; after one
  dispatch with a budget of 1000 cycles the count is 0 and DE0 is clear, but the
  transfer-end output is not asserted: \<open>m_iol &= ~Z180_TEND0\<close> at terminal count has
  lowered it again.
\<close>

theorem C4_counterexample:
  "dma0_memory_to_memory (m_dmode dma0_copy4)
   \<and> m_dmode dma0_copy4 AND Z180_DMODE_MMOD \<noteq> 0
   \<and> m_dma_bcr dma0_copy4 0 = 4
   \<and> m_dstat dma0_copy4 AND Z180_DSTAT_DE0 \<noteq> 0
   \<and> m_dma_bcr (snd (z180_dma0 sample_ext dma0_copy4 1000)) 0 = 0
   \<and> m_dstat (snd (z180_dma0 sample_ext dma0_copy4 1000)) AND Z180_DSTAT_DE0 = 0
   \<and> \<not> get_tend0 (snd (z180_dma0 sample_ext dma0_copy4 1000))"
proof -
  let ?f = "dma0_mem_step 3 (dma0_src_step (m_dmode dma0_copy4)) (dma0_dst_step (m_dmode dma0_copy4))"
  have mws: "\<And>t. m_dcntl t = m_dcntl dma0_copy4 \<Longrightarrow> memory_wait_states sample_ext t = 3"
    by (simp add: dma0_copy4_fields sample_ext_wait_states)
  have w: "(0::int) \<le> 3" by simp
  have loop: "dma0_loop sample_ext 1000 (dma0_copy4, dma0_start dma0_copy4 4) =
                (?f ^^ 4) (dma0_copy4, dma0_start dma0_copy4 4)"
    using dma0_from_mem_to_mem[OF mws w dma0_copy4_mode(1), where n = 4 and bcr = 4 and max_cycles = 1000]
      dma0_copy4_mode(2) by simp
  have z: "z180_dma0 sample_ext dma0_copy4 1000 = dma0_from sample_ext dma0_copy4 1000 4"
    unfolding z180_dma0_count by (simp add: dma0_copy4_fields)
  note res = z[unfolded dma0_from_enabled[OF dma0_copy4_mode(3)] loop]
  note f = dma0_mem_steps_finish[where n = 4 and bcr = 4 and w = 3
      and sd = "dma0_src_step (m_dmode dma0_copy4)" and dd = "dma0_dst_step (m_dmode dma0_copy4)"
      and s = dma0_copy4]
  have b: "m_dma_bcr (snd (z180_dma0 sample_ext dma0_copy4 1000)) 0 = 0"
    unfolding res using f(6) by simp
  have d: "m_dstat (snd (z180_dma0 sample_ext dma0_copy4 1000)) AND Z180_DSTAT_DE0 = 0"
    unfolding res using f(8) by (simp add: and.assoc)
  have t: "\<not> get_tend0 (snd (z180_dma0 sample_ext dma0_copy4 1000))"
    unfolding res get_tend0_def using f(7) by (simp add: tend0_bits)
  from dma0_copy4_mode dma0_copy4_fields(4) b d t show ?thesis by simp
qed

lemma and_not_disjoint:
  fixes x :: "'a::len word"
  assumes "a AND b = 0"
  shows "(x AND NOT a) AND b = x AND b"
proof (rule bit_word_eqI)
  fix n
  from assms have "bit (a AND b) n = bit (0::'a word) n" by simp
  then have "\<not> (bit a n \<and> bit b n)" by (simp add: bit_and_iff)
  then show "bit ((x AND NOT a) AND b) n = bit (x AND b) n"
    by (auto simp add: bit_and_iff bit_not_iff dest: bit_imp_le_length)
qed

lemma dim_cases:
  fixes d :: "8 word"
  shows "d AND 0x03 \<in> {0x00, 0x01, 0x02, 0x03}"
proof -
  have "d AND 0x03 \<le> 0x03" by (rule word_and_le1)
  then have "unat (d AND 0x03) \<le> 3" by (simp add: word_le_nat_alt)
  then have "unat (d AND 0x03) \<in> {0, 1, 2, 3}" by auto
  then have "(of_nat (unat (d AND 0x03)) :: 8 word) \<in> of_nat ` {0, 1, 2, 3}" by (rule imageI)
  then show ?thesis by simp
qed

lemma dim_fields:
  fixes m :: "8 word"
  assumes "m AND 0x03 = k"
  shows "m AND 0x01 = k AND 0x01" "m AND 0x02 = k AND 0x02"
proof -
  have "m AND 0x01 = (m AND 0x03) AND 0x01" by (simp add: and.assoc)
  then show "m AND 0x01 = k AND 0x01" using assms by simp
  have "m AND 0x02 = (m AND 0x03) AND 0x02" by (simp add: and.assoc)
  then show "m AND 0x02 = k AND 0x02" using assms by simp
qed

lemma z180_dma1_count:
  "z180_dma1 E s = dma1_from E s (if m_dma_bcr s 1 = 0 then 65536 else uint (m_dma_bcr s 1))"
  by (simp add: z180_dma1_def Let_def uint_0_iff)

lemma tend1_after_dreq1:
  "((x AND NOT Z180_DREQ1) AND Z180_TEND1 \<noteq> 0) = (x AND Z180_TEND1 \<noteq> 0)"
proof -
  have "Z180_DREQ1 AND Z180_TEND1 = 0" by (simp add: Z180_DREQ1_def Z180_TEND1_def)
  from and_not_disjoint[OF this] show ?thesis by simp
qed

lemma dma1_from_65536:
  assumes rq: "m_iol t AND Z180_DREQ1 \<noteq> 0" and en: "m_dstat t AND Z180_DSTAT_DE1 \<noteq> 0"
    and mws: "\<And>u. m_dcntl u = m_dcntl t \<Longrightarrow> memory_wait_states E u = w"
  shows "fst (dma1_from E t 65536) = 6 + w
       \<and> m_dma_bcr (snd (dma1_from E t 65536)) = (m_dma_bcr t)(1 := 0)
       \<and> m_dstat (snd (dma1_from E t 65536)) = m_dstat t
       \<and> m_int_pending (snd (dma1_from E t 65536)) = m_int_pending t
       \<and> get_tend1 (snd (dma1_from E t 65536)) = get_tend1 t
       \<and> m_dma_mar1 (snd (dma1_from E t 65536)) =
           (if m_dcntl t AND Z180_DCNTL_DIM0 = 0 then m_dma_mar1 t + 1 else m_dma_mar1 t - 1)
       \<and> io_log (snd (dma1_from E t 65536)) = io_log t @
           [if m_dcntl t AND Z180_DCNTL_DIM1 = 0
            then IoWrite (ucast (w_l (m_dma_iar1 t)) AND 0xFFFF) (program t (m_dma_mar1 t AND 0xFFFFF))
            else IoRead (ucast (w_l (m_dma_iar1 t)) AND 0xFFFF)]
       \<and> program (snd (dma1_from E t 65536)) =
           (if m_dcntl t AND Z180_DCNTL_DIM1 = 0 then program t
            else (program t)(m_dma_mar1 t AND 0xFFFFF := iospace t (ucast (w_l (m_dma_iar1 t)) AND 0xFFFF)))"
proof -
  have w': "\<And>u. m_dcntl u = m_dcntl t \<Longrightarrow> memory_wait_states E u = w" by (rule mws)
  have z16: "(65536::16 word) = 0" by simp
  from dim_cases[of "m_dcntl t"]
  consider "m_dcntl t AND 0x03 = 0x00" | "m_dcntl t AND 0x03 = 0x01"
    | "m_dcntl t AND 0x03 = 0x02" | "m_dcntl t AND 0x03 = 0x03" by auto
  then show ?thesis
  proof cases
    case 1
    from 1 dim_fields[OF 1] rq en show ?thesis
      by (simp add: dma1_from_def dma1_switch_def dma1_terminal_count_def Let_def w' z16
            Z180_DCNTL_DIM1_def Z180_DCNTL_DIM0_def get_tend1_def tend1_after_dreq1
            io_write_byte_def io_read_byte_def program_read_byte_def program_write_byte_def)
  next
    case 2
    from 2 dim_fields[OF 2] rq en show ?thesis
      by (simp add: dma1_from_def dma1_switch_def dma1_terminal_count_def Let_def w' z16
            Z180_DCNTL_DIM1_def Z180_DCNTL_DIM0_def get_tend1_def tend1_after_dreq1
            io_write_byte_def io_read_byte_def program_read_byte_def program_write_byte_def)
  next
    case 3
    from 3 dim_fields[OF 3] rq en show ?thesis
      by (simp add: dma1_from_def dma1_switch_def dma1_terminal_count_def Let_def w' z16
            Z180_DCNTL_DIM1_def Z180_DCNTL_DIM0_def get_tend1_def tend1_after_dreq1
            io_write_byte_def io_read_byte_def program_read_byte_def program_write_byte_def)
  next
    case 4
    from 4 dim_fields[OF 4] rq en show ?thesis
      by (simp add: dma1_from_def dma1_switch_def dma1_terminal_count_def Let_def w' z16
            Z180_DCNTL_DIM1_def Z180_DCNTL_DIM0_def get_tend1_def tend1_after_dreq1
            io_write_byte_def io_read_byte_def program_read_byte_def program_write_byte_def)
  qed
qed


text \<open>
  Claim C5. A dispatch that finds the channel's count register at 0 runs with the count
  65536. Channel 0 (enabled, in a memory-to-memory mode, \<open>w\<close> memory wait states): the
  dispatch is the one for count 65536; it moves \<open>n\<close> bytes, where \<open>n\<close> is 1 in
  cycle-steal mode and in burst mode the number of transfers until the cycle budget is
  exceeded, at most 65536; it leaves \<open>65536 - n\<close> in the count register (0xFFFF after a
  single byte), and unless all 65536 bytes were moved it keeps DE0 set, leaves the
  I/O lines as they were and queues no interrupt. Channel 1 (DREQ1 asserted, enabled):
  the dispatch is the one for count 65536; it moves one byte between memory and the
  I/O port, steps MAR1, and does not treat the count as reached: DE1 stays set, TEND1
  is as before, no interrupt is queued, and the count register still reads 0.
\<close>

theorem C5_zero_count_register_is_65536:
  fixes s t :: z180_state
  assumes c0: "m_dma_bcr s 0 = 0"
    and en0: "m_dstat s AND Z180_DSTAT_DE0 \<noteq> 0"
    and mode: "dma0_memory_to_memory (m_dmode s)"
    and mws0: "\<And>u. m_dcntl u = m_dcntl s \<Longrightarrow> memory_wait_states E u = w"
    and w: "0 \<le> w"
    and n: "1 \<le> n" "n \<le> 65536"
    and budget: "(int n - 1) * (w * 2 + 6) \<le> max_cycles"
    and stop: "if m_dmode s AND Z180_DMODE_MMOD \<noteq> 0
               then n = 65536 \<or> max_cycles < int n * (w * 2 + 6) else n = 1"
    and c1: "m_dma_bcr t 1 = 0"
    and rq1: "m_iol t AND Z180_DREQ1 \<noteq> 0"
    and en1: "m_dstat t AND Z180_DSTAT_DE1 \<noteq> 0"
    and mws1: "\<And>u. m_dcntl u = m_dcntl t \<Longrightarrow> memory_wait_states E u = w1"
  shows "dma0_from E s max_cycles 65536 = z180_dma0 E s max_cycles
       \<and> fst (z180_dma0 E s max_cycles) = int n * (w * 2 + 6)
       \<and> program (snd (z180_dma0 E s max_cycles)) =
           copy_bytes n (dma0_src_step (m_dmode s)) (dma0_dst_step (m_dmode s))
             (m_dma_sar0 s) (m_dma_dar0 s) (program s)
       \<and> m_dma_bcr (snd (z180_dma0 E s max_cycles)) 0 = word_of_int (65536 - int n)
       \<and> m_dstat (snd (z180_dma0 E s max_cycles)) =
           (if n = 65536 then m_dstat s AND NOT Z180_DSTAT_DE0 else m_dstat s)
       \<and> m_iol (snd (z180_dma0 E s max_cycles)) =
           (if n = 65536 then m_iol s AND NOT Z180_TEND0 else m_iol s)
       \<and> m_int_pending (snd (z180_dma0 E s max_cycles)) =
           (if n = 65536 \<and> m_dstat s AND Z180_DSTAT_DIE0 \<noteq> 0 \<and> m_IFF1 s \<noteq> 0
            then (m_int_pending s)(Z180_INT_DMA0 := 1) else m_int_pending s)
       \<and> dma1_from E t 65536 = z180_dma1 E t
       \<and> fst (z180_dma1 E t) = 6 + w1
       \<and> m_dma_bcr (snd (z180_dma1 E t)) 1 = 0
       \<and> m_dstat (snd (z180_dma1 E t)) = m_dstat t
       \<and> m_int_pending (snd (z180_dma1 E t)) = m_int_pending t
       \<and> get_tend1 (snd (z180_dma1 E t)) = get_tend1 t
       \<and> m_dma_mar1 (snd (z180_dma1 E t)) =
           (if m_dcntl t AND Z180_DCNTL_DIM0 = 0 then m_dma_mar1 t + 1 else m_dma_mar1 t - 1)
       \<and> io_log (snd (z180_dma1 E t)) = io_log t @
           [if m_dcntl t AND Z180_DCNTL_DIM1 = 0
            then IoWrite (ucast (w_l (m_dma_iar1 t)) AND 0xFFFF) (program t (m_dma_mar1 t AND 0xFFFFF))
            else IoRead (ucast (w_l (m_dma_iar1 t)) AND 0xFFFF)]
       \<and> program (snd (z180_dma1 E t)) =
           (if m_dcntl t AND Z180_DCNTL_DIM1 = 0 then program t
            else (program t)(m_dma_mar1 t AND 0xFFFFF := iospace t (ucast (w_l (m_dma_iar1 t)) AND 0xFFFF)))"
proof -
  let ?sd = "dma0_src_step (m_dmode s)" and ?dd = "dma0_dst_step (m_dmode s)"
  have e: "((65536::int) = int n) = (n = 65536)" by auto
  have n': "int n \<le> 65536" using n(2) by simp
  have stop': "if m_dmode s AND Z180_DMODE_MMOD \<noteq> 0
               then (65536::int) = int n \<or> max_cycles < int n * (w * 2 + 6) else n = 1"
    using stop by (simp add: e)
  have loop: "dma0_loop E max_cycles (s, dma0_start s 65536) =
                (dma0_mem_step w ?sd ?dd ^^ n) (s, dma0_start s 65536)"
    by (rule dma0_from_mem_to_mem[OF mws0 w mode n(1) n' budget stop'])
  have z0: "z180_dma0 E s max_cycles = dma0_from E s max_cycles 65536"
    unfolding z180_dma0_count using c0 by simp
  note res = z0[unfolded dma0_from_enabled[OF en0] loop]
  note f = dma0_mem_steps_finish[OF n(1) n', where w = w and sd = ?sd and dd = ?dd and s = s,
      unfolded e]
  have a: "fst (z180_dma0 E s max_cycles) = int n * (w * 2 + 6)"
    unfolding res using f(1) by simp
  have p: "program (snd (z180_dma0 E s max_cycles)) =
           copy_bytes n ?sd ?dd (m_dma_sar0 s) (m_dma_dar0 s) (program s)"
    unfolding res using f(3) by simp
  have b: "m_dma_bcr (snd (z180_dma0 E s max_cycles)) 0 = word_of_int (65536 - int n)"
    unfolding res using f(6) by simp
  have d: "m_dstat (snd (z180_dma0 E s max_cycles)) =
           (if n = 65536 then m_dstat s AND NOT Z180_DSTAT_DE0 else m_dstat s)"
    unfolding res using f(8) by simp
  have i: "m_iol (snd (z180_dma0 E s max_cycles)) =
           (if n = 65536 then m_iol s AND NOT Z180_TEND0 else m_iol s)"
    unfolding res using f(7) by simp
  have q: "m_int_pending (snd (z180_dma0 E s max_cycles)) =
           (if n = 65536 \<and> m_dstat s AND Z180_DSTAT_DIE0 \<noteq> 0 \<and> m_IFF1 s \<noteq> 0
            then (m_int_pending s)(Z180_INT_DMA0 := 1) else m_int_pending s)"
    unfolding res using f(9) by simp
  have z1: "z180_dma1 E t = dma1_from E t 65536"
    unfolding z180_dma1_count using c1 by simp
  note g = dma1_from_65536[OF rq1 en1 mws1, folded z1]
  from g have g1: "m_dma_bcr (snd (z180_dma1 E t)) 1 = 0" by simp
  from z0[symmetric] a p b d i q z1[symmetric] g g1 show ?thesis by simp
qed

lemma dma_count0_fields:
  "m_dcntl dma_count0 = 0xf0" "m_dmode dma_count0 = 0x12" "m_dstat dma_count0 = 0xcd"
  "m_dma_bcr dma_count0 i = 0" "m_IFF1 dma_count0 = 1"
  "m_dma_sar0 dma_count0 = 0x100" "m_dma_dar0 dma_count0 = 0x203"
  "m_iol dma_count0 = Z180_DREQ1" "m_dma_mar1 dma_count0 = 0x100" "m_dma_iar1 dma_count0 = 0x50"
  "program dma_count0 = program dma0_copy4" "io_log dma_count0 = []"
  by (simp_all add: dma_count0_def dma0_copy4_def power_on_def device_reset_def z180_mmu_def
        constructed_def)

lemma dma_count0_mode:
  "dma0_memory_to_memory (m_dmode dma_count0)"
  "m_dmode dma_count0 AND Z180_DMODE_MMOD \<noteq> 0"
  "m_dstat dma_count0 AND Z180_DSTAT_DE0 \<noteq> 0"
  "m_dstat dma_count0 AND Z180_DSTAT_DE1 \<noteq> 0"
  "m_iol dma_count0 AND Z180_DREQ1 \<noteq> 0"
  "dma0_src_step (m_dmode dma_count0) = 1"
  "dma0_dst_step (m_dmode dma_count0) = - 1"
  by (simp_all add: dma_count0_fields dma0_memory_to_memory_def dma0_src_step_def dma0_dst_step_def
        Z180_DMODE_SM_def Z180_DMODE_DM_def Z180_DMODE_MMOD_def Z180_DSTAT_DE0_def
        Z180_DSTAT_DE1_def Z180_DREQ1_def)

lemma copy_three_down:
  "copy_bytes 3 1 (- 1) 0x100 0x203 (program dma0_copy4) 0x203 = 0x11"
  "copy_bytes 3 1 (- 1) 0x100 0x203 (program dma0_copy4) 0x202 = 0x22"
  "copy_bytes 3 1 (- 1) 0x100 0x203 (program dma0_copy4) 0x201 = 0x33"
  "copy_bytes 3 1 (- 1) 0x100 0x203 (program dma0_copy4) 0x200 = 0"
  by (simp_all add: copy_bytes_numeral copy_bytes_1 dma0_copy4_fields)

theorem C5_zero_count_register_is_65536_witness:
  "m_dma_bcr dma_count0 0 = 0
   \<and> m_dma_bcr dma_count0 1 = 0
   \<and> fst (z180_dma0 sample_ext dma_count0 30) = 36
   \<and> program (snd (z180_dma0 sample_ext dma_count0 30)) 0x203 = 0x11
   \<and> program (snd (z180_dma0 sample_ext dma_count0 30)) 0x202 = 0x22
   \<and> program (snd (z180_dma0 sample_ext dma_count0 30)) 0x201 = 0x33
   \<and> program (snd (z180_dma0 sample_ext dma_count0 30)) 0x200 = 0
   \<and> m_dma_bcr (snd (z180_dma0 sample_ext dma_count0 30)) 0 = 0xfffd
   \<and> m_dstat (snd (z180_dma0 sample_ext dma_count0 30)) = 0xcd
   \<and> m_int_pending (snd (z180_dma0 sample_ext dma_count0 30)) = m_int_pending dma_count0
   \<and> fst (z180_dma1 sample_ext dma_count0) = 9
   \<and> m_dma_bcr (snd (z180_dma1 sample_ext dma_count0)) 1 = 0
   \<and> m_dstat (snd (z180_dma1 sample_ext dma_count0)) = 0xcd
   \<and> m_int_pending (snd (z180_dma1 sample_ext dma_count0)) = m_int_pending dma_count0
   \<and> m_dma_mar1 (snd (z180_dma1 sample_ext dma_count0)) = 0x101
   \<and> io_log (snd (z180_dma1 sample_ext dma_count0)) = [IoWrite 0x50 0x11]"
proof -
  have mws: "\<And>u. m_dcntl u = m_dcntl dma_count0 \<Longrightarrow> memory_wait_states sample_ext u = 3"
    by (simp add: dma_count0_fields sample_ext_wait_states)
  have w: "(0::int) \<le> 3" by simp
  have n: "1 \<le> (3::nat)" "(3::nat) \<le> 65536" by simp_all
  have b: "(int 3 - 1) * ((3::int) * 2 + 6) \<le> 30" by simp
  have st: "if m_dmode dma_count0 AND Z180_DMODE_MMOD \<noteq> 0
            then (3::nat) = 65536 \<or> (30::int) < int 3 * (3 * 2 + 6) else (3::nat) = 1"
    using dma_count0_mode(2) by simp
  note r = C5_zero_count_register_is_65536[OF dma_count0_fields(4) dma_count0_mode(3)
      dma_count0_mode(1) mws w n b st dma_count0_fields(4) dma_count0_mode(5) dma_count0_mode(4) mws,
      unfolded dma_count0_mode(6) dma_count0_mode(7)]
  from r have c: "fst (z180_dma0 sample_ext dma_count0 30) = 36" by simp
  from r have p: "program (snd (z180_dma0 sample_ext dma_count0 30)) =
      copy_bytes 3 1 (- 1) 0x100 0x203 (program dma0_copy4)"
    by (simp add: dma_count0_fields)
  from r have a: "m_dma_bcr (snd (z180_dma0 sample_ext dma_count0 30)) 0 = 0xfffd"
    "m_dstat (snd (z180_dma0 sample_ext dma_count0 30)) = 0xcd"
    "m_int_pending (snd (z180_dma0 sample_ext dma_count0 30)) = m_int_pending dma_count0"
    by (simp_all add: dma_count0_fields)
  from r have d: "fst (z180_dma1 sample_ext dma_count0) = 9"
    "m_dma_bcr (snd (z180_dma1 sample_ext dma_count0)) 1 = 0"
    "m_dstat (snd (z180_dma1 sample_ext dma_count0)) = 0xcd"
    "m_int_pending (snd (z180_dma1 sample_ext dma_count0)) = m_int_pending dma_count0"
    by (simp_all add: dma_count0_fields)
  from r have m: "m_dma_mar1 (snd (z180_dma1 sample_ext dma_count0)) = 0x101"
    by (simp add: dma_count0_fields Z180_DCNTL_DIM0_def)
  from r have l: "io_log (snd (z180_dma1 sample_ext dma_count0)) = [IoWrite 0x50 0x11]"
    by (simp add: dma_count0_fields dma0_copy4_fields Z180_DCNTL_DIM1_def w_l_def)
  from dma_count0_fields(4) c copy_three_down[folded p] a d m l show ?thesis by simp
qed

end
